theory Spec2Isabelle
  imports Main "HOL-Library.Signed_Division"
begin

unbundle bit_operations_syntax

section \<open>The Java binding of the CephFS client (libcephfs_jni.cc)\<close>

text \<open>
  The binding is a set of C++ functions, one per native method of
  \<open>com.ceph.fs.CephMount\<close>. Each validates its Java arguments, checks that the mount
  handle is mounted, calls one function of libcephfs and turns a negative return code into
  a Java exception. The embedding keeps that shape: a Java reference is a value that may be
  null, a pending exception is a value, and every call into libcephfs goes through one
  function that also records the call.
\<close>

subsection \<open>C integers, error numbers, Java references and exceptions\<close>

text \<open>
  C and Java integers are integers here, and a conversion or an arithmetic step that can
  leave the range of its type is written out: \<open>to_int32\<close> is what a value becomes as
  an \<open>int\<close> or a \<open>jint\<close>, \<open>to_int64\<close> what it becomes as a \<open>long long\<close> or a
  \<open>jlong\<close> (two's complement; C++ leaves the overflow of a signed product undefined,
  and this is what the machine computes). C's division truncates towards zero: \<open>sdiv\<close>.
  The error numbers are those of Linux's errno.h.
\<close>

definition to_int32 :: "int \<Rightarrow> int" where
  "to_int32 x = (x + 2147483648) mod 4294967296 - 2147483648"

definition to_int64 :: "int \<Rightarrow> int" where
  "to_int64 x = (x + 9223372036854775808) mod 18446744073709551616 - 9223372036854775808"

text \<open>A \<open>jint\<close> stored into an unsigned 32-bit field (\<open>mode_t\<close>, \<open>uid_t\<close>, \<open>gid_t\<close>).\<close>

definition to_uint32 :: "int \<Rightarrow> int" where
  "to_uint32 x = x mod 4294967296"

text \<open>\<open>buflen *= 2\<close> on an \<open>int\<close>.\<close>

definition doubled :: "int \<Rightarrow> int" where
  "doubled buflen = to_int32 (buflen * 2)"

definition ENOENT :: int where "ENOENT = 2"
definition EBADF :: int where "EBADF = 9"
definition EEXIST :: int where "EEXIST = 17"
definition ENOTDIR :: int where "ENOTDIR = 20"
definition EINVAL :: int where "EINVAL = 22"
definition ERANGE :: int where "ERANGE = 34"
definition ENAMETOOLONG :: int where "ENAMETOOLONG = 36"
definition ELOOP :: int where "ELOOP = 40"
definition ENODATA :: int where "ENODATA = 61"

lemmas errno_defs =
  ENOENT_def EBADF_def EEXIST_def ENOTDIR_def EINVAL_def ERANGE_def ENAMETOOLONG_def
  ELOOP_def ENODATA_def

text \<open>A Java reference argument (\<open>jstring\<close>, \<open>jobject\<close>, \<open>jbyteArray\<close>): null or an object.\<close>

datatype 'a jref = JNull | JRef 'a

type_synonym bytes = string

text \<open>
  The exceptions the binding throws, by the class name given to \<open>THROW\<close>.
  \<open>IOException\<close> carries the error number whose \<open>strerror\<close> text is its message.
  \<open>ThrownByJVM\<close> is what the runtime itself leaves pending when \<open>FindClass\<close>,
  \<open>NewStringUTF\<close>, \<open>NewObjectArray\<close> or \<open>SetObjectArrayElement\<close> fails; the binding
  then throws nothing of its own.
\<close>

datatype jexception =
    NullPointerException string
  | OutOfMemoryException string
  | InternalError string
  | IndexOutOfBoundsException string
  | IllegalArgumentException string
  | FileNotFoundException
  | CephFileAlreadyExistsException
  | CephNotDirectoryException
  | CephNotMountedException
  | IOException int
  | ThrownByJVM

text \<open>
  What the Java runtime and the C++ heap may refuse or hold: finding a class by its name,
  throwing an exception, pinning a string or a byte array, \<open>new (std::nothrow)\<close> of a
  buffer or of a \<open>std::string\<close>, creating or storing Java objects; and \<open>beyond\<close>, the
  bytes that lie behind a buffer in the heap, which a read that runs off the end of the
  buffer finds (such a read is undefined in C++: these bytes may be anything).
\<close>

record jenv =
  FindClass :: "string \<Rightarrow> bool"
  ThrowNew :: "jexception \<Rightarrow> bool"
  pin_string :: "string \<Rightarrow> bool"
  pin_bytes :: "bytes \<Rightarrow> bool"
  new_chars :: "int \<Rightarrow> bool"
  new_string :: "string \<Rightarrow> bool"
  NewStringUTF :: "string \<Rightarrow> bool"
  NewObjectArray :: "nat \<Rightarrow> bool"
  SetObjectArrayElement :: "nat \<Rightarrow> string \<Rightarrow> bool"
  beyond :: bytes

text \<open>
  The macro \<open>THROW\<close>: it looks the class up; when the class is found it throws, and
  prints "Fatal Error" when that fails, leaving nothing pending; when the class is not
  found it does nothing, and what is pending is the error \<open>FindClass\<close> itself raised.
  The value is the exception pending afterwards.
\<close>

definition THROW :: "jenv \<Rightarrow> string \<Rightarrow> jexception \<Rightarrow> jexception option" where
  "THROW E exception_name x =
     (if FindClass E exception_name then (if ThrowNew E x then Some x else None)
      else Some ThrownByJVM)"

definition CEPH_NOTMOUNTED_CP :: string where
  "CEPH_NOTMOUNTED_CP = ''com/ceph/fs/CephNotMountedException''"

definition CEPH_FILEEXISTS_CP :: string where
  "CEPH_FILEEXISTS_CP = ''com/ceph/fs/CephFileAlreadyExistsException''"

definition CEPH_NOTDIR_CP :: string where
  "CEPH_NOTDIR_CP = ''com/ceph/fs/CephNotDirectoryException''"

definition cephThrowNullArg :: "jenv \<Rightarrow> string \<Rightarrow> jexception option" where
  "cephThrowNullArg E msg = THROW E ''java/lang/NullPointerException'' (NullPointerException msg)"

definition cephThrowOutOfMemory :: "jenv \<Rightarrow> string \<Rightarrow> jexception option" where
  "cephThrowOutOfMemory E msg =
     THROW E ''java/lang/OutOfMemoryException'' (OutOfMemoryException msg)"

definition cephThrowInternal :: "jenv \<Rightarrow> string \<Rightarrow> jexception option" where
  "cephThrowInternal E msg = THROW E ''java/lang/InternalError'' (InternalError msg)"

definition cephThrowIndexBounds :: "jenv \<Rightarrow> string \<Rightarrow> jexception option" where
  "cephThrowIndexBounds E msg =
     THROW E ''java/lang/IndexOutOfBoundsException'' (IndexOutOfBoundsException msg)"

definition cephThrowIllegalArg :: "jenv \<Rightarrow> string \<Rightarrow> jexception option" where
  "cephThrowIllegalArg E msg =
     THROW E ''java/lang/IllegalArgumentException'' (IllegalArgumentException msg)"

definition cephThrowFNF :: "jenv \<Rightarrow> jexception option" where
  "cephThrowFNF E = THROW E ''java/io/FileNotFoundException'' FileNotFoundException"

definition cephThrowFileExists :: "jenv \<Rightarrow> jexception option" where
  "cephThrowFileExists E = THROW E CEPH_FILEEXISTS_CP CephFileAlreadyExistsException"

definition cephThrowNotDir :: "jenv \<Rightarrow> jexception option" where
  "cephThrowNotDir E = THROW E CEPH_NOTDIR_CP CephNotDirectoryException"

definition handle_error :: "jenv \<Rightarrow> int \<Rightarrow> jexception option" where
  "handle_error E rc =
     (if rc = - ENOENT then cephThrowFNF E
      else if rc = - EEXIST then cephThrowFileExists E
      else if rc = - ENOTDIR then cephThrowNotDir E
      else THROW E ''java/io/IOException'' (IOException (- rc)))"

text \<open>What \<open>CHECK_MOUNTED\<close> throws.\<close>

definition not_mounted :: "jenv \<Rightarrow> jexception option" where
  "not_mounted E = THROW E CEPH_NOTMOUNTED_CP CephNotMountedException"

lemmas throw_defs =
  cephThrowNullArg_def cephThrowOutOfMemory_def cephThrowInternal_def
  cephThrowIndexBounds_def cephThrowIllegalArg_def cephThrowFNF_def cephThrowFileExists_def
  cephThrowNotDir_def not_mounted_def handle_error_def THROW_def
  CEPH_NOTMOUNTED_CP_def CEPH_FILEEXISTS_CP_def CEPH_NOTDIR_CP_def

subsection \<open>struct stat, struct statvfs and their Java mirrors\<close>

record timespec =
  tv_sec :: int
  tv_nsec :: int

record stat =
  st_mode :: int
  st_uid :: int
  st_gid :: int
  st_size :: int
  st_blksize :: int
  st_blocks :: int
  st_mtim :: timespec
  st_atim :: timespec

record statvfs =
  f_bsize :: int
  f_frsize :: int
  f_blocks :: int
  f_bavail :: int
  f_files :: int
  f_fsid :: int
  f_namemax :: int

text \<open>The two structures after \<open>memset\<close> to zero.\<close>

definition zero_stat :: stat where
  "zero_stat =
     \<lparr> st_mode = 0, st_uid = 0, st_gid = 0, st_size = 0, st_blksize = 0, st_blocks = 0,
       st_mtim = \<lparr> tv_sec = 0, tv_nsec = 0 \<rparr>, st_atim = \<lparr> tv_sec = 0, tv_nsec = 0 \<rparr> \<rparr>"

definition zero_statvfs :: statvfs where
  "zero_statvfs =
     \<lparr> f_bsize = 0, f_frsize = 0, f_blocks = 0, f_bavail = 0, f_files = 0, f_fsid = 0,
       f_namemax = 0 \<rparr>"

text \<open>The fields of \<open>com.ceph.fs.CephStat\<close> and \<open>com.ceph.fs.CephStatVFS\<close>.\<close>

record cephstat =
  mode :: int
  uid :: int
  gid :: int
  size :: int
  blksize :: int
  blocks :: int
  a_time :: int
  m_time :: int
  is_file :: bool
  is_directory :: bool
  is_symlink :: bool

record cephstatvfs =
  bsize :: int
  frsize :: int
  vfs_blocks :: int
  bavail :: int
  files :: int
  fsid :: int
  namemax :: int

text \<open>The file type tests of sys/stat.h: the type is the field \<open>0170000\<close> of the mode.\<close>

definition S_IFMT :: int where "S_IFMT = 61440"
definition S_IFREG :: int where "S_IFREG = 32768"
definition S_IFDIR :: int where "S_IFDIR = 16384"
definition S_IFLNK :: int where "S_IFLNK = 40960"

definition file_type :: "int \<Rightarrow> int" where
  "file_type m = (m div 4096) mod 16 * 4096"

definition S_ISREG :: "int \<Rightarrow> bool" where "S_ISREG m = (file_type m = S_IFREG)"
definition S_ISDIR :: "int \<Rightarrow> bool" where "S_ISDIR m = (file_type m = S_IFDIR)"
definition S_ISLNK :: "int \<Rightarrow> bool" where "S_ISLNK m = (file_type m = S_IFLNK)"

text \<open>
  The time stamp in milliseconds: \<open>long long time = tv_sec; time *= 1000;
  time += tv_nsec / d\<close>. \<open>fill_cephstat\<close> divides by 1000000.
\<close>

definition millis :: "timespec \<Rightarrow> int \<Rightarrow> int" where
  "millis t d = to_int64 (to_int64 (tv_sec t * 1000) + tv_nsec t sdiv d)"

text \<open>\<open>SetIntField\<close> stores a \<open>jint\<close>, \<open>SetLongField\<close> a \<open>jlong\<close>.\<close>

definition fill_cephstat :: "cephstat \<Rightarrow> stat \<Rightarrow> cephstat" where
  "fill_cephstat j_cephstat st =
     j_cephstat
       \<lparr> mode := to_int32 (st_mode st),
         uid := to_int32 (st_uid st),
         gid := to_int32 (st_gid st),
         size := to_int64 (st_size st),
         blksize := to_int64 (st_blksize st),
         blocks := to_int64 (st_blocks st),
         m_time := millis (st_mtim st) 1000000,
         a_time := millis (st_atim st) 1000000,
         is_file := S_ISREG (st_mode st),
         is_directory := S_ISDIR (st_mode st),
         is_symlink := S_ISLNK (st_mode st) \<rparr>"

subsection \<open>libcephfs, the collaborator\<close>

text \<open>
  libcephfs is not part of these sources. The binding sees it through the functions of
  libcephfs.h; \<open>lcall\<close> names each call with the arguments the binding passes, and a reply
  holds the return code and whatever the call wrote through its out parameters. The
  library itself is a parameter: a test for "is mounted" and a function from a call and
  the library's state to a reply and a new state. \<open>ceph_get_mount_context\<close> and
  \<open>ceph_is_mounted\<close> are calls too; they are read-only queries on the handle.
\<close>

datatype lcall =
    Ceph_get_mount_context
  | Ceph_is_mounted
  | Ceph_conf_get string int
  | Ceph_statfs string
  | Ceph_getcwd
  | Ceph_chdir string
  | Ceph_opendir string
  | Ceph_getdnames nat int
  | Ceph_closedir nat
  | Ceph_link string string
  | Ceph_unlink string
  | Ceph_rename string string
  | Ceph_mkdir string int
  | Ceph_mkdirs string int
  | Ceph_rmdir string
  | Ceph_readlink string int
  | Ceph_symlink string string
  | Ceph_lstat string
  | Ceph_stat string
  | Ceph_setattr string stat int
  | Ceph_chmod string int
  | Ceph_fchmod int int
  | Ceph_truncate string int
  | Ceph_open string int int
  | Ceph_open_layout string int int int int int "string option"
  | Ceph_close int
  | Ceph_lseek int int int
  | Ceph_read int int int
  | Ceph_write int bytes int int
  | Ceph_ftruncate int int
  | Ceph_fsync int int
  | Ceph_fstat int
  | Ceph_getxattr string string int
  | Ceph_lgetxattr string string int
  | Ceph_listxattr string int
  | Ceph_llistxattr string int
  | Ceph_removexattr string string
  | Ceph_lremovexattr string string
  | Ceph_setxattr string string bytes int int
  | Ceph_lsetxattr string string bytes int int
  | Ceph_get_file_stripe_unit int
  | Ceph_get_file_replication int
  | Ceph_get_file_pool_name int int

record lreply =
  ret :: int
  out_buf :: bytes
  out_stat :: stat
  out_statvfs :: statvfs
  out_dirp :: nat
  out_cwd :: "string option"

record 'w libcephfs =
  ceph_is_mounted :: "'w \<Rightarrow> bool"
  ceph_call :: "lcall \<Rightarrow> 'w \<Rightarrow> lreply \<times> 'w"

text \<open>
  The mount handle as the binding holds it: the library's state behind the pointer and,
  for the proofs, the calls made through it so far.
\<close>

record 'w cmount =
  lw :: 'w
  trace :: "lcall list"

definition ceph :: "'w libcephfs \<Rightarrow> lcall \<Rightarrow> 'w cmount \<Rightarrow> lreply \<times> 'w cmount" where
  "ceph L c m =
     (case ceph_call L c (lw m) of
        (r, w') \<Rightarrow> (r, \<lparr> lw = w', trace = trace m @ [c] \<rparr>))"

definition mounted :: "'w libcephfs \<Rightarrow> 'w cmount \<Rightarrow> bool" where
  "mounted L m = ceph_is_mounted L (lw m)"

text \<open>
  The two queries every native method makes: \<open>ceph_get_mount_context\<close> first of all
  (for the log), and \<open>ceph_is_mounted\<close> in \<open>CHECK_MOUNTED\<close>. They leave the library
  as it is; the handle records them.
\<close>

definition ceph_get_mount_context :: "'w cmount \<Rightarrow> 'w cmount" where
  "ceph_get_mount_context m = m \<lparr> trace := trace m @ [Ceph_get_mount_context] \<rparr>"

definition is_mounted :: "'w libcephfs \<Rightarrow> 'w cmount \<Rightarrow> bool \<times> 'w cmount" where
  "is_mounted L m = (mounted L m, m \<lparr> trace := trace m @ [Ceph_is_mounted] \<rparr>)"

text \<open>
  \<open>new (std::nothrow) char[n]\<close> with \<open>n\<close> an \<open>int\<close> or an \<open>off_t\<close>: a negative
  length becomes a size no heap has, and the result is null.
\<close>

definition new_nothrow :: "jenv \<Rightarrow> int \<Rightarrow> bool" where
  "new_nothrow E n = (0 \<le> n \<and> new_chars E n)"

text \<open>
  \<open>GetStringUTFChars\<close> and \<open>GetByteArrayElements\<close>: the pinned characters, or
  nothing when the runtime cannot pin them. The binding calls them on references it has
  already tested for null.
\<close>

definition GetStringUTFChars :: "jenv \<Rightarrow> string jref \<Rightarrow> string option" where
  "GetStringUTFChars E j =
     (case j of JNull \<Rightarrow> None | JRef s \<Rightarrow> if pin_string E s then Some s else None)"

definition GetByteArrayElements :: "jenv \<Rightarrow> bytes jref \<Rightarrow> bytes option" where
  "GetByteArrayElements E j =
     (case j of JNull \<Rightarrow> None | JRef b \<Rightarrow> if pin_bytes E b then Some b else None)"

definition GetArrayLength :: "bytes jref \<Rightarrow> int" where
  "GetArrayLength j = (case j of JNull \<Rightarrow> 0 | JRef b \<Rightarrow> int (length b))"

subsection \<open>stat, lstat and fstat\<close>

text \<open>
  Each native method returns the pending exception (if any), the value returned to Java
  and the state of the objects it was given to fill.
\<close>

definition native_ceph_lstat ::
  "jenv \<Rightarrow> 'w libcephfs \<Rightarrow> 'w cmount \<Rightarrow> string jref \<Rightarrow> cephstat jref
   \<Rightarrow> (jexception option \<times> int \<times> cephstat jref) \<times> 'w cmount" where
  "native_ceph_lstat E L m j_path j_cephstat =
     (let m = ceph_get_mount_context m in
      if j_path = JNull then ((cephThrowNullArg E ''@path is null'', - 1, j_cephstat), m)
      else case j_cephstat of
        JNull \<Rightarrow> ((cephThrowNullArg E ''@stat is null'', - 1, j_cephstat), m)
      | JRef obj \<Rightarrow>
          case is_mounted L m of (yes, m) \<Rightarrow>
          if \<not> yes then ((not_mounted E, - 1, j_cephstat), m)
          else case GetStringUTFChars E j_path of
            None \<Rightarrow> ((cephThrowInternal E ''Failed to pin memory'', - 1, j_cephstat), m)
          | Some c_path \<Rightarrow>
              (case ceph L (Ceph_lstat c_path) m of
                 (r, m') \<Rightarrow>
                   if ret r \<noteq> 0 then ((handle_error E (ret r), ret r, j_cephstat), m')
                   else ((None, ret r, JRef (fill_cephstat obj (out_stat r))), m')))"

definition native_ceph_stat ::
  "jenv \<Rightarrow> 'w libcephfs \<Rightarrow> 'w cmount \<Rightarrow> string jref \<Rightarrow> cephstat jref
   \<Rightarrow> (jexception option \<times> int \<times> cephstat jref) \<times> 'w cmount" where
  "native_ceph_stat E L m j_path j_cephstat =
     (let m = ceph_get_mount_context m in
      if j_path = JNull then ((cephThrowNullArg E ''@path is null'', - 1, j_cephstat), m)
      else case j_cephstat of
        JNull \<Rightarrow> ((cephThrowNullArg E ''@stat is null'', - 1, j_cephstat), m)
      | JRef obj \<Rightarrow>
          case is_mounted L m of (yes, m) \<Rightarrow>
          if \<not> yes then ((not_mounted E, - 1, j_cephstat), m)
          else case GetStringUTFChars E j_path of
            None \<Rightarrow> ((cephThrowInternal E ''Failed to pin memory'', - 1, j_cephstat), m)
          | Some c_path \<Rightarrow>
              (case ceph L (Ceph_stat c_path) m of
                 (r, m') \<Rightarrow>
                   if ret r \<noteq> 0 then ((handle_error E (ret r), ret r, j_cephstat), m')
                   else ((None, ret r, JRef (fill_cephstat obj (out_stat r))), m')))"

text \<open>
  \<open>fstat\<close> does not call \<open>fill_cephstat\<close>: it sets the fields itself, divides the
  nanoseconds by 1000 and leaves the three type flags of the object as they were.
\<close>

definition native_ceph_fstat ::
  "jenv \<Rightarrow> 'w libcephfs \<Rightarrow> 'w cmount \<Rightarrow> int \<Rightarrow> cephstat jref
   \<Rightarrow> (jexception option \<times> int \<times> cephstat jref) \<times> 'w cmount" where
  "native_ceph_fstat E L m j_fd j_cephstat =
     (let m = ceph_get_mount_context m in
      case j_cephstat of
        JNull \<Rightarrow> ((cephThrowNullArg E ''@stat is null'', - 1, j_cephstat), m)
      | JRef obj \<Rightarrow>
          case is_mounted L m of (yes, m) \<Rightarrow>
          if \<not> yes then ((not_mounted E, - 1, j_cephstat), m)
          else case ceph L (Ceph_fstat j_fd) m of
            (r, m') \<Rightarrow>
              if ret r \<noteq> 0 then ((handle_error E (ret r), ret r, j_cephstat), m')
              else
                let st = out_stat r in
                ((None, ret r,
                  JRef (obj
                    \<lparr> mode := to_int32 (st_mode st),
                      uid := to_int32 (st_uid st),
                      gid := to_int32 (st_gid st),
                      size := to_int64 (st_size st),
                      blksize := to_int64 (st_blksize st),
                      blocks := to_int64 (st_blocks st),
                      m_time := millis (st_mtim st) 1000,
                      a_time := millis (st_atim st) 1000 \<rparr>)),
                 m'))"

text \<open>
  What a libcephfs call leaves in a caller's buffer: the bytes written replace the front of
  the buffer, whose length does not change.
\<close>

definition poke :: "bytes \<Rightarrow> bytes \<Rightarrow> bytes" where
  "poke b w = take (length b) (w @ drop (length w) b)"

subsection \<open>Flags\<close>

text \<open>
  The Java side has its own values for the flags of \<open>open\<close> and for the mask of
  \<open>setattr\<close>; the binding maps them bit by bit. The target values are those of Linux's
  fcntl.h and of libcephfs.h.
\<close>

definition O_RDONLY :: int where "O_RDONLY = 0"
definition O_WRONLY :: int where "O_WRONLY = 1"
definition O_RDWR :: int where "O_RDWR = 2"
definition O_CREAT :: int where "O_CREAT = 64"
definition O_EXCL :: int where "O_EXCL = 128"
definition O_TRUNC :: int where "O_TRUNC = 512"
definition O_APPEND :: int where "O_APPEND = 1024"

definition FIXUP_FLAG :: "int \<Rightarrow> int \<Rightarrow> int \<Rightarrow> int \<Rightarrow> int" where
  "FIXUP_FLAG jflags java_bit target acc = (if jflags AND java_bit \<noteq> 0 then acc OR target else acc)"

definition fixup_open_flags :: "int \<Rightarrow> int" where
  "fixup_open_flags jflags =
     FIXUP_FLAG jflags 64 O_WRONLY
       (FIXUP_FLAG jflags 32 O_EXCL
         (FIXUP_FLAG jflags 16 O_TRUNC
           (FIXUP_FLAG jflags 8 O_CREAT
             (FIXUP_FLAG jflags 4 O_APPEND
               (FIXUP_FLAG jflags 2 O_RDWR
                 (FIXUP_FLAG jflags 1 O_RDONLY 0))))))"

definition CEPH_SETATTR_MODE :: int where "CEPH_SETATTR_MODE = 1"
definition CEPH_SETATTR_UID :: int where "CEPH_SETATTR_UID = 2"
definition CEPH_SETATTR_GID :: int where "CEPH_SETATTR_GID = 4"
definition CEPH_SETATTR_MTIME :: int where "CEPH_SETATTR_MTIME = 8"
definition CEPH_SETATTR_ATIME :: int where "CEPH_SETATTR_ATIME = 16"

definition fixup_attr_mask :: "int \<Rightarrow> int" where
  "fixup_attr_mask jmask =
     FIXUP_FLAG jmask 16 CEPH_SETATTR_ATIME
       (FIXUP_FLAG jmask 8 CEPH_SETATTR_MTIME
         (FIXUP_FLAG jmask 4 CEPH_SETATTR_GID
           (FIXUP_FLAG jmask 2 CEPH_SETATTR_UID
             (FIXUP_FLAG jmask 1 CEPH_SETATTR_MODE 0))))"

subsection \<open>The native methods that make one libcephfs call\<close>

text \<open>
  Most native methods have one of three shapes, which differ in the arguments checked for
  null before \<open>CHECK_MOUNTED\<close>, in the messages, in the libcephfs call and in whether
  a failure is \<open>ret \<noteq> 0\<close> or \<open>ret < 0\<close>.
\<close>

definition nonzero :: "int \<Rightarrow> bool" where "nonzero rc = (rc \<noteq> 0)"
definition negative :: "int \<Rightarrow> bool" where "negative rc = (rc < 0)"

definition returning ::
  "jenv \<Rightarrow> (int \<Rightarrow> bool) \<Rightarrow> lreply \<times> 'w cmount \<Rightarrow> (jexception option \<times> int) \<times> 'w cmount" where
  "returning E failed x =
     (case x of
        (r, m') \<Rightarrow> ((if failed (ret r) then handle_error E (ret r) else None, ret r), m'))"

definition path_op ::
  "string \<Rightarrow> string \<Rightarrow> (int \<Rightarrow> bool) \<Rightarrow> (string \<Rightarrow> lcall) \<Rightarrow> jenv \<Rightarrow> 'w libcephfs
   \<Rightarrow> 'w cmount \<Rightarrow> string jref \<Rightarrow> (jexception option \<times> int) \<times> 'w cmount" where
  "path_op null_msg pin_msg failed call E L m j_path =
     (let m = ceph_get_mount_context m in
      if j_path = JNull then ((cephThrowNullArg E null_msg, - 1), m)
      else case is_mounted L m of (yes, m) \<Rightarrow>
      if \<not> yes then ((not_mounted E, - 1), m)
      else case GetStringUTFChars E j_path of
        None \<Rightarrow> ((cephThrowInternal E pin_msg, - 1), m)
      | Some c_path \<Rightarrow> returning E failed (ceph L (call c_path) m))"

definition path2_op ::
  "string \<Rightarrow> string \<Rightarrow> string \<Rightarrow> string \<Rightarrow> (string \<Rightarrow> string \<Rightarrow> lcall) \<Rightarrow> jenv
   \<Rightarrow> 'w libcephfs \<Rightarrow> 'w cmount \<Rightarrow> string jref \<Rightarrow> string jref
   \<Rightarrow> (jexception option \<times> int) \<times> 'w cmount" where
  "path2_op null1 null2 pin1 pin2 call E L m j_a j_b =
     (let m = ceph_get_mount_context m in
      if j_a = JNull then ((cephThrowNullArg E null1, - 1), m)
      else if j_b = JNull then ((cephThrowNullArg E null2, - 1), m)
      else case is_mounted L m of (yes, m) \<Rightarrow>
      if \<not> yes then ((not_mounted E, - 1), m)
      else case GetStringUTFChars E j_a of
        None \<Rightarrow> ((cephThrowInternal E pin1, - 1), m)
      | Some c_a \<Rightarrow>
          (case GetStringUTFChars E j_b of
             None \<Rightarrow> ((cephThrowInternal E pin2, - 1), m)
           | Some c_b \<Rightarrow> returning E nonzero (ceph L (call c_a c_b) m)))"

definition fd_op ::
  "(int \<Rightarrow> bool) \<Rightarrow> jenv \<Rightarrow> lcall \<Rightarrow> 'w libcephfs \<Rightarrow> 'w cmount
   \<Rightarrow> (jexception option \<times> int) \<times> 'w cmount" where
  "fd_op failed E call L m =
     (let m = ceph_get_mount_context m in
      case is_mounted L m of (yes, m) \<Rightarrow>
      if \<not> yes then ((not_mounted E, - 1), m)
      else returning E failed (ceph L call m))"

definition native_ceph_chdir ::
  "jenv \<Rightarrow> 'w libcephfs \<Rightarrow> 'w cmount \<Rightarrow> string jref \<Rightarrow> (jexception option \<times> int) \<times> 'w cmount" where
  "native_ceph_chdir = path_op ''@path is null'' ''failed to pin memory'' nonzero Ceph_chdir"

definition native_ceph_unlink ::
  "jenv \<Rightarrow> 'w libcephfs \<Rightarrow> 'w cmount \<Rightarrow> string jref \<Rightarrow> (jexception option \<times> int) \<times> 'w cmount" where
  "native_ceph_unlink = path_op ''@path is null'' ''failed to pin memory'' nonzero Ceph_unlink"

definition native_ceph_rmdir ::
  "jenv \<Rightarrow> 'w libcephfs \<Rightarrow> 'w cmount \<Rightarrow> string jref \<Rightarrow> (jexception option \<times> int) \<times> 'w cmount" where
  "native_ceph_rmdir = path_op ''@path is null'' ''failed to pin memory'' nonzero Ceph_rmdir"

definition native_ceph_mkdir ::
  "jenv \<Rightarrow> 'w libcephfs \<Rightarrow> 'w cmount \<Rightarrow> string jref \<Rightarrow> int
   \<Rightarrow> (jexception option \<times> int) \<times> 'w cmount" where
  "native_ceph_mkdir E L m j_path j_mode =
     path_op ''@path is null'' ''failed to pin memory'' nonzero (\<lambda>p. Ceph_mkdir p j_mode)
       E L m j_path"

definition native_ceph_mkdirs ::
  "jenv \<Rightarrow> 'w libcephfs \<Rightarrow> 'w cmount \<Rightarrow> string jref \<Rightarrow> int
   \<Rightarrow> (jexception option \<times> int) \<times> 'w cmount" where
  "native_ceph_mkdirs E L m j_path j_mode =
     path_op ''@path is null'' ''failed to pin memory'' nonzero (\<lambda>p. Ceph_mkdirs p j_mode)
       E L m j_path"

definition native_ceph_chmod ::
  "jenv \<Rightarrow> 'w libcephfs \<Rightarrow> 'w cmount \<Rightarrow> string jref \<Rightarrow> int
   \<Rightarrow> (jexception option \<times> int) \<times> 'w cmount" where
  "native_ceph_chmod E L m j_path j_mode =
     path_op ''@path is null'' ''Failed to pin memory'' nonzero (\<lambda>p. Ceph_chmod p j_mode)
       E L m j_path"

definition native_ceph_truncate ::
  "jenv \<Rightarrow> 'w libcephfs \<Rightarrow> 'w cmount \<Rightarrow> string jref \<Rightarrow> int
   \<Rightarrow> (jexception option \<times> int) \<times> 'w cmount" where
  "native_ceph_truncate E L m j_path j_size =
     path_op ''@path is null'' ''Failed to pin memory'' nonzero (\<lambda>p. Ceph_truncate p j_size)
       E L m j_path"

definition native_ceph_open ::
  "jenv \<Rightarrow> 'w libcephfs \<Rightarrow> 'w cmount \<Rightarrow> string jref \<Rightarrow> int \<Rightarrow> int
   \<Rightarrow> (jexception option \<times> int) \<times> 'w cmount" where
  "native_ceph_open E L m j_path j_flags j_mode =
     path_op ''@path is null'' ''Failed to pin memory'' negative
       (\<lambda>p. Ceph_open p (fixup_open_flags j_flags) j_mode) E L m j_path"

definition native_ceph_link ::
  "jenv \<Rightarrow> 'w libcephfs \<Rightarrow> 'w cmount \<Rightarrow> string jref \<Rightarrow> string jref
   \<Rightarrow> (jexception option \<times> int) \<times> 'w cmount" where
  "native_ceph_link =
     path2_op ''@oldpath is null'' ''@newpath is null'' ''failed to pin memory''
       ''failed to pin memory'' Ceph_link"

definition native_ceph_symlink ::
  "jenv \<Rightarrow> 'w libcephfs \<Rightarrow> 'w cmount \<Rightarrow> string jref \<Rightarrow> string jref
   \<Rightarrow> (jexception option \<times> int) \<times> 'w cmount" where
  "native_ceph_symlink =
     path2_op ''@oldpath is null'' ''@newpath is null'' ''failed to pin memory''
       ''failed to pin memory'' Ceph_symlink"

definition native_ceph_rename ::
  "jenv \<Rightarrow> 'w libcephfs \<Rightarrow> 'w cmount \<Rightarrow> string jref \<Rightarrow> string jref
   \<Rightarrow> (jexception option \<times> int) \<times> 'w cmount" where
  "native_ceph_rename =
     path2_op ''@from is null'' ''@to is null'' ''Failed to pin memory!''
       ''Failed to pin memory.'' Ceph_rename"

definition native_ceph_removexattr ::
  "jenv \<Rightarrow> 'w libcephfs \<Rightarrow> 'w cmount \<Rightarrow> string jref \<Rightarrow> string jref
   \<Rightarrow> (jexception option \<times> int) \<times> 'w cmount" where
  "native_ceph_removexattr =
     path2_op ''@path is null'' ''@name is null'' ''Failed to pin memory''
       ''Failed to pin memory'' Ceph_removexattr"

definition native_ceph_lremovexattr ::
  "jenv \<Rightarrow> 'w libcephfs \<Rightarrow> 'w cmount \<Rightarrow> string jref \<Rightarrow> string jref
   \<Rightarrow> (jexception option \<times> int) \<times> 'w cmount" where
  "native_ceph_lremovexattr =
     path2_op ''@path is null'' ''@name is null'' ''Failed to pin memory''
       ''Failed to pin memory'' Ceph_lremovexattr"

definition native_ceph_fchmod ::
  "jenv \<Rightarrow> 'w libcephfs \<Rightarrow> 'w cmount \<Rightarrow> int \<Rightarrow> int \<Rightarrow> (jexception option \<times> int) \<times> 'w cmount" where
  "native_ceph_fchmod E L m j_fd j_mode = fd_op nonzero E (Ceph_fchmod j_fd j_mode) L m"

definition native_ceph_close ::
  "jenv \<Rightarrow> 'w libcephfs \<Rightarrow> 'w cmount \<Rightarrow> int \<Rightarrow> (jexception option \<times> int) \<times> 'w cmount" where
  "native_ceph_close E L m j_fd = fd_op nonzero E (Ceph_close j_fd) L m"

definition native_ceph_ftruncate ::
  "jenv \<Rightarrow> 'w libcephfs \<Rightarrow> 'w cmount \<Rightarrow> int \<Rightarrow> int \<Rightarrow> (jexception option \<times> int) \<times> 'w cmount" where
  "native_ceph_ftruncate E L m j_fd j_size = fd_op nonzero E (Ceph_ftruncate j_fd j_size) L m"

definition native_ceph_get_file_stripe_unit ::
  "jenv \<Rightarrow> 'w libcephfs \<Rightarrow> 'w cmount \<Rightarrow> int \<Rightarrow> (jexception option \<times> int) \<times> 'w cmount" where
  "native_ceph_get_file_stripe_unit E L m j_fd = fd_op negative E (Ceph_get_file_stripe_unit j_fd) L m"

definition native_ceph_get_file_replication ::
  "jenv \<Rightarrow> 'w libcephfs \<Rightarrow> 'w cmount \<Rightarrow> int \<Rightarrow> (jexception option \<times> int) \<times> 'w cmount" where
  "native_ceph_get_file_replication E L m j_fd = fd_op negative E (Ceph_get_file_replication j_fd) L m"

text \<open>\<open>fsync\<close> goes straight to libcephfs: it has no \<open>CHECK_MOUNTED\<close>.\<close>

definition native_ceph_fsync ::
  "jenv \<Rightarrow> 'w libcephfs \<Rightarrow> 'w cmount \<Rightarrow> int \<Rightarrow> bool \<Rightarrow> (jexception option \<times> int) \<times> 'w cmount" where
  "native_ceph_fsync E L m j_fd j_dataonly =
     (let m = ceph_get_mount_context m in
      returning E nonzero (ceph L (Ceph_fsync j_fd (if j_dataonly then 1 else 0)) m))"

text \<open>
  \<open>lseek\<close> keeps the result in a \<open>jlong\<close> and passes it to \<open>handle_error\<close>, which takes
  an \<open>int\<close>; \<open>read\<close>, \<open>write\<close> and \<open>getxattr\<close> cast theirs with \<open>(int)\<close>.
\<close>

definition returning_long ::
  "jenv \<Rightarrow> lreply \<times> 'w cmount \<Rightarrow> (jexception option \<times> int) \<times> 'w cmount" where
  "returning_long E x =
     (case x of
        (r, m') \<Rightarrow>
          ((if ret r < 0 then handle_error E (to_int32 (ret r)) else None, ret r), m'))"

definition native_ceph_lseek ::
  "jenv \<Rightarrow> 'w libcephfs \<Rightarrow> 'w cmount \<Rightarrow> int \<Rightarrow> int \<Rightarrow> int \<Rightarrow> (jexception option \<times> int) \<times> 'w cmount" where
  "native_ceph_lseek E L m j_fd j_offset j_whence =
     (let m = ceph_get_mount_context m in
      case is_mounted L m of (yes, m) \<Rightarrow>
      if \<not> yes then ((not_mounted E, - 1), m)
      else if j_whence = 1 then returning_long E (ceph L (Ceph_lseek j_fd j_offset 0) m)
      else if j_whence = 2 then returning_long E (ceph L (Ceph_lseek j_fd j_offset 1) m)
      else if j_whence = 3 then returning_long E (ceph L (Ceph_lseek j_fd j_offset 2) m)
      else ((cephThrowIllegalArg E ''Unknown whence value'', - 1), m))"

definition native_ceph_open_layout ::
  "jenv \<Rightarrow> 'w libcephfs \<Rightarrow> 'w cmount \<Rightarrow> string jref \<Rightarrow> int \<Rightarrow> int \<Rightarrow> int \<Rightarrow> int \<Rightarrow> int
   \<Rightarrow> string jref \<Rightarrow> (jexception option \<times> int) \<times> 'w cmount" where
  "native_ceph_open_layout E L m j_path j_flags j_mode stripe_unit stripe_count object_size
       j_data_pool =
     (let m = ceph_get_mount_context m in
      if j_path = JNull then ((cephThrowNullArg E ''@path is null'', - 1), m)
      else case is_mounted L m of (yes, m) \<Rightarrow>
      if \<not> yes then ((not_mounted E, - 1), m)
      else case GetStringUTFChars E j_path of
        None \<Rightarrow> ((cephThrowInternal E ''Failed to pin memory'', - 1), m)
      | Some c_path \<Rightarrow>
          if j_data_pool \<noteq> JNull \<and> GetStringUTFChars E j_data_pool = None
          then ((cephThrowInternal E ''Failed to pin memory'', - 1), m)
          else returning E negative
                 (ceph L (Ceph_open_layout c_path (fixup_open_flags j_flags) j_mode stripe_unit
                            stripe_count object_size (GetStringUTFChars E j_data_pool)) m))"

definition native_ceph_setattr ::
  "jenv \<Rightarrow> 'w libcephfs \<Rightarrow> 'w cmount \<Rightarrow> string jref \<Rightarrow> cephstat jref \<Rightarrow> int
   \<Rightarrow> (jexception option \<times> int) \<times> 'w cmount" where
  "native_ceph_setattr E L m j_path j_cephstat j_mask =
     (let m = ceph_get_mount_context m in
      if j_path = JNull then ((cephThrowNullArg E ''@path is null'', - 1), m)
      else case j_cephstat of
        JNull \<Rightarrow> ((cephThrowNullArg E ''@stat is null'', - 1), m)
      | JRef obj \<Rightarrow>
          case is_mounted L m of (yes, m) \<Rightarrow>
          if \<not> yes then ((not_mounted E, - 1), m)
          else case GetStringUTFChars E j_path of
            None \<Rightarrow> ((cephThrowInternal E ''Failed to pin memory'', - 1), m)
          | Some c_path \<Rightarrow>
              returning E nonzero
                (ceph L (Ceph_setattr c_path
                           (zero_stat \<lparr> st_mode := to_uint32 (mode obj),
                                        st_uid := to_uint32 (uid obj),
                                        st_gid := to_uint32 (gid obj),
                                        st_mtim := \<lparr> tv_sec = m_time obj, tv_nsec = 0 \<rparr>,
                                        st_atim := \<lparr> tv_sec = a_time obj, tv_nsec = 0 \<rparr> \<rparr>)
                           (fixup_attr_mask j_mask)) m))"

definition native_ceph_statfs ::
  "jenv \<Rightarrow> 'w libcephfs \<Rightarrow> 'w cmount \<Rightarrow> string jref \<Rightarrow> cephstatvfs jref
   \<Rightarrow> (jexception option \<times> int \<times> cephstatvfs jref) \<times> 'w cmount" where
  "native_ceph_statfs E L m j_path j_cephstatvfs =
     (let m = ceph_get_mount_context m in
      if j_path = JNull then ((cephThrowNullArg E ''@path is null'', - 1, j_cephstatvfs), m)
      else case j_cephstatvfs of
        JNull \<Rightarrow> ((cephThrowNullArg E ''@stat is null'', - 1, j_cephstatvfs), m)
      | JRef obj \<Rightarrow>
          case is_mounted L m of (yes, m) \<Rightarrow>
          if \<not> yes then ((not_mounted E, - 1, j_cephstatvfs), m)
          else case GetStringUTFChars E j_path of
            None \<Rightarrow> ((cephThrowInternal E ''Failed to pin memory'', - 1, j_cephstatvfs), m)
          | Some c_path \<Rightarrow>
              (case ceph L (Ceph_statfs c_path) m of
                 (r, m') \<Rightarrow>
                   if ret r \<noteq> 0 then ((handle_error E (ret r), ret r, j_cephstatvfs), m')
                   else
                     let st = out_statvfs r in
                     ((None, ret r,
                       JRef (obj \<lparr> bsize := to_int64 (f_bsize st),
                                   frsize := to_int64 (f_frsize st),
                                   vfs_blocks := to_int64 (f_blocks st),
                                   bavail := to_int64 (f_bavail st),
                                   files := to_int64 (f_files st),
                                   fsid := to_int64 (f_fsid st),
                                   namemax := to_int64 (f_namemax st) \<rparr>)), m')))"

definition native_ceph_getcwd ::
  "jenv \<Rightarrow> 'w libcephfs \<Rightarrow> 'w cmount \<Rightarrow> (jexception option \<times> string option) \<times> 'w cmount" where
  "native_ceph_getcwd E L m =
     (let m = ceph_get_mount_context m in
      case is_mounted L m of (yes, m) \<Rightarrow>
      if \<not> yes then ((not_mounted E, None), m)
      else case ceph L Ceph_getcwd m of
        (r, m') \<Rightarrow>
          (case out_cwd r of
             None \<Rightarrow> ((cephThrowOutOfMemory E ''ceph_getcwd'', None), m')
           | Some c_cwd \<Rightarrow>
               ((if NewStringUTF E c_cwd then (None, Some c_cwd) else (Some ThrownByJVM, None)),
                m')))"

text \<open>
  \<open>read\<close> and \<open>write\<close>: the buffer and the sign of the size are checked before
  \<open>CHECK_MOUNTED\<close>, the size against the buffer's length after it. What libcephfs read
  is copied back into the Java array only when the call succeeded.
\<close>

definition native_ceph_read ::
  "jenv \<Rightarrow> 'w libcephfs \<Rightarrow> 'w cmount \<Rightarrow> int \<Rightarrow> bytes jref \<Rightarrow> int \<Rightarrow> int
   \<Rightarrow> (jexception option \<times> int \<times> bytes jref) \<times> 'w cmount" where
  "native_ceph_read E L m j_fd j_buf j_size j_offset =
     (let m = ceph_get_mount_context m in
      if j_buf = JNull then ((cephThrowNullArg E ''@buf is null'', - 1, j_buf), m)
      else if j_size < 0
      then ((cephThrowIndexBounds E ''@size is negative'', - 1, j_buf), m)
      else case is_mounted L m of (yes, m) \<Rightarrow>
      if \<not> yes then ((not_mounted E, - 1, j_buf), m)
      else if j_size > GetArrayLength j_buf
      then ((cephThrowIndexBounds E ''@size > @buf.length'', - 1, j_buf), m)
      else case GetByteArrayElements E j_buf of
        None \<Rightarrow> ((cephThrowInternal E ''failed to pin memory'', - 1, j_buf), m)
      | Some c_buf \<Rightarrow>
          (case ceph L (Ceph_read j_fd (to_int32 j_size) (to_int32 j_offset)) m of
             (r, m') \<Rightarrow>
               if ret r < 0 then ((handle_error E (to_int32 (ret r)), ret r, j_buf), m')
               else ((None, ret r, JRef (poke c_buf (out_buf r))), m')))"

definition native_ceph_write ::
  "jenv \<Rightarrow> 'w libcephfs \<Rightarrow> 'w cmount \<Rightarrow> int \<Rightarrow> bytes jref \<Rightarrow> int \<Rightarrow> int
   \<Rightarrow> (jexception option \<times> int \<times> bytes jref) \<times> 'w cmount" where
  "native_ceph_write E L m j_fd j_buf j_size j_offset =
     (let m = ceph_get_mount_context m in
      if j_buf = JNull then ((cephThrowNullArg E ''@buf is null'', - 1, j_buf), m)
      else if j_size < 0
      then ((cephThrowIndexBounds E ''@size is negative'', - 1, j_buf), m)
      else case is_mounted L m of (yes, m) \<Rightarrow>
      if \<not> yes then ((not_mounted E, - 1, j_buf), m)
      else if j_size > GetArrayLength j_buf
      then ((cephThrowIndexBounds E ''@size > @buf.length'', - 1, j_buf), m)
      else case GetByteArrayElements E j_buf of
        None \<Rightarrow> ((cephThrowInternal E ''failed to pin memory'', - 1, j_buf), m)
      | Some c_buf \<Rightarrow>
          (case ceph L (Ceph_write j_fd c_buf (to_int32 j_size) (to_int32 j_offset)) m of
             (r, m') \<Rightarrow>
               ((if ret r < 0 then handle_error E (to_int32 (ret r)) else None, ret r, j_buf),
                m')))"

text \<open>
  \<open>setxattr\<close> and \<open>lsetxattr\<close>, which differ in the libcephfs call and in the message
  for an unknown flag. The Java flags 1, 2, 3 are create, replace and either.
\<close>

definition CEPH_XATTR_CREATE :: int where "CEPH_XATTR_CREATE = 1"
definition CEPH_XATTR_REPLACE :: int where "CEPH_XATTR_REPLACE = 2"

definition setxattr_body ::
  "(string \<Rightarrow> string \<Rightarrow> bytes \<Rightarrow> int \<Rightarrow> int \<Rightarrow> lcall) \<Rightarrow> string \<Rightarrow> jenv \<Rightarrow> 'w libcephfs
   \<Rightarrow> 'w cmount \<Rightarrow> string jref \<Rightarrow> string jref \<Rightarrow> bytes jref \<Rightarrow> int \<Rightarrow> int
   \<Rightarrow> (jexception option \<times> int) \<times> 'w cmount" where
  "setxattr_body call flag_msg E L m j_path j_name j_buf j_size j_flags =
     (let m = ceph_get_mount_context m in
      if j_path = JNull then ((cephThrowNullArg E ''@path is null'', - 1), m)
      else if j_name = JNull then ((cephThrowNullArg E ''@name is null'', - 1), m)
      else if j_buf = JNull then ((cephThrowNullArg E ''@buf is null'', - 1), m)
      else if j_size < 0 then ((cephThrowIndexBounds E ''@size is negative'', - 1), m)
      else case is_mounted L m of (yes, m) \<Rightarrow>
      if \<not> yes then ((not_mounted E, - 1), m)
      else if j_size > GetArrayLength j_buf
      then ((cephThrowIndexBounds E ''@size > @buf.length'', - 1), m)
      else case GetStringUTFChars E j_path of
        None \<Rightarrow> ((cephThrowInternal E ''Failed to pin memory'', - 1), m)
      | Some c_path \<Rightarrow>
          (case GetStringUTFChars E j_name of
             None \<Rightarrow> ((cephThrowInternal E ''Failed to pin memory'', - 1), m)
           | Some c_name \<Rightarrow>
               (case GetByteArrayElements E j_buf of
                  None \<Rightarrow> ((cephThrowInternal E ''failed to pin memory'', - 1), m)
                | Some c_buf \<Rightarrow>
                    if j_flags = 1
                    then returning E nonzero
                           (ceph L (call c_path c_name c_buf j_size CEPH_XATTR_CREATE) m)
                    else if j_flags = 2
                    then returning E nonzero
                           (ceph L (call c_path c_name c_buf j_size CEPH_XATTR_REPLACE) m)
                    else if j_flags = 3
                    then returning E nonzero (ceph L (call c_path c_name c_buf j_size 0) m)
                    else ((cephThrowIllegalArg E flag_msg, - 1), m))))"

definition native_ceph_setxattr ::
  "jenv \<Rightarrow> 'w libcephfs \<Rightarrow> 'w cmount \<Rightarrow> string jref \<Rightarrow> string jref \<Rightarrow> bytes jref \<Rightarrow> int \<Rightarrow> int
   \<Rightarrow> (jexception option \<times> int) \<times> 'w cmount" where
  "native_ceph_setxattr = setxattr_body Ceph_setxattr ''setxattr flag''"

definition native_ceph_lsetxattr ::
  "jenv \<Rightarrow> 'w libcephfs \<Rightarrow> 'w cmount \<Rightarrow> string jref \<Rightarrow> string jref \<Rightarrow> bytes jref \<Rightarrow> int \<Rightarrow> int
   \<Rightarrow> (jexception option \<times> int) \<times> 'w cmount" where
  "native_ceph_lsetxattr = setxattr_body Ceph_lsetxattr ''lsetxattr flag''"

subsection \<open>getxattr and lgetxattr\<close>

text \<open>
  The two functions differ only in the libcephfs call. With a null \<open>j_buf\<close> the call is
  made with length 0; when libcephfs answers \<open>-ERANGE\<close> the call is repeated with
  length 0, and the value returned to Java is that of the second call.
\<close>

definition poke_ref :: "bytes jref \<Rightarrow> bytes \<Rightarrow> bytes jref" where
  "poke_ref j w = (case j of JNull \<Rightarrow> JNull | JRef b \<Rightarrow> JRef (poke b w))"

definition getxattr_exit ::
  "jenv \<Rightarrow> int \<Rightarrow> bytes jref \<Rightarrow> 'w cmount \<Rightarrow> (jexception option \<times> int \<times> bytes jref) \<times> 'w cmount" where
  "getxattr_exit E rc j_buf m =
     ((if rc < 0 then handle_error E (to_int32 rc) else None, rc, j_buf), m)"

definition getxattr_body ::
  "(string \<Rightarrow> string \<Rightarrow> int \<Rightarrow> lcall) \<Rightarrow> jenv \<Rightarrow> 'w libcephfs \<Rightarrow> 'w cmount
   \<Rightarrow> string jref \<Rightarrow> string jref \<Rightarrow> bytes jref
   \<Rightarrow> (jexception option \<times> int \<times> bytes jref) \<times> 'w cmount" where
  "getxattr_body call E L m j_path j_name j_buf =
     (let m = ceph_get_mount_context m in
      if j_path = JNull then ((cephThrowNullArg E ''@path is null'', - 1, j_buf), m)
      else if j_name = JNull then ((cephThrowNullArg E ''@name is null'', - 1, j_buf), m)
      else case is_mounted L m of (yes, m) \<Rightarrow>
      if \<not> yes then ((not_mounted E, - 1, j_buf), m)
      else case GetStringUTFChars E j_path of
        None \<Rightarrow> ((cephThrowInternal E ''Failed to pin memory'', - 1, j_buf), m)
      | Some c_path \<Rightarrow>
          (case GetStringUTFChars E j_name of
             None \<Rightarrow> ((cephThrowInternal E ''Failed to pin memory'', - 1, j_buf), m)
           | Some c_name \<Rightarrow>
               if j_buf \<noteq> JNull \<and> GetByteArrayElements E j_buf = None
               then ((cephThrowInternal E ''failed to pin memory'', - 1, j_buf), m)
               else
                 let buf_size = (if j_buf = JNull then 0 else GetArrayLength j_buf) in
                 (case ceph L (call c_path c_name buf_size) m of
                    (r1, m1) \<Rightarrow>
                      if ret r1 = - ERANGE
                      then (case ceph L (call c_path c_name 0) m1 of
                              (r2, m2) \<Rightarrow>
                                getxattr_exit E (ret r2)
                                  (poke_ref (poke_ref j_buf (out_buf r1)) (out_buf r2)) m2)
                      else getxattr_exit E (ret r1) (poke_ref j_buf (out_buf r1)) m1)))"

definition native_ceph_getxattr ::
  "jenv \<Rightarrow> 'w libcephfs \<Rightarrow> 'w cmount \<Rightarrow> string jref \<Rightarrow> string jref \<Rightarrow> bytes jref
   \<Rightarrow> (jexception option \<times> int \<times> bytes jref) \<times> 'w cmount" where
  "native_ceph_getxattr = getxattr_body Ceph_getxattr"

definition native_ceph_lgetxattr ::
  "jenv \<Rightarrow> 'w libcephfs \<Rightarrow> 'w cmount \<Rightarrow> string jref \<Rightarrow> string jref \<Rightarrow> bytes jref
   \<Rightarrow> (jexception option \<times> int \<times> bytes jref) \<times> 'w cmount" where
  "native_ceph_lgetxattr = getxattr_body Ceph_lgetxattr"

subsection \<open>readlink\<close>

text \<open>
  A C string in a buffer ends at the first NUL; \<open>NewStringUTF\<close> reads that far.
\<close>

definition c_str :: "bytes \<Rightarrow> string" where
  "c_str b = takeWhile (\<lambda>c. c \<noteq> CHR 0x00) b"

text \<open>
  The \<open>for (;;)\<close> loop of \<open>readlink\<close>: \<open>lstat\<close>, a buffer of \<open>st_size + 1\<close> bytes,
  \<open>ceph_readlink\<close> into it, and once more from the top when more than \<open>st_size\<close> bytes
  came back. Nothing in the code bounds the number of rounds, so the loop is a partial
  function: \<open>None\<close> is a loop that never ends. The text returned is the first \<open>ret\<close>
  bytes of what the call wrote, \<open>linkname[ret]\<close> being set to NUL.
\<close>

partial_function (option) readlink_loop ::
  "jenv \<Rightarrow> 'w libcephfs \<Rightarrow> string \<Rightarrow> 'w cmount
   \<Rightarrow> ((jexception option \<times> string option) \<times> 'w cmount) option" where
  "readlink_loop E L c_path m =
     (case ceph L (Ceph_lstat c_path) m of
        (r1, m1) \<Rightarrow>
          if ret r1 \<noteq> 0 then Some ((handle_error E (ret r1), None), m1)
          else if \<not> new_nothrow E (st_size (out_stat r1) + 1)
          then Some ((cephThrowOutOfMemory E ''head allocation failed'', None), m1)
          else
            (case ceph L (Ceph_readlink c_path (st_size (out_stat r1) + 1)) m1 of
               (r2, m2) \<Rightarrow>
                 if ret r2 < 0 then Some ((handle_error E (ret r2), None), m2)
                 else if ret r2 > st_size (out_stat r1) then readlink_loop E L c_path m2
                 else
                   let linkname = c_str (take (nat (ret r2)) (out_buf r2)) in
                   Some ((if NewStringUTF E linkname then (None, Some linkname)
                          else (Some ThrownByJVM, None)), m2)))"

definition native_ceph_readlink ::
  "jenv \<Rightarrow> 'w libcephfs \<Rightarrow> 'w cmount \<Rightarrow> string jref
   \<Rightarrow> ((jexception option \<times> string option) \<times> 'w cmount) option" where
  "native_ceph_readlink E L m j_path =
     (let m = ceph_get_mount_context m in
      if j_path = JNull then Some ((cephThrowNullArg E ''@path is null'', None), m)
      else case is_mounted L m of (yes, m) \<Rightarrow>
      if \<not> yes then Some ((not_mounted E, None), m)
      else case GetStringUTFChars E j_path of
        None \<Rightarrow> Some ((cephThrowInternal E ''failed to pin memory'', None), m)
      | Some c_path \<Rightarrow> readlink_loop E L c_path m)"

subsection \<open>Buffers that grow: conf_get, listdir, listxattr, get_file_pool_name\<close>

text \<open>
  A buffer of \<open>buflen\<close> bytes that was set to zero and then written into by a libcephfs
  call, and the C string \<open>NewStringUTF\<close> reads from the start of a buffer: it ends at
  the first NUL, inside the buffer or behind it.
\<close>

definition filled :: "int \<Rightarrow> bytes \<Rightarrow> bytes" where
  "filled buflen w = poke (replicate (nat buflen) (CHR 0x00)) w"

definition read_string :: "jenv \<Rightarrow> bytes \<Rightarrow> string" where
  "read_string E buf = c_str (buf @ beyond E)"

text \<open>
  The inner loop of \<open>listdir\<close> and of \<open>listxattr\<close>: the \<open>ret\<close> bytes libcephfs
  returned hold names, each ended by a NUL; every name is copied into a new
  \<open>std::string\<close> (which may fail) and appended to \<open>contents\<close>, except that \<open>listdir\<close>
  drops \<open>.\<close> and \<open>..\<close>. The buffer here is the bytes the call wrote; libcephfs ends
  each name inside them, so no read leaves them. \<open>None\<close> is the failed allocation.
\<close>

function split_names ::
  "jenv \<Rightarrow> (string \<Rightarrow> bool) \<Rightarrow> bytes \<Rightarrow> int \<Rightarrow> int \<Rightarrow> string list \<Rightarrow> string list option" where
  "split_names E keep buf rc bufpos contents =
     (if bufpos < rc then
        let ent = c_str (drop (nat bufpos) buf) in
        if \<not> new_string E ent then None
        else split_names E keep buf rc (bufpos + int (length ent) + 1)
               (if keep ent then contents @ [ent] else contents)
      else Some contents)"
  by pat_completeness auto
termination
  by (relation "measure (\<lambda>(E, keep, buf, rc, bufpos, contents). nat (rc - bufpos))") auto

declare split_names.simps [simp del]

definition not_dot :: "string \<Rightarrow> bool" where
  "not_dot ent = (ent \<noteq> ''.'' \<and> ent \<noteq> ''..'')"

text \<open>
  The \<open>while (1)\<close> loop of \<open>listdir\<close>: on \<open>-ERANGE\<close> the buffer is doubled and the call
  repeated; a result \<open>\<le> 0\<close> ends the loop; otherwise the names are taken and the call
  repeated. The loop yields the exception thrown inside it, or the last return code and
  the names collected.
\<close>

partial_function (option) listdir_loop ::
  "jenv \<Rightarrow> 'w libcephfs \<Rightarrow> nat \<Rightarrow> int \<Rightarrow> string list \<Rightarrow> 'w cmount
   \<Rightarrow> ((jexception option + int \<times> string list) \<times> 'w cmount) option" where
  "listdir_loop E L dirp buflen contents m =
     (case ceph L (Ceph_getdnames dirp buflen) m of
        (r, m1) \<Rightarrow>
          if ret r = - ERANGE then
            (if \<not> new_nothrow E (doubled buflen)
             then Some (Inl (cephThrowOutOfMemory E ''heap allocation failed''), m1)
             else listdir_loop E L dirp (doubled buflen) contents m1)
          else if ret r \<le> 0 then Some (Inr (ret r, contents), m1)
          else
            (case split_names E not_dot (out_buf r) (ret r) 0 contents of
               None \<Rightarrow> Some (Inl (cephThrowOutOfMemory E ''heap allocation failed''), m1)
             | Some contents' \<Rightarrow> listdir_loop E L dirp buflen contents' m1))"

text \<open>The Java array of names: the array and every string in it must be granted.\<close>

fun store_names :: "jenv \<Rightarrow> nat \<Rightarrow> string list \<Rightarrow> bool" where
  "store_names E i [] = True"
| "store_names E i (n # ns) =
     (NewStringUTF E n \<and> SetObjectArrayElement E i n \<and> store_names E (Suc i) ns)"

definition new_string_array :: "jenv \<Rightarrow> string list \<Rightarrow> jexception option \<times> string list option" where
  "new_string_array E contents =
     (if FindClass E ''java/lang/String'' \<and> NewObjectArray E (length contents)
           \<and> store_names E 0 contents
      then (None, Some contents) else (Some ThrownByJVM, None))"

text \<open>
  \<open>listdir\<close> between \<open>ceph_opendir\<close> and \<open>ceph_closedir\<close>: both ways out of the
  function (the \<open>return dirlist\<close> and the label \<open>out\<close>) close the directory, so the
  body is followed by \<open>ceph_closedir\<close> whatever it yields.
\<close>

definition listdir_body ::
  "jenv \<Rightarrow> 'w libcephfs \<Rightarrow> nat \<Rightarrow> 'w cmount
   \<Rightarrow> ((jexception option \<times> string list option) \<times> 'w cmount) option" where
  "listdir_body E L dirp m =
     (if \<not> new_nothrow E 256
      then Some ((cephThrowOutOfMemory E ''heap allocation failed'', None), m)
      else case listdir_loop E L dirp 256 [] m of
        None \<Rightarrow> None
      | Some (Inl e, m') \<Rightarrow> Some ((e, None), m')
      | Some (Inr (rc, contents), m') \<Rightarrow>
          if rc < 0 then Some ((handle_error E rc, None), m')
          else Some (new_string_array E contents, m'))"

definition native_ceph_listdir ::
  "jenv \<Rightarrow> 'w libcephfs \<Rightarrow> 'w cmount \<Rightarrow> string jref
   \<Rightarrow> ((jexception option \<times> string list option) \<times> 'w cmount) option" where
  "native_ceph_listdir E L m j_path =
     (let m = ceph_get_mount_context m in
      if j_path = JNull then Some ((cephThrowNullArg E ''@path is null'', None), m)
      else case is_mounted L m of (yes, m) \<Rightarrow>
      if \<not> yes then Some ((not_mounted E, None), m)
      else case GetStringUTFChars E j_path of
        None \<Rightarrow> Some ((cephThrowInternal E ''failed to pin memory'', None), m)
      | Some c_path \<Rightarrow>
          (case ceph L (Ceph_opendir c_path) m of
             (r, m1) \<Rightarrow>
               if ret r \<noteq> 0 then Some ((handle_error E (ret r), None), m1)
               else
                 (case listdir_body E L (out_dirp r) m1 of
                    None \<Rightarrow> None
                  | Some (res, m2) \<Rightarrow>
                      Some (res, snd (ceph L (Ceph_closedir (out_dirp r)) m2)))))"

text \<open>
  \<open>listxattr\<close> and \<open>llistxattr\<close>, which differ in the libcephfs call only: the buffer
  starts at 1024 bytes and is doubled on \<open>-ERANGE\<close>; then the names are taken.
\<close>

partial_function (option) listxattr_loop ::
  "(string \<Rightarrow> int \<Rightarrow> lcall) \<Rightarrow> jenv \<Rightarrow> 'w libcephfs \<Rightarrow> string \<Rightarrow> int \<Rightarrow> 'w cmount
   \<Rightarrow> ((jexception option + lreply) \<times> 'w cmount) option" where
  "listxattr_loop call E L c_path buflen m =
     (case ceph L (call c_path buflen) m of
        (r, m1) \<Rightarrow>
          if ret r = - ERANGE then
            (if \<not> new_nothrow E (doubled buflen)
             then Some (Inl (cephThrowOutOfMemory E ''heap allocation failed''), m1)
             else listxattr_loop call E L c_path (doubled buflen) m1)
          else Some (Inr r, m1))"

definition listxattr_body ::
  "(string \<Rightarrow> int \<Rightarrow> lcall) \<Rightarrow> jenv \<Rightarrow> 'w libcephfs \<Rightarrow> 'w cmount \<Rightarrow> string jref
   \<Rightarrow> ((jexception option \<times> string list option) \<times> 'w cmount) option" where
  "listxattr_body call E L m j_path =
     (let m = ceph_get_mount_context m in
      if j_path = JNull then Some ((cephThrowNullArg E ''@path is null'', None), m)
      else case is_mounted L m of (yes, m) \<Rightarrow>
      if \<not> yes then Some ((not_mounted E, None), m)
      else case GetStringUTFChars E j_path of
        None \<Rightarrow> Some ((cephThrowInternal E ''Failed to pin memory'', None), m)
      | Some c_path \<Rightarrow>
          if \<not> new_nothrow E 1024
          then Some ((cephThrowOutOfMemory E ''head allocation failed'', None), m)
          else case listxattr_loop call E L c_path 1024 m of
            None \<Rightarrow> None
          | Some (Inl e, m') \<Rightarrow> Some ((e, None), m')
          | Some (Inr r, m') \<Rightarrow>
              if ret r < 0 then Some ((handle_error E (ret r), None), m')
              else
                (case split_names E (\<lambda>_. True) (out_buf r) (ret r) 0 [] of
                   None \<Rightarrow>
                     Some ((cephThrowOutOfMemory E ''heap allocation failed'', None), m')
                 | Some contents \<Rightarrow> Some (new_string_array E contents, m')))"

definition native_ceph_listxattr ::
  "jenv \<Rightarrow> 'w libcephfs \<Rightarrow> 'w cmount \<Rightarrow> string jref
   \<Rightarrow> ((jexception option \<times> string list option) \<times> 'w cmount) option" where
  "native_ceph_listxattr = listxattr_body Ceph_listxattr"

definition native_ceph_llistxattr ::
  "jenv \<Rightarrow> 'w libcephfs \<Rightarrow> 'w cmount \<Rightarrow> string jref
   \<Rightarrow> ((jexception option \<times> string list option) \<times> 'w cmount) option" where
  "native_ceph_llistxattr = listxattr_body Ceph_llistxattr"

text \<open>
  \<open>conf_get\<close>: 128 bytes to start with, doubled on \<open>-ENAMETOOLONG\<close>. It does not ask
  whether the handle is mounted. The value is the C string in the buffer, which was zeroed
  before the call; \<open>-ENOENT\<close> is a null result without an exception.
\<close>

partial_function (option) conf_get_loop ::
  "jenv \<Rightarrow> 'w libcephfs \<Rightarrow> string \<Rightarrow> int \<Rightarrow> 'w cmount
   \<Rightarrow> ((jexception option + lreply \<times> int) \<times> 'w cmount) option" where
  "conf_get_loop E L c_opt buflen m =
     (case ceph L (Ceph_conf_get c_opt buflen) m of
        (r, m1) \<Rightarrow>
          if ret r = - ENAMETOOLONG then
            (if \<not> new_nothrow E (doubled buflen)
             then Some (Inl (cephThrowOutOfMemory E ''head allocation failed''), m1)
             else conf_get_loop E L c_opt (doubled buflen) m1)
          else Some (Inr (r, buflen), m1))"

definition native_ceph_conf_get ::
  "jenv \<Rightarrow> 'w libcephfs \<Rightarrow> 'w cmount \<Rightarrow> string jref
   \<Rightarrow> ((jexception option \<times> string option) \<times> 'w cmount) option" where
  "native_ceph_conf_get E L m j_opt =
     (let m = ceph_get_mount_context m in
      if j_opt = JNull then Some ((cephThrowNullArg E ''@option is null'', None), m)
      else case GetStringUTFChars E j_opt of
        None \<Rightarrow> Some ((cephThrowInternal E ''failed to pin memory'', None), m)
      | Some c_opt \<Rightarrow>
          if \<not> new_nothrow E 128
          then Some ((cephThrowOutOfMemory E ''head allocation failed'', None), m)
          else case conf_get_loop E L c_opt 128 m of
            None \<Rightarrow> None
          | Some (Inl e, m') \<Rightarrow> Some ((e, None), m')
          | Some (Inr (r, buflen), m') \<Rightarrow>
              if ret r = 0 then
                (let v = read_string E (filled buflen (out_buf r)) in
                 Some ((if NewStringUTF E v then (None, Some v) else (Some ThrownByJVM, None)),
                       m'))
              else if ret r \<noteq> - ENOENT then Some ((handle_error E (ret r), None), m')
              else Some ((None, None), m'))"

text \<open>
  \<open>get_file_pool_name\<close>: 128 bytes to start with. On \<open>-ERANGE\<close> the length passed
  becomes 0, and the next call, made with length 0, returns the length required; the
  buffer is then replaced by one of exactly that length and the call repeated.
\<close>

partial_function (option) pool_name_loop ::
  "jenv \<Rightarrow> 'w libcephfs \<Rightarrow> int \<Rightarrow> int \<Rightarrow> 'w cmount
   \<Rightarrow> ((jexception option + lreply \<times> int) \<times> 'w cmount) option" where
  "pool_name_loop E L j_fd buflen m =
     (case ceph L (Ceph_get_file_pool_name j_fd buflen) m of
        (r, m1) \<Rightarrow>
          if ret r = - ERANGE then pool_name_loop E L j_fd 0 m1
          else if ret r < 0 then Some (Inr (r, buflen), m1)
          else if buflen = 0 then
            (if \<not> new_nothrow E (ret r)
             then Some (Inl (cephThrowOutOfMemory E ''head allocation failed''), m1)
             else pool_name_loop E L j_fd (ret r) m1)
          else Some (Inr (r, buflen), m1))"

definition native_ceph_get_file_pool_name ::
  "jenv \<Rightarrow> 'w libcephfs \<Rightarrow> 'w cmount \<Rightarrow> int
   \<Rightarrow> ((jexception option \<times> string option) \<times> 'w cmount) option" where
  "native_ceph_get_file_pool_name E L m j_fd =
     (let m = ceph_get_mount_context m in
      case is_mounted L m of (yes, m) \<Rightarrow>
      if \<not> yes then Some ((not_mounted E, None), m)
      else if \<not> new_nothrow E 128
      then Some ((cephThrowOutOfMemory E ''head allocation failed'', None), m)
      else case pool_name_loop E L j_fd 128 m of
        None \<Rightarrow> None
      | Some (Inl e, m') \<Rightarrow> Some ((e, None), m')
      | Some (Inr (r, buflen), m') \<Rightarrow>
          if ret r < 0 then Some ((handle_error E (ret r), None), m')
          else
            (let v = read_string E (filled buflen (out_buf r)) in
             Some ((if NewStringUTF E v then (None, Some v) else (Some ThrownByJVM, None)),
                   m')))"

subsection \<open>All the I/O-bearing native methods, as one function\<close>

text \<open>
  A call of a native method with its Java arguments, what it hands back (the value
  returned and the state of the object or array it was given to fill), and the function
  that runs a call. A method whose loop may not end yields \<open>None\<close> for that.
\<close>

datatype jni_call =
    Statfs "string jref" "cephstatvfs jref"
  | Getcwd
  | Chdir "string jref"
  | Listdir "string jref"
  | Link "string jref" "string jref"
  | Unlink "string jref"
  | Rename "string jref" "string jref"
  | Mkdir "string jref" int
  | Mkdirs "string jref" int
  | Rmdir "string jref"
  | Readlink "string jref"
  | Symlink "string jref" "string jref"
  | Lstat "string jref" "cephstat jref"
  | Stat "string jref" "cephstat jref"
  | Setattr "string jref" "cephstat jref" int
  | Chmod "string jref" int
  | Fchmod int int
  | Truncate "string jref" int
  | Open "string jref" int int
  | Open_layout "string jref" int int int int int "string jref"
  | Close int
  | Lseek int int int
  | Read int "bytes jref" int int
  | Write int "bytes jref" int int
  | Ftruncate int int
  | Fsync int bool
  | Fstat int "cephstat jref"
  | Getxattr "string jref" "string jref" "bytes jref"
  | Lgetxattr "string jref" "string jref" "bytes jref"
  | Listxattr "string jref"
  | Llistxattr "string jref"
  | Removexattr "string jref" "string jref"
  | Lremovexattr "string jref" "string jref"
  | Setxattr "string jref" "string jref" "bytes jref" int int
  | Lsetxattr "string jref" "string jref" "bytes jref" int int
  | Get_file_stripe_unit int
  | Get_file_replication int
  | Get_file_pool_name int

datatype jresult =
    RInt int
  | RString "string option"
  | RStrings "string list option"
  | RStat int "cephstat jref"
  | RStatVFS int "cephstatvfs jref"
  | RBytes int "bytes jref"

definition as_int ::
  "(jexception option \<times> int) \<times> 'm \<Rightarrow> ((jexception option \<times> jresult) \<times> 'm) option" where
  "as_int x = (case x of ((e, rc), m') \<Rightarrow> Some ((e, RInt rc), m'))"

definition as_stat ::
  "(jexception option \<times> int \<times> cephstat jref) \<times> 'm
   \<Rightarrow> ((jexception option \<times> jresult) \<times> 'm) option" where
  "as_stat x = (case x of ((e, rc, obj), m') \<Rightarrow> Some ((e, RStat rc obj), m'))"

definition as_statvfs ::
  "(jexception option \<times> int \<times> cephstatvfs jref) \<times> 'm
   \<Rightarrow> ((jexception option \<times> jresult) \<times> 'm) option" where
  "as_statvfs x = (case x of ((e, rc, obj), m') \<Rightarrow> Some ((e, RStatVFS rc obj), m'))"

definition as_bytes ::
  "(jexception option \<times> int \<times> bytes jref) \<times> 'm
   \<Rightarrow> ((jexception option \<times> jresult) \<times> 'm) option" where
  "as_bytes x = (case x of ((e, rc, buf), m') \<Rightarrow> Some ((e, RBytes rc buf), m'))"

definition as_string ::
  "(jexception option \<times> string option) \<times> 'm
   \<Rightarrow> ((jexception option \<times> jresult) \<times> 'm) option" where
  "as_string x = (case x of ((e, v), m') \<Rightarrow> Some ((e, RString v), m'))"

definition as_strings ::
  "(jexception option \<times> string list option) \<times> 'm
   \<Rightarrow> ((jexception option \<times> jresult) \<times> 'm) option" where
  "as_strings x = (case x of ((e, v), m') \<Rightarrow> Some ((e, RStrings v), m'))"

fun invoke ::
  "jenv \<Rightarrow> 'w libcephfs \<Rightarrow> 'w cmount \<Rightarrow> jni_call
   \<Rightarrow> ((jexception option \<times> jresult) \<times> 'w cmount) option" where
  "invoke E L m (Statfs p st) = as_statvfs (native_ceph_statfs E L m p st)"
| "invoke E L m Getcwd = as_string (native_ceph_getcwd E L m)"
| "invoke E L m (Chdir p) = as_int (native_ceph_chdir E L m p)"
| "invoke E L m (Listdir p) = Option.bind (native_ceph_listdir E L m p) as_strings"
| "invoke E L m (Link a b) = as_int (native_ceph_link E L m a b)"
| "invoke E L m (Unlink p) = as_int (native_ceph_unlink E L m p)"
| "invoke E L m (Rename a b) = as_int (native_ceph_rename E L m a b)"
| "invoke E L m (Mkdir p md) = as_int (native_ceph_mkdir E L m p md)"
| "invoke E L m (Mkdirs p md) = as_int (native_ceph_mkdirs E L m p md)"
| "invoke E L m (Rmdir p) = as_int (native_ceph_rmdir E L m p)"
| "invoke E L m (Readlink p) = Option.bind (native_ceph_readlink E L m p) as_string"
| "invoke E L m (Symlink a b) = as_int (native_ceph_symlink E L m a b)"
| "invoke E L m (Lstat p st) = as_stat (native_ceph_lstat E L m p st)"
| "invoke E L m (Stat p st) = as_stat (native_ceph_stat E L m p st)"
| "invoke E L m (Setattr p st msk) = as_int (native_ceph_setattr E L m p st msk)"
| "invoke E L m (Chmod p md) = as_int (native_ceph_chmod E L m p md)"
| "invoke E L m (Fchmod fd md) = as_int (native_ceph_fchmod E L m fd md)"
| "invoke E L m (Truncate p sz) = as_int (native_ceph_truncate E L m p sz)"
| "invoke E L m (Open p fl md) = as_int (native_ceph_open E L m p fl md)"
| "invoke E L m (Open_layout p fl md su sc os pool) =
     as_int (native_ceph_open_layout E L m p fl md su sc os pool)"
| "invoke E L m (Close fd) = as_int (native_ceph_close E L m fd)"
| "invoke E L m (Lseek fd off wh) = as_int (native_ceph_lseek E L m fd off wh)"
| "invoke E L m (Read fd buf sz off) = as_bytes (native_ceph_read E L m fd buf sz off)"
| "invoke E L m (Write fd buf sz off) = as_bytes (native_ceph_write E L m fd buf sz off)"
| "invoke E L m (Ftruncate fd sz) = as_int (native_ceph_ftruncate E L m fd sz)"
| "invoke E L m (Fsync fd d) = as_int (native_ceph_fsync E L m fd d)"
| "invoke E L m (Fstat fd st) = as_stat (native_ceph_fstat E L m fd st)"
| "invoke E L m (Getxattr p n buf) = as_bytes (native_ceph_getxattr E L m p n buf)"
| "invoke E L m (Lgetxattr p n buf) = as_bytes (native_ceph_lgetxattr E L m p n buf)"
| "invoke E L m (Listxattr p) = Option.bind (native_ceph_listxattr E L m p) as_strings"
| "invoke E L m (Llistxattr p) = Option.bind (native_ceph_llistxattr E L m p) as_strings"
| "invoke E L m (Removexattr p n) = as_int (native_ceph_removexattr E L m p n)"
| "invoke E L m (Lremovexattr p n) = as_int (native_ceph_lremovexattr E L m p n)"
| "invoke E L m (Setxattr p n buf sz fl) = as_int (native_ceph_setxattr E L m p n buf sz fl)"
| "invoke E L m (Lsetxattr p n buf sz fl) = as_int (native_ceph_lsetxattr E L m p n buf sz fl)"
| "invoke E L m (Get_file_stripe_unit fd) = as_int (native_ceph_get_file_stripe_unit E L m fd)"
| "invoke E L m (Get_file_replication fd) = as_int (native_ceph_get_file_replication E L m fd)"
| "invoke E L m (Get_file_pool_name fd) =
     Option.bind (native_ceph_get_file_pool_name E L m fd) as_string"

text \<open>
  For the statements: a call whose required references are not null and whose size is not
  negative (the data pool of \<open>open_layout\<close> and the buffer of \<open>getxattr\<close> may be
  null); what a call hands back when it returns early (\<open>-1\<close> or null, its objects
  untouched); and the one method without a mounted check.
\<close>

fun args_given :: "jni_call \<Rightarrow> bool" where
  "args_given (Statfs p st) = (p \<noteq> JNull \<and> st \<noteq> JNull)"
| "args_given (Chdir p) = (p \<noteq> JNull)"
| "args_given (Listdir p) = (p \<noteq> JNull)"
| "args_given (Link a b) = (a \<noteq> JNull \<and> b \<noteq> JNull)"
| "args_given (Unlink p) = (p \<noteq> JNull)"
| "args_given (Rename a b) = (a \<noteq> JNull \<and> b \<noteq> JNull)"
| "args_given (Mkdir p md) = (p \<noteq> JNull)"
| "args_given (Mkdirs p md) = (p \<noteq> JNull)"
| "args_given (Rmdir p) = (p \<noteq> JNull)"
| "args_given (Readlink p) = (p \<noteq> JNull)"
| "args_given (Symlink a b) = (a \<noteq> JNull \<and> b \<noteq> JNull)"
| "args_given (Lstat p st) = (p \<noteq> JNull \<and> st \<noteq> JNull)"
| "args_given (Stat p st) = (p \<noteq> JNull \<and> st \<noteq> JNull)"
| "args_given (Setattr p st msk) = (p \<noteq> JNull \<and> st \<noteq> JNull)"
| "args_given (Chmod p md) = (p \<noteq> JNull)"
| "args_given (Truncate p sz) = (p \<noteq> JNull)"
| "args_given (Open p fl md) = (p \<noteq> JNull)"
| "args_given (Open_layout p fl md su sc os pool) = (p \<noteq> JNull)"
| "args_given (Read fd buf sz off) = (buf \<noteq> JNull \<and> 0 \<le> sz)"
| "args_given (Write fd buf sz off) = (buf \<noteq> JNull \<and> 0 \<le> sz)"
| "args_given (Fstat fd st) = (st \<noteq> JNull)"
| "args_given (Getxattr p n buf) = (p \<noteq> JNull \<and> n \<noteq> JNull)"
| "args_given (Lgetxattr p n buf) = (p \<noteq> JNull \<and> n \<noteq> JNull)"
| "args_given (Listxattr p) = (p \<noteq> JNull)"
| "args_given (Llistxattr p) = (p \<noteq> JNull)"
| "args_given (Removexattr p n) = (p \<noteq> JNull \<and> n \<noteq> JNull)"
| "args_given (Lremovexattr p n) = (p \<noteq> JNull \<and> n \<noteq> JNull)"
| "args_given (Setxattr p n buf sz fl) =
     (p \<noteq> JNull \<and> n \<noteq> JNull \<and> buf \<noteq> JNull \<and> 0 \<le> sz)"
| "args_given (Lsetxattr p n buf sz fl) =
     (p \<noteq> JNull \<and> n \<noteq> JNull \<and> buf \<noteq> JNull \<and> 0 \<le> sz)"
| "args_given _ = True"

fun early_result :: "jni_call \<Rightarrow> jresult" where
  "early_result (Statfs p st) = RStatVFS (- 1) st"
| "early_result Getcwd = RString None"
| "early_result (Listdir p) = RStrings None"
| "early_result (Readlink p) = RString None"
| "early_result (Lstat p st) = RStat (- 1) st"
| "early_result (Stat p st) = RStat (- 1) st"
| "early_result (Fstat fd st) = RStat (- 1) st"
| "early_result (Read fd buf sz off) = RBytes (- 1) buf"
| "early_result (Write fd buf sz off) = RBytes (- 1) buf"
| "early_result (Getxattr p n buf) = RBytes (- 1) buf"
| "early_result (Lgetxattr p n buf) = RBytes (- 1) buf"
| "early_result (Listxattr p) = RStrings None"
| "early_result (Llistxattr p) = RStrings None"
| "early_result (Get_file_pool_name fd) = RString None"
| "early_result _ = RInt (- 1)"

fun is_fsync :: "jni_call \<Rightarrow> bool" where
  "is_fsync (Fsync fd d) = True"
| "is_fsync _ = False"

definition argument_error :: "jenv \<Rightarrow> jexception option \<Rightarrow> bool" where
  "argument_error E e = (\<exists>msg. e = cephThrowNullArg E msg \<or> e = cephThrowIndexBounds E msg)"

subsection \<open>Concrete values for the evaluations\<close>

text \<open>
  A runtime that refuses nothing it can grant: it finds the classes that exist (those of
  the JDK and of com.ceph.fs; \<open>java/lang/OutOfMemoryException\<close> is not one of them, the
  JDK's class is \<open>OutOfMemoryError\<close>), and nothing lies behind a buffer.
\<close>

definition loaded_classes :: "string list" where
  "loaded_classes =
     [''java/lang/String'', ''java/lang/NullPointerException'', ''java/lang/InternalError'',
      ''java/lang/IndexOutOfBoundsException'', ''java/lang/IllegalArgumentException'',
      ''java/io/FileNotFoundException'', ''java/io/IOException'',
      ''com/ceph/fs/CephNotMountedException'', ''com/ceph/fs/CephFileAlreadyExistsException'',
      ''com/ceph/fs/CephAlreadyMountedException'', ''com/ceph/fs/CephNotDirectoryException'']"

definition env_ok :: jenv where
  "env_ok =
     \<lparr> FindClass = (\<lambda>n. n \<in> set loaded_classes), ThrowNew = (\<lambda>_. True),
       pin_string = (\<lambda>_. True), pin_bytes = (\<lambda>_. True), new_chars = (\<lambda>_. True),
       new_string = (\<lambda>_. True), NewStringUTF = (\<lambda>_. True), NewObjectArray = (\<lambda>_. True),
       SetObjectArrayElement = (\<lambda>_ _. True), beyond = [] \<rparr>"

text \<open>A text of a given length, and a heap that grants buffers up to a limit only.\<close>

definition long_text :: "nat \<Rightarrow> string" where
  "long_text n = replicate n (CHR ''x'')"

definition env_upto :: "int \<Rightarrow> jenv" where
  "env_upto limit = env_ok \<lparr> new_chars := (\<lambda>n. n \<le> limit) \<rparr>"

text \<open>The same runtime with given bytes behind every buffer.\<close>

definition env_behind :: "bytes \<Rightarrow> jenv" where
  "env_behind b = env_ok \<lparr> beyond := b \<rparr>"

definition new_cephstatvfs :: cephstatvfs where
  "new_cephstatvfs =
     \<lparr> bsize = 0, frsize = 0, vfs_blocks = 0, bavail = 0, files = 0, fsid = 0, namemax = 0 \<rparr>"

text \<open>A freshly constructed \<open>CephStat\<close> object: Java zeroes every field.\<close>

definition new_cephstat :: cephstat where
  "new_cephstat =
     \<lparr> mode = 0, uid = 0, gid = 0, size = 0, blksize = 0, blocks = 0, a_time = 0, m_time = 0,
       is_file = False, is_directory = False, is_symlink = False \<rparr>"

definition reply :: "int \<Rightarrow> lreply" where
  "reply rc =
     \<lparr> ret = rc, out_buf = [], out_stat = zero_stat, out_statvfs = zero_statvfs, out_dirp = 0,
       out_cwd = None \<rparr>"

text \<open>
  A library whose handle is not mounted: it answers every call with \<open>-ENOTCONN\<close> (as
  the test UnmountUnmounted expects of \<open>ceph_unmount\<close>) and counts the calls it gets.
\<close>

definition ENOTCONN :: int where "ENOTCONN = 107"

definition unmounted_lib :: "nat libcephfs" where
  "unmounted_lib =
     \<lparr> ceph_is_mounted = (\<lambda>_. False), ceph_call = (\<lambda>c w. (reply (- ENOTCONN), Suc w)) \<rparr>"

text \<open>
  A mounted library holding one regular file, mode 0100644, last modified and last read
  at 5 seconds and 1 millisecond; any path and any descriptor name that file.
\<close>

definition one_file_stat :: stat where
  "one_file_stat =
     zero_stat \<lparr> st_mode := 33188, st_size := 9, st_blksize := 4096, st_blocks := 1,
                 st_mtim := \<lparr> tv_sec = 5, tv_nsec = 1000000 \<rparr>,
                 st_atim := \<lparr> tv_sec = 5, tv_nsec = 1000000 \<rparr> \<rparr>"

definition one_file_lib :: "unit libcephfs" where
  "one_file_lib =
     \<lparr> ceph_is_mounted = (\<lambda>_. True),
       ceph_call = (\<lambda>c w. ((reply 0) \<lparr> out_stat := one_file_stat \<rparr>, w)) \<rparr>"

text \<open>Names in a buffer, each followed by its NUL.\<close>

definition names_bytes :: "string list \<Rightarrow> bytes" where
  "names_bytes names = concat (map (\<lambda>n. n @ [CHR 0x00]) names)"

definition fresh_mount :: "'w \<Rightarrow> 'w cmount" where
  "fresh_mount w = \<lparr> lw = w, trace = [] \<rparr>"

subsection \<open>The extended attributes of libcephfs\<close>

text \<open>
  Modelled from the spec: \<open>ceph_getxattr\<close>, \<open>ceph_lgetxattr\<close>, \<open>ceph_listxattr\<close> and
  \<open>ceph_llistxattr\<close> of libcephfs, which these sources only call. The spec: an
  attribute is a key and a value attached to a node, keys are unique per node and are
  listed in a stable order; reading into an undersized caller buffer fails with a range
  error; a zero-length buffer is a size query that never fails for that reason alone. A
  missing node is "not found", a missing attribute "no such attribute". The library's
  state gives each node (by its path) its attributes in listing order.
\<close>

type_synonym xattrs = "string \<rightharpoonup> (string \<times> bytes) list"

definition sized_reply :: "bytes \<Rightarrow> int \<Rightarrow> lreply" where
  "sized_reply v len =
     (if len = 0 then reply (int (length v))
      else if len < int (length v) then reply (- ERANGE)
      else (reply (int (length v))) \<lparr> out_buf := v \<rparr>)"

definition xattr_get :: "xattrs \<Rightarrow> string \<Rightarrow> string \<Rightarrow> int \<Rightarrow> lreply" where
  "xattr_get store path name len =
     (case store path of
        None \<Rightarrow> reply (- ENOENT)
      | Some kvs \<Rightarrow>
          (case map_of kvs name of
             None \<Rightarrow> reply (- ENODATA)
           | Some v \<Rightarrow> sized_reply v len))"

definition xattr_list :: "xattrs \<Rightarrow> string \<Rightarrow> int \<Rightarrow> lreply" where
  "xattr_list store path len =
     (case store path of
        None \<Rightarrow> reply (- ENOENT)
      | Some kvs \<Rightarrow> sized_reply (names_bytes (map fst kvs)) len)"

definition xattr_lib :: "xattrs libcephfs" where
  "xattr_lib =
     \<lparr> ceph_is_mounted = (\<lambda>_. True),
       ceph_call = (\<lambda>c w.
         case c of
           Ceph_getxattr p n len \<Rightarrow> (xattr_get w p n len, w)
         | Ceph_lgetxattr p n len \<Rightarrow> (xattr_get w p n len, w)
         | Ceph_listxattr p len \<Rightarrow> (xattr_list w p len, w)
         | Ceph_llistxattr p len \<Rightarrow> (xattr_list w p len, w)
         | _ \<Rightarrow> (reply 0, w)) \<rparr>"

subsection \<open>The configuration and the pool names of libcephfs\<close>

text \<open>
  Modelled from the spec: \<open>ceph_conf_get\<close> of libcephfs, which these sources only call.
  The spec: the configuration is a key/value store, \<open>get(key)\<close> yields the value or
  "absent"; a buffer that cannot hold the value is answered by the size-insufficient
  signal, which for this call carries no size. The value is written as a C string, so it
  needs its length and one byte.
\<close>

definition conf_lib :: "(string \<rightharpoonup> string) libcephfs" where
  "conf_lib =
     \<lparr> ceph_is_mounted = (\<lambda>_. False),
       ceph_call = (\<lambda>c w.
         case c of
           Ceph_conf_get opt len \<Rightarrow>
             (case w opt of
                None \<Rightarrow> (reply (- ENOENT), w)
              | Some v \<Rightarrow>
                  if len < int (length v) + 1 then (reply (- ENAMETOOLONG), w)
                  else ((reply 0) \<lparr> out_buf := v @ [CHR 0x00] \<rparr>, w))
         | _ \<Rightarrow> (reply 0, w)) \<rparr>"

text \<open>
  Modelled from the spec: \<open>ceph_get_file_pool_name\<close> of libcephfs, which these sources
  only call. The spec: a pool-name lookup into a buffer that is too small is answered by
  the size-insufficient signal, and the service reports the exact size required (to a
  query of length zero). The library's state is the name of the data pool of the open
  files.
\<close>

definition pool_lib :: "string libcephfs" where
  "pool_lib =
     \<lparr> ceph_is_mounted = (\<lambda>_. True),
       ceph_call = (\<lambda>c w.
         case c of
           Ceph_get_file_pool_name fd len \<Rightarrow> (sized_reply w len, w)
         | _ \<Rightarrow> (reply 0, w)) \<rparr>"

text \<open>
  The probe-then-fetch protocol in the spec's words: start with a default size; on a
  size-insufficient signal double the buffer and retry; an allocation that fails ends the
  protocol. \<open>probe_double alloc need buflen\<close> gives the buffer lengths offered to the
  service, starting with \<open>buflen\<close>, and whether the last one was enough (\<open>need\<close> bytes);
  \<open>False\<close> is the failed allocation.
\<close>

function probe_double :: "(int \<Rightarrow> bool) \<Rightarrow> int \<Rightarrow> int \<Rightarrow> int list \<times> bool" where
  "probe_double alloc need buflen =
     (if need \<le> buflen \<or> buflen \<le> 0 then ([buflen], True)
      else if \<not> alloc (buflen * 2) then ([buflen], False)
      else case probe_double alloc need (buflen * 2) of (bs, ok) \<Rightarrow> (buflen # bs, ok))"
  by pat_completeness auto
termination
  by (relation "measure (\<lambda>(alloc, need, buflen). nat (need - buflen))") auto

declare probe_double.simps [simp del]

subsection \<open>A symbolic link that changes while it is read\<close>

text \<open>
  Modelled from the spec: \<open>ceph_lstat\<close> and \<open>ceph_readlink\<close> of libcephfs on one
  symbolic link, which these sources only call. The spec: the link node records the size
  of its target text; the size lookup and the read are not atomic with respect to
  concurrent modification. The library's state is the target as it is now and the targets
  other clients will give it later; after each call the next pending change, if any,
  takes effect. \<open>ceph_readlink\<close> copies as much of the target as the buffer holds and
  returns the number of bytes copied.
\<close>

type_synonym versions = "string \<times> string list"

definition advance :: "versions \<Rightarrow> versions" where
  "advance w = (case snd w of [] \<Rightarrow> w | t # ts \<Rightarrow> (t, ts))"

definition link_lib :: "versions libcephfs" where
  "link_lib =
     \<lparr> ceph_is_mounted = (\<lambda>_. True),
       ceph_call = (\<lambda>c w.
         case c of
           Ceph_lstat p \<Rightarrow>
             ((reply 0) \<lparr> out_stat := zero_stat \<lparr> st_mode := S_IFLNK + 511,
                                                  st_size := int (length (fst w)) \<rparr> \<rparr>,
              advance w)
         | Ceph_readlink p len \<Rightarrow>
             ((reply (min len (int (length (fst w))))) \<lparr> out_buf := take (nat len) (fst w) \<rparr>,
              advance w)
         | _ \<Rightarrow> (reply 0, w)) \<rparr>"

text \<open>
  What the spec asks of \<open>readlink\<close> on such a link, in the spec's words: use the
  recorded size as the buffer hint, and re-stat and retry when the text had grown between
  the size lookup and the read. \<open>readlink_spec\<close> is the text delivered and
  \<open>readlink_calls\<close> the calls made: the size lookup sees the current target, the read
  sees the next one.
\<close>

fun readlink_spec :: "string \<Rightarrow> string list \<Rightarrow> string" where
  "readlink_spec cur [] = cur"
| "readlink_spec cur [t] = t"
| "readlink_spec cur (t # u # rest) =
     (if length t \<le> length cur then t else readlink_spec u rest)"

fun readlink_calls :: "string \<Rightarrow> string \<Rightarrow> string list \<Rightarrow> lcall list" where
  "readlink_calls p cur [] = [Ceph_lstat p, Ceph_readlink p (int (length cur) + 1)]"
| "readlink_calls p cur [t] =
     [Ceph_lstat p, Ceph_readlink p (int (length cur) + 1)]
     @ (if length t \<le> length cur then []
        else [Ceph_lstat p, Ceph_readlink p (int (length t) + 1)])"
| "readlink_calls p cur (t # u # rest) =
     [Ceph_lstat p, Ceph_readlink p (int (length cur) + 1)]
     @ (if length t \<le> length cur then [] else readlink_calls p u rest)"

subsection \<open>The directory enumerator of libcephfs\<close>

text \<open>
  Modelled from the spec: the Directory Enumerator behind \<open>ceph_opendir\<close>,
  \<open>ceph_readdir\<close>, \<open>ceph_telldir\<close>, \<open>ceph_seekdir\<close>, \<open>ceph_rewinddir\<close> and
  \<open>ceph_getdnames\<close>, which these sources only call and test. The spec: a cursor holds
  the current enumeration position and a read-ahead buffer of entries already fetched but
  not yet delivered; entries are fetched lazily, a page at a time, from the metadata
  service (\<open>listEntries(node, continuation)\<close>); the first two entries after open or
  rewind are \<open>.\<close> and \<open>..\<close>; \<open>tell\<close> returns the position, \<open>seek\<close> restores it and
  \<open>rewind\<close> is \<open>seek\<close> to the initial position; the end of the directory is an empty
  result. The directory is the list of its children as the metadata service lists them.
\<close>

definition listEntries :: "nat \<Rightarrow> string list \<Rightarrow> nat \<Rightarrow> string list" where
  "listEntries page children continuation = take page (drop continuation children)"

record dir_cursor =
  pos :: nat
  readahead :: "string list"

definition opendir :: dir_cursor where
  "opendir = \<lparr> pos = 0, readahead = [] \<rparr>"

definition readdir :: "nat \<Rightarrow> string list \<Rightarrow> dir_cursor \<Rightarrow> string option \<times> dir_cursor" where
  "readdir page children c =
     (if pos c = 0 then (Some ''.'', c \<lparr> pos := 1 \<rparr>)
      else if pos c = 1 then (Some ''..'', c \<lparr> pos := 2 \<rparr>)
      else case readahead c of
        e # es \<Rightarrow> (Some e, c \<lparr> pos := pos c + 1, readahead := es \<rparr>)
      | [] \<Rightarrow>
          (case listEntries page children (pos c - 2) of
             [] \<Rightarrow> (None, c)
           | e # es \<Rightarrow> (Some e, c \<lparr> pos := pos c + 1, readahead := es \<rparr>)))"

definition telldir :: "dir_cursor \<Rightarrow> nat" where
  "telldir c = pos c"

definition seekdir :: "dir_cursor \<Rightarrow> nat \<Rightarrow> dir_cursor" where
  "seekdir c token = c \<lparr> pos := token, readahead := [] \<rparr>"

definition rewinddir :: "dir_cursor \<Rightarrow> dir_cursor" where
  "rewinddir c = seekdir c 0"

text \<open>
  Modelled from the spec: the bulk read into a caller's buffer. The spec: if the buffer is
  too small to hold even one entry, fail with a range error without consuming any entry;
  otherwise pack as many whole entries as fit and leave the remainder for the next call.
  An entry of \<open>ceph_getdnames\<close> is a name and its terminating NUL (the test ReaddirRCB
  counts 2 bytes for \<open>.\<close> and 3 for \<open>..\<close>).
\<close>

function pack_names :: "nat \<Rightarrow> string list \<Rightarrow> dir_cursor \<Rightarrow> nat \<Rightarrow> string list \<times> dir_cursor" where
  "pack_names page children c space =
     (case readdir page children c of
        (None, c') \<Rightarrow> ([], c)
      | (Some e, c') \<Rightarrow>
          if length e + 1 \<le> space
          then (case pack_names page children c' (space - (length e + 1)) of
                  (es, c'') \<Rightarrow> (e # es, c''))
          else ([], c))"
  by pat_completeness auto
termination
  by (relation "measure (\<lambda>(page, children, c, space). space)") auto

declare pack_names.simps [simp del]

definition getdnames :: "nat \<Rightarrow> string list \<Rightarrow> dir_cursor \<Rightarrow> nat \<Rightarrow> (int \<times> bytes) \<times> dir_cursor" where
  "getdnames page children c buflen =
     (case pack_names page children c buflen of
        ([], c') \<Rightarrow>
          (case fst (readdir page children c) of
             None \<Rightarrow> ((0, []), c)
           | Some e \<Rightarrow> ((- ERANGE, []), c))
      | (names, c') \<Rightarrow> ((int (length (names_bytes names)), names_bytes names), c'))"

text \<open>
  Repeated bulk reads until the end of the directory, and a single enumeration entry by
  entry; \<open>fuel\<close> bounds the number of calls, and \<open>None\<close> is "out of fuel" or a failed
  call.
\<close>

fun getdnames_all :: "nat \<Rightarrow> nat \<Rightarrow> string list \<Rightarrow> dir_cursor \<Rightarrow> nat \<Rightarrow> bytes option" where
  "getdnames_all 0 page children c buflen = None"
| "getdnames_all (Suc fuel) page children c buflen =
     (case getdnames page children c buflen of
        ((rc, buf), c') \<Rightarrow>
          if rc < 0 then None
          else if rc = 0 then Some []
          else map_option ((@) buf) (getdnames_all fuel page children c' buflen))"

fun readdir_all :: "nat \<Rightarrow> nat \<Rightarrow> string list \<Rightarrow> dir_cursor \<Rightarrow> string list option" where
  "readdir_all 0 page children c = None"
| "readdir_all (Suc fuel) page children c =
     (case readdir page children c of
        (None, c') \<Rightarrow> Some []
      | (Some e, c') \<Rightarrow> map_option ((#) e) (readdir_all fuel page children c'))"

text \<open>
  For the statements: the longest run of whole entries that fits a space, the entries of a
  directory in delivery order, and the cursors whose read-ahead buffer holds what the
  metadata service lists at their position.
\<close>

fun fit :: "nat \<Rightarrow> string list \<Rightarrow> string list" where
  "fit space [] = []"
| "fit space (e # es) =
     (if length e + 1 \<le> space then e # fit (space - (length e + 1)) es else [])"

definition entries :: "string list \<Rightarrow> string list" where
  "entries children = ''.'' # ''..'' # children"

definition wf_cursor :: "string list \<Rightarrow> dir_cursor \<Rightarrow> bool" where
  "wf_cursor children c =
     (if pos c < 2 then readahead c = []
      else \<exists>k. readahead c = take k (drop (pos c - 2) children))"

text \<open>
  Modelled from the spec: the cursor table. The spec: directory cursors are tracked in a
  table keyed by opaque handle; a cursor is created by opendir and destroyed by closedir;
  a closed cursor performing further reads fails with an error. The library holds one
  directory (its children and the page length of its metadata service), the cursors
  open on it by handle, and the handle the next \<open>ceph_opendir\<close> will give.
\<close>

record dir_world =
  dw_children :: "string list"
  dw_page :: nat
  dw_cursors :: "nat \<rightharpoonup> dir_cursor"
  dw_next :: nat

definition dir_lib :: "dir_world libcephfs" where
  "dir_lib =
     \<lparr> ceph_is_mounted = (\<lambda>_. True),
       ceph_call = (\<lambda>c w.
         case c of
           Ceph_opendir p \<Rightarrow>
             ((reply 0) \<lparr> out_dirp := dw_next w \<rparr>,
              w \<lparr> dw_cursors := (dw_cursors w) (dw_next w \<mapsto> opendir),
                  dw_next := Suc (dw_next w) \<rparr>)
         | Ceph_getdnames d len \<Rightarrow>
             (case dw_cursors w d of
                None \<Rightarrow> (reply (- EBADF), w)
              | Some cur \<Rightarrow>
                  (case getdnames (dw_page w) (dw_children w) cur (nat len) of
                     ((rc, buf), cur') \<Rightarrow>
                       ((reply rc) \<lparr> out_buf := buf \<rparr>,
                        w \<lparr> dw_cursors := (dw_cursors w) (d \<mapsto> cur') \<rparr>)))
         | Ceph_closedir d \<Rightarrow>
             (case dw_cursors w d of
                None \<Rightarrow> (reply (- EBADF), w)
              | Some cur \<Rightarrow> (reply 0, w \<lparr> dw_cursors := (dw_cursors w) (d := None) \<rparr>))
         | _ \<Rightarrow> (reply 0, w)) \<rparr>"

text \<open>
  For the statements: calls that are all \<open>ceph_getdnames\<close> on one cursor, and what
  \<open>ceph_opendir\<close> answers on a handle as it is (the cursor is \<open>out_dirp\<close> of that).
\<close>

definition getdnames_on :: "nat \<Rightarrow> lcall list \<Rightarrow> bool" where
  "getdnames_on dirp calls = (\<forall>c \<in> set calls. \<exists>n. c = Ceph_getdnames dirp n)"

definition opendir_reply :: "'w libcephfs \<Rightarrow> 'w cmount \<Rightarrow> string \<Rightarrow> lreply" where
  "opendir_reply L m p = fst (ceph_call L (Ceph_opendir p) (lw m))"

subsection \<open>The session: path resolver and handle table\<close>

text \<open>
  Modelled from the spec: the client session behind \<open>ceph_open\<close> and the calls that take
  a descriptor, which these sources only call and test. The spec: every public operation
  returns a success value or one classified failure, of the kinds listed here. A node
  reference identifies a file, a directory or a symbolic link; an open file handle holds
  its node, the open flags, the current byte offset and an optional striping layout; the
  session holds its lifecycle state, its current working directory, the open handles and,
  here, the nodes that the metadata service knows, the default layout and the replication
  of each data pool.
\<close>

datatype failure =
    NotMounted | AlreadyMounted | NotConnected | NotFound | AlreadyExists | NotADirectory
  | BadDescriptor | InvalidArgument | SymlinkLoop | RangeTooSmall | OutOfMemory
  | PermissionDenied | NoSpace | IoFailure

record inode =
  i_mode :: int
  i_uid :: int
  i_gid :: int
  i_data :: bytes

datatype node =
    Regular inode
  | Directory nat "(string \<times> nat) list"
  | SymbolicLink string

record layout =
  stripe_unit :: int
  stripe_count :: int
  object_size :: int
  data_pool :: string

record open_file =
  of_node :: nat
  of_flags :: int
  of_offset :: nat
  of_layout :: "layout option"

datatype lifecycle = CREATED | MOUNTED | UNMOUNTED | RELEASED

record session =
  s_state :: lifecycle
  s_cwd :: nat
  s_nodes :: "(nat \<times> node) list"
  s_handles :: "(int \<times> open_file) list"
  s_layout :: layout
  s_pools :: "(string \<times> int) list"

text \<open>
  Modelled from the spec: the Path Resolver. The spec: split the path into components;
  starting at the root or at the current working directory, resolve each component by a
  lookup; on a symbolic link, substitute its target and continue from the root for an
  absolute target and from the link's parent for a relative one; a terminal link is
  followed or not as the operation asks; a resolution-depth counter that exceeds a fixed
  bound (40, the conventional limit) fails with the symlink-loop error; a path through a
  component that is not a directory fails with "not a directory". The recursion is
  well-founded on the depth left and then on the components left.
\<close>

definition MAXSYMLINKS :: nat where "MAXSYMLINKS = 40"

definition root_node :: nat where "root_node = 0"

fun split_on :: "'a \<Rightarrow> 'a list \<Rightarrow> 'a list list" where
  "split_on d [] = [[]]"
| "split_on d (x # xs) =
     (if x = d then [] # split_on d xs
      else case split_on d xs of w # ws \<Rightarrow> (x # w) # ws | [] \<Rightarrow> [[x]])"

definition split_path :: "string \<Rightarrow> string list" where
  "split_path p = filter (\<lambda>w. w \<noteq> []) (split_on (CHR ''/'') p)"

definition is_absolute :: "string \<Rightarrow> bool" where
  "is_absolute p = (case p of [] \<Rightarrow> False | c # _ \<Rightarrow> c = CHR ''/'')"

function walk ::
  "(nat \<times> node) list \<Rightarrow> nat \<Rightarrow> nat \<Rightarrow> string list \<Rightarrow> bool \<Rightarrow> failure + nat" where
  "walk ns depth cur [] follow = Inr cur"
| "walk ns depth cur (c # cs) follow =
     (case map_of ns cur of
        None \<Rightarrow> Inl IoFailure
      | Some (Regular _) \<Rightarrow> Inl NotADirectory
      | Some (SymbolicLink _) \<Rightarrow> Inl NotADirectory
      | Some (Directory parent names) \<Rightarrow>
          if c = ''.'' then walk ns depth cur cs follow
          else if c = ''..'' then walk ns depth parent cs follow
          else case map_of names c of
            None \<Rightarrow> Inl NotFound
          | Some nxt \<Rightarrow>
              (case map_of ns nxt of
                 Some (SymbolicLink target) \<Rightarrow>
                   if cs = [] \<and> \<not> follow then Inr nxt
                   else if MAXSYMLINKS \<le> depth then Inl SymlinkLoop
                   else walk ns (Suc depth) (if is_absolute target then root_node else cur)
                          (split_path target @ cs) follow
               | _ \<Rightarrow> walk ns depth nxt cs follow))"
  by pat_completeness auto
termination
  by (relation "measures [\<lambda>(ns, depth, cur, comps, follow). MAXSYMLINKS - depth,
                          \<lambda>(ns, depth, cur, comps, follow). length comps]")
     auto

declare walk.simps [simp del]

text \<open>
  A walk through directories only, and the links of a cycle: \<open>link_step\<close> gives, for a
  link \<open>n\<close> of directory \<open>d\<close>, the directory and the name that its target ends in when the
  target's other components are plain directories; a list of links is closed when each
  of them leads to one of them.
\<close>

fun walk_plain :: "(nat \<times> node) list \<Rightarrow> nat \<Rightarrow> string list \<Rightarrow> nat option" where
  "walk_plain ns cur [] =
     (case map_of ns cur of Some (Directory parent names) \<Rightarrow> Some cur | _ \<Rightarrow> None)"
| "walk_plain ns cur (c # cs) =
     (case map_of ns cur of
        Some (Directory parent names) \<Rightarrow>
          if c = ''.'' \<or> c = ''..'' then None
          else (case map_of names c of
                  None \<Rightarrow> None
                | Some nxt \<Rightarrow>
                    (case map_of ns nxt of
                       Some (Directory p' names') \<Rightarrow> walk_plain ns nxt cs
                     | _ \<Rightarrow> None))
      | _ \<Rightarrow> None)"

definition link_step :: "(nat \<times> node) list \<Rightarrow> nat \<times> string \<Rightarrow> (nat \<times> string) option" where
  "link_step ns x =
     (case x of
        (d, n) \<Rightarrow>
          (case map_of ns d of
             Some (Directory parent names) \<Rightarrow>
               if n = ''.'' \<or> n = ''..'' then None
               else (case map_of names n of
                       None \<Rightarrow> None
                     | Some l \<Rightarrow>
                         (case map_of ns l of
                            Some (SymbolicLink target) \<Rightarrow>
                              if split_path target = [] then None
                              else (case walk_plain ns
                                           (if is_absolute target then root_node else d)
                                           (butlast (split_path target)) of
                                      None \<Rightarrow> None
                                    | Some d' \<Rightarrow> Some (d', last (split_path target)))
                          | _ \<Rightarrow> None))
           | _ \<Rightarrow> None))"

definition closed_links :: "(nat \<times> node) list \<Rightarrow> (nat \<times> string) list \<Rightarrow> bool" where
  "closed_links ns links =
     list_all (\<lambda>x. case link_step ns x of None \<Rightarrow> False | Some y \<Rightarrow> y \<in> set links) links"

text \<open>
  Modelled from the spec: the error numbers by which libcephfs reports the failure kinds
  (the tests of these sources compare with \<open>-EBADF\<close>, \<open>-ELOOP\<close>, \<open>-ENOTCONN\<close>,
  \<open>-EISCONN\<close>).
\<close>

definition EIO :: int where "EIO = 5"
definition ENOMEM :: int where "ENOMEM = 12"
definition EACCES :: int where "EACCES = 13"
definition ENOSPC :: int where "ENOSPC = 28"
definition EISCONN :: int where "EISCONN = 106"

fun errno_of :: "failure \<Rightarrow> int" where
  "errno_of NotMounted = - ENOTCONN"
| "errno_of AlreadyMounted = - EISCONN"
| "errno_of NotConnected = - ENOTCONN"
| "errno_of NotFound = - ENOENT"
| "errno_of AlreadyExists = - EEXIST"
| "errno_of NotADirectory = - ENOTDIR"
| "errno_of BadDescriptor = - EBADF"
| "errno_of InvalidArgument = - EINVAL"
| "errno_of SymlinkLoop = - ELOOP"
| "errno_of RangeTooSmall = - ERANGE"
| "errno_of OutOfMemory = - ENOMEM"
| "errno_of PermissionDenied = - EACCES"
| "errno_of NoSpace = - ENOSPC"
| "errno_of IoFailure = - EIO"

text \<open>
  Modelled from the spec: \<open>open\<close>. The spec: it fails with "not mounted" outside the
  mounted state; create combined with exclusive on an existing node fails with "already
  exists"; create makes a missing last component; the descriptor is the smallest
  non-negative integer not in use; a failure leaves the session as it was.
\<close>

definition start_node :: "session \<Rightarrow> string \<Rightarrow> nat" where
  "start_node s path = (if is_absolute path then root_node else s_cwd s)"

definition resolve :: "session \<Rightarrow> string \<Rightarrow> bool \<Rightarrow> failure + nat" where
  "resolve s path follow = walk (s_nodes s) 0 (start_node s path) (split_path path) follow"

definition lowest_free :: "(int \<times> open_file) list \<Rightarrow> int" where
  "lowest_free tbl =
     (case find (\<lambda>k. k \<notin> fst ` set tbl) (map int [0..<Suc (length tbl)]) of
        Some k \<Rightarrow> k
      | None \<Rightarrow> int (length tbl))"

definition fresh_node :: "(nat \<times> node) list \<Rightarrow> nat" where
  "fresh_node ns = Suc (fold max (map fst ns) 0)"

definition set_node :: "session \<Rightarrow> nat \<Rightarrow> node \<Rightarrow> session" where
  "set_node s n nd =
     s\<lparr>s_nodes := map (\<lambda>e. if fst e = n then (n, nd) else e) (s_nodes s)\<rparr>"

definition set_handle :: "session \<Rightarrow> int \<Rightarrow> open_file \<Rightarrow> session" where
  "set_handle s fd h =
     s\<lparr>s_handles := map (\<lambda>e. if fst e = fd then (fd, h) else e) (s_handles s)\<rparr>"

definition open_node :: "session \<Rightarrow> nat \<Rightarrow> int \<Rightarrow> (failure + int) \<times> session" where
  "open_node s n flags =
     (let s' = (case map_of (s_nodes s) n of
                  Some (Regular i) \<Rightarrow>
                    if flags AND O_TRUNC \<noteq> 0 then set_node s n (Regular (i\<lparr>i_data := []\<rparr>))
                    else s
                | _ \<Rightarrow> s);
          fd = lowest_free (s_handles s')
      in (Inr fd,
          s'\<lparr>s_handles :=
                (fd, \<lparr>of_node = n, of_flags = flags, of_offset = 0, of_layout = None\<rparr>)
                  # s_handles s'\<rparr>))"

definition create_file ::
  "session \<Rightarrow> string \<Rightarrow> int \<Rightarrow> int \<Rightarrow> (failure + int) \<times> session" where
  "create_file s path flags perm =
     (case walk (s_nodes s) 0 (start_node s path) (butlast (split_path path)) True of
        Inl e \<Rightarrow> (Inl e, s)
      | Inr d \<Rightarrow>
          (case map_of (s_nodes s) d of
             Some (Directory parent names) \<Rightarrow>
               (let n = fresh_node (s_nodes s);
                    file = Regular \<lparr>i_mode = perm, i_uid = 0, i_gid = 0, i_data = []\<rparr>;
                    s' = set_node s d (Directory parent (names @ [(last (split_path path), n)]))
                in open_node (s'\<lparr>s_nodes := s_nodes s' @ [(n, file)]\<rparr>) n flags)
           | _ \<Rightarrow> (Inl NotADirectory, s)))"

definition session_open ::
  "session \<Rightarrow> string \<Rightarrow> int \<Rightarrow> int \<Rightarrow> (failure + int) \<times> session" where
  "session_open s path flags perm =
     (if s_state s \<noteq> MOUNTED then (Inl NotMounted, s)
      else (case resolve s path True of
              Inr n \<Rightarrow>
                if flags AND O_CREAT \<noteq> 0 \<and> flags AND O_EXCL \<noteq> 0
                then (Inl AlreadyExists, s)
                else open_node s n flags
            | Inl e \<Rightarrow>
                if e = NotFound \<and> flags AND O_CREAT \<noteq> 0
                then create_file s path flags perm
                else (Inl e, s)))"

text \<open>
  Modelled from the spec: the Handle Table and the operations that take a descriptor
  (seek, read, write, truncate, fsync, stat, chmod, chown, the layout queries, close).
  The spec: each first validates that the descriptor is currently open; an unknown or
  negative descriptor fails with the bad-descriptor error; a read or a write at the
  "current position" (\<open>None\<close> here) uses and advances the handle's offset, an explicit
  offset does not move it; reading past the end returns fewer bytes; truncate pads with
  zeros; close releases the descriptor.
\<close>

datatype fd_request =
    Req_seek int int
  | Req_read nat "nat option"
  | Req_write bytes "nat option"
  | Req_truncate nat
  | Req_fsync bool
  | Req_stat
  | Req_chmod int
  | Req_chown int int
  | Req_stripe_unit
  | Req_pool_name
  | Req_replication
  | Req_close

record stat_record =
  sr_mode :: int
  sr_uid :: int
  sr_gid :: int
  sr_size :: nat

datatype fd_value =
    Done
  | Count nat
  | Position nat
  | Data bytes
  | Attributes stat_record
  | Number int
  | Name string

definition SEEK_SET :: int where "SEEK_SET = 0"
definition SEEK_CUR :: int where "SEEK_CUR = 1"
definition SEEK_END :: int where "SEEK_END = 2"

definition on_file ::
  "session \<Rightarrow> open_file \<Rightarrow> (inode \<Rightarrow> (failure + fd_value) \<times> session)
     \<Rightarrow> (failure + fd_value) \<times> session" where
  "on_file s h f =
     (case map_of (s_nodes s) (of_node h) of
        Some (Regular i) \<Rightarrow> f i
      | _ \<Rightarrow> (Inl IoFailure, s))"

definition handle_layout :: "session \<Rightarrow> open_file \<Rightarrow> layout" where
  "handle_layout s h = (case of_layout h of None \<Rightarrow> s_layout s | Some l \<Rightarrow> l)"

definition pad :: "nat \<Rightarrow> bytes \<Rightarrow> bytes" where
  "pad n bs = bs @ replicate (n - length bs) (CHR 0x00)"

fun perform ::
  "session \<Rightarrow> int \<Rightarrow> open_file \<Rightarrow> fd_request \<Rightarrow> (failure + fd_value) \<times> session" where
  "perform s fd h (Req_seek off whence) =
     on_file s h (\<lambda>i.
       if whence \<noteq> SEEK_SET \<and> whence \<noteq> SEEK_CUR \<and> whence \<noteq> SEEK_END
       then (Inl InvalidArgument, s)
       else (let base = (if whence = SEEK_SET then 0
                         else if whence = SEEK_CUR then int (of_offset h)
                         else int (length (i_data i)))
             in if base + off < 0 then (Inl InvalidArgument, s)
                else (Inr (Position (nat (base + off))),
                      set_handle s fd (h\<lparr>of_offset := nat (base + off)\<rparr>))))"
| "perform s fd h (Req_read len ofs) =
     on_file s h (\<lambda>i.
       case ofs of
         Some start \<Rightarrow> (Inr (Data (take len (drop start (i_data i)))), s)
       | None \<Rightarrow>
           (let got = take len (drop (of_offset h) (i_data i))
            in (Inr (Data got),
                set_handle s fd (h\<lparr>of_offset := of_offset h + length got\<rparr>))))"
| "perform s fd h (Req_write data ofs) =
     on_file s h (\<lambda>i.
       let start = (case ofs of Some p \<Rightarrow> p | None \<Rightarrow> of_offset h);
           new = take start (pad start (i_data i)) @ data @ drop (start + length data) (i_data i);
           s' = set_node s (of_node h) (Regular (i\<lparr>i_data := new\<rparr>))
       in (Inr (Count (length data)),
           case ofs of
             Some p \<Rightarrow> s'
           | None \<Rightarrow> set_handle s' fd (h\<lparr>of_offset := start + length data\<rparr>)))"
| "perform s fd h (Req_truncate n) =
     on_file s h (\<lambda>i.
       (Inr Done, set_node s (of_node h) (Regular (i\<lparr>i_data := take n (pad n (i_data i))\<rparr>))))"
| "perform s fd h (Req_fsync data_only) = (Inr Done, s)"
| "perform s fd h Req_stat =
     on_file s h (\<lambda>i.
       (Inr (Attributes \<lparr>sr_mode = i_mode i, sr_uid = i_uid i, sr_gid = i_gid i,
                         sr_size = length (i_data i)\<rparr>), s))"
| "perform s fd h (Req_chmod m) =
     on_file s h (\<lambda>i. (Inr Done, set_node s (of_node h) (Regular (i\<lparr>i_mode := m\<rparr>))))"
| "perform s fd h (Req_chown u g) =
     on_file s h (\<lambda>i.
       (Inr Done, set_node s (of_node h) (Regular (i\<lparr>i_uid := u, i_gid := g\<rparr>))))"
| "perform s fd h Req_stripe_unit = (Inr (Number (stripe_unit (handle_layout s h))), s)"
| "perform s fd h Req_pool_name = (Inr (Name (data_pool (handle_layout s h))), s)"
| "perform s fd h Req_replication =
     (case map_of (s_pools s) (data_pool (handle_layout s h)) of
        None \<Rightarrow> (Inl IoFailure, s)
      | Some r \<Rightarrow> (Inr (Number r), s))"
| "perform s fd h Req_close =
     (Inr Done, s\<lparr>s_handles := filter (\<lambda>e. fst e \<noteq> fd) (s_handles s)\<rparr>)"

definition lookup_handle :: "session \<Rightarrow> int \<Rightarrow> open_file option" where
  "lookup_handle s fd = (if fd < 0 then None else map_of (s_handles s) fd)"

definition descriptor_op ::
  "session \<Rightarrow> int \<Rightarrow> fd_request \<Rightarrow> (failure + fd_value) \<times> session" where
  "descriptor_op s fd req =
     (if s_state s \<noteq> MOUNTED then (Inl NotMounted, s)
      else (case lookup_handle s fd of
              None \<Rightarrow> (Inl BadDescriptor, s)
            | Some h \<Rightarrow> perform s fd h req))"

text \<open>
  The file system that the test \<open>LoopSyms\<close> of test.cc builds: \<open>/dir1/loop_dir/symdir\<close>
  is a link to itself, and \<open>/dir1/a\<close>, \<open>/dir1/c\<close>, \<open>/dir1/b\<close> are links in a cycle; with it
  a regular file, open as descriptor 0.
\<close>

definition loopsyms_nodes :: "(nat \<times> node) list" where
  "loopsyms_nodes =
     [(0, Directory 0 [(''dir1'', 1), (''file'', 7)]),
      (1, Directory 0 [(''loop_dir'', 2), (''b'', 4), (''c'', 5), (''a'', 6)]),
      (2, Directory 1 [(''symdir'', 3)]),
      (3, SymbolicLink ''/dir1/loop_dir/symdir''),
      (4, SymbolicLink ''/dir1/a''),
      (5, SymbolicLink ''/dir1/b''),
      (6, SymbolicLink ''/dir1/c''),
      (7, Regular \<lparr>i_mode = 420, i_uid = 0, i_gid = 0, i_data = ''abcdef''\<rparr>)]"

definition loopsyms_session :: session where
  "loopsyms_session =
     \<lparr>s_state = MOUNTED, s_cwd = 0, s_nodes = loopsyms_nodes,
      s_handles = [(0, \<lparr>of_node = 7, of_flags = O_RDWR, of_offset = 0, of_layout = None\<rparr>)],
      s_layout = \<lparr>stripe_unit = 4194304, stripe_count = 1, object_size = 4194304,
                  data_pool = ''data''\<rparr>,
      s_pools = [(''data'', 2)]\<rparr>"


section \<open>Theorems\<close>

lemma mounted_trace: "mounted L (m \<lparr> trace := t \<rparr>) = mounted L m"
  by (simp add: mounted_def)

lemmas enter_defs = ceph_get_mount_context_def is_mounted_def Let_def mounted_trace

text \<open>
  C10. The claim: the record \<open>fstat\<close> fills equals the record \<open>stat\<close> and
  \<open>lstat\<close> fill for the same node, with \<open>m_time\<close> and \<open>a_time\<close> encoded as seconds
  times 1000 plus the nanoseconds converted to milliseconds. The code of \<open>fstat\<close>
  divides the nanoseconds by 1000, not by 1000000, and does not set the type flags: for a
  regular file stamped 5 s + 1 ms, \<open>stat\<close> reports 5001 and a file, \<open>fstat\<close> reports
  6000 and no file.
\<close>

theorem C10_fstat_differs_from_stat:
  "(case fst (native_ceph_stat env_ok one_file_lib (fresh_mount ()) (JRef ''f'') (JRef new_cephstat)) of
      (e, rc, JRef s) \<Rightarrow> e = None \<and> rc = 0 \<and> m_time s = 5001 \<and> a_time s = 5001 \<and> is_file s
    | _ \<Rightarrow> False)
   \<and>
   (case fst (native_ceph_fstat env_ok one_file_lib (fresh_mount ()) 3 (JRef new_cephstat)) of
      (e, rc, JRef s) \<Rightarrow> e = None \<and> rc = 0 \<and> m_time s = 6000 \<and> a_time s = 6000 \<and> \<not> is_file s
    | _ \<Rightarrow> False)
   \<and>
   fst (native_ceph_stat env_ok one_file_lib (fresh_mount ()) (JRef ''f'') (JRef new_cephstat))
     \<noteq> fst (native_ceph_fstat env_ok one_file_lib (fresh_mount ()) 3 (JRef new_cephstat))"
  by (simp add: native_ceph_stat_def native_ceph_fstat_def fill_cephstat_def ceph_def
      ceph_get_mount_context_def is_mounted_def Let_def millis_def to_int32_def to_int64_def
      mounted_def GetStringUTFChars_def env_ok_def one_file_lib_def fresh_mount_def reply_def
      one_file_stat_def zero_stat_def new_cephstat_def S_ISREG_def S_ISDIR_def S_ISLNK_def
      file_type_def S_IFREG_def S_IFDIR_def S_IFLNK_def)

text \<open>
  C8. The claim: reading an extended attribute into an undersized caller buffer fails with
  the range error. Through the binding it does not: for the value \<open>hello\<close> and a buffer
  of two bytes, \<open>getxattr\<close> throws nothing and returns 5, the size required.
\<close>

theorem C8_undersized_counterexample:
  "fst (native_ceph_getxattr env_ok xattr_lib
          (fresh_mount [''f'' \<mapsto> [(''user.k'', ''hello'')]]) (JRef ''f'') (JRef ''user.k'')
          (JRef ''zz''))
     = (None, 5, JRef ''zz'')"
  by (simp add: native_ceph_getxattr_def getxattr_body_def getxattr_exit_def poke_ref_def
      ceph_get_mount_context_def is_mounted_def Let_def
      poke_def ceph_def mounted_def GetStringUTFChars_def GetByteArrayElements_def
      GetArrayLength_def env_ok_def xattr_lib_def xattr_get_def sized_reply_def
      fresh_mount_def reply_def ERANGE_def)

lemma poke_fit: "length w \<le> length b \<Longrightarrow> poke b w = w @ drop (length w) b"
  by (simp add: poke_def)

lemma poke_nothing: "poke b [] = b"
  by (simp add: poke_def)

lemma ceph_xattr_lib:
  "ceph xattr_lib (Ceph_getxattr p n len) m
     = (xattr_get (lw m) p n len, \<lparr> lw = lw m, trace = trace m @ [Ceph_getxattr p n len] \<rparr>)"
  "ceph xattr_lib (Ceph_lgetxattr p n len) m
     = (xattr_get (lw m) p n len, \<lparr> lw = lw m, trace = trace m @ [Ceph_lgetxattr p n len] \<rparr>)"
  by (simp_all add: ceph_def xattr_lib_def)

lemma mounted_xattr_lib: "mounted xattr_lib m"
  by (simp add: mounted_def xattr_lib_def)

lemma xattr_get_Some:
  "store p = Some kvs \<Longrightarrow> map_of kvs n = Some v \<Longrightarrow>
   xattr_get store p n len =
     (if len = 0 then reply (int (length v))
      else if len < int (length v) then reply (- ERANGE)
      else (reply (int (length v))) \<lparr> out_buf := v \<rparr>)"
  by (simp add: xattr_get_def sized_reply_def)

lemma getxattr_body_sized:
  assumes "call = Ceph_getxattr \<or> call = Ceph_lgetxattr"
    and "store p = Some kvs" and "map_of kvs n = Some v"
    and "pin_string E p" and "pin_string E n"
    and "\<forall>b. j_buf = JRef b \<longrightarrow> pin_bytes E b"
  shows "fst (getxattr_body call E xattr_lib \<lparr> lw = store, trace = t \<rparr> (JRef p) (JRef n) j_buf)
        = (None, int (length v),
           case j_buf of JNull \<Rightarrow> JNull
           | JRef b \<Rightarrow> if length b < length v then JRef b else JRef (v @ drop (length v) b))"
proof (cases j_buf)
  case JNull
  with assms show ?thesis
    by (auto simp: getxattr_body_def enter_defs getxattr_exit_def poke_ref_def ceph_xattr_lib
        mounted_xattr_lib GetStringUTFChars_def xattr_get_Some reply_def ERANGE_def)
next
  case (JRef b)
  with assms have pin: "GetByteArrayElements E j_buf = Some b"
    by (simp add: GetByteArrayElements_def)
  show ?thesis
    using assms(1-5) JRef pin
    by (auto simp: getxattr_body_def enter_defs getxattr_exit_def poke_ref_def ceph_xattr_lib
        mounted_xattr_lib GetStringUTFChars_def GetArrayLength_def xattr_get_Some reply_def
        ERANGE_def poke_fit poke_nothing Let_def)
qed

text \<open>
  C8, as amended. For every node and attribute name that has a value, and for both the
  link-following and the non-following variant, the binding's read never fails because of
  the buffer's size: with a null buffer, a zero-length buffer or any buffer shorter than
  the value it throws nothing, returns the size required and leaves the buffer as it was
  (on the library's range error it asks again with length zero); with a buffer that is long
  enough it returns the value's length and the buffer starts with the value.
\<close>

theorem C8_getxattr_returns_required_size:
  assumes "store p = Some kvs" and "map_of kvs n = Some v"
    and "pin_string E p" and "pin_string E n"
    and "\<forall>b. j_buf = JRef b \<longrightarrow> pin_bytes E b"
  shows "fst (native_ceph_getxattr E xattr_lib \<lparr> lw = store, trace = t \<rparr> (JRef p) (JRef n) j_buf)
        = (None, int (length v),
           case j_buf of JNull \<Rightarrow> JNull
           | JRef b \<Rightarrow> if length b < length v then JRef b else JRef (v @ drop (length v) b))
      \<and> fst (native_ceph_lgetxattr E xattr_lib \<lparr> lw = store, trace = t \<rparr> (JRef p) (JRef n) j_buf)
        = (None, int (length v),
           case j_buf of JNull \<Rightarrow> JNull
           | JRef b \<Rightarrow> if length b < length v then JRef b else JRef (v @ drop (length v) b))"
  unfolding native_ceph_getxattr_def native_ceph_lgetxattr_def
  using assms by (simp add: getxattr_body_sized)

theorem C8_getxattr_witness:
  "fst (native_ceph_getxattr env_ok xattr_lib
          \<lparr> lw = [''f'' \<mapsto> [(''user.k'', ''hello'')]], trace = [] \<rparr>
          (JRef ''f'') (JRef ''user.k'') (JRef []))
     = (None, 5, JRef [])
   \<and> fst (native_ceph_lgetxattr env_ok xattr_lib
          \<lparr> lw = [''f'' \<mapsto> [(''user.k'', ''hello'')]], trace = [] \<rparr>
          (JRef ''f'') (JRef ''user.k'') (JRef []))
     = (None, 5, JRef [])"
  using C8_getxattr_returns_required_size
    [of "[''f'' \<mapsto> [(''user.k'', ''hello'')]]" "''f''" "[(''user.k'', ''hello'')]"
        "''user.k''" "''hello''" env_ok "JRef []" "[]"]
  by (simp add: env_ok_def)

lemma ceph_link_lib:
  "ceph link_lib (Ceph_lstat p) m =
     ((reply 0) \<lparr> out_stat := zero_stat \<lparr> st_mode := S_IFLNK + 511,
                                          st_size := int (length (fst (lw m))) \<rparr> \<rparr>,
      \<lparr> lw = advance (lw m), trace = trace m @ [Ceph_lstat p] \<rparr>)"
  "ceph link_lib (Ceph_readlink p len) m =
     ((reply (min len (int (length (fst (lw m)))))) \<lparr> out_buf := take (nat len) (fst (lw m)) \<rparr>,
      \<lparr> lw = advance (lw m), trace = trace m @ [Ceph_readlink p len] \<rparr>)"
  by (simp_all add: ceph_def link_lib_def)

lemma c_str_id: "CHR 0x00 \<notin> set t \<Longrightarrow> c_str t = t"
  by (auto simp: c_str_def)

text \<open>One round of the loop: it ends when the target read is no longer than the size
  recorded, and starts again otherwise.\<close>

lemma readlink_step:
  assumes "new_chars E (int (length cur) + 1)"
  shows "readlink_loop E link_lib p \<lparr> lw = (cur, fut), trace = tr \<rparr> =
     (let w1 = advance (cur, fut); t = fst w1; w2 = advance w1;
          m2 = \<lparr> lw = w2, trace = tr @ [Ceph_lstat p, Ceph_readlink p (int (length cur) + 1)] \<rparr>
      in if length t \<le> length cur
         then Some ((if NewStringUTF E (c_str t) then (None, Some (c_str t))
                     else (Some ThrownByJVM, None)), m2)
         else readlink_loop E link_lib p m2)"
  using assms
  by (subst readlink_loop.simps)
     (auto simp: ceph_link_lib reply_def zero_stat_def Let_def min_def new_nothrow_def)

lemma readlink_loop_spec:
  assumes "\<forall>t \<in> set (cur # fut).
             CHR 0x00 \<notin> set t \<and> new_chars E (int (length t) + 1) \<and> NewStringUTF E t"
  shows "\<exists>w'. readlink_loop E link_lib p \<lparr> lw = (cur, fut), trace = tr \<rparr> =
     Some ((None, Some (readlink_spec cur fut)),
           \<lparr> lw = w', trace = tr @ readlink_calls p cur fut \<rparr>)"
  using assms
proof (induction cur fut arbitrary: tr rule: readlink_spec.induct)
  case (1 cur)
  then show ?case by (simp add: readlink_step advance_def c_str_id)
next
  case (2 cur t)
  then show ?case
    by (simp add: readlink_step advance_def c_str_id Let_def)
next
  case (3 cur t u rest)
  show ?case
  proof (cases "length t \<le> length cur")
    case True
    with 3(2) show ?thesis
      by (simp add: readlink_step advance_def c_str_id Let_def)
  next
    case False
    from 3(2) have "\<forall>t \<in> set (u # rest).
        CHR 0x00 \<notin> set t \<and> new_chars E (int (length t) + 1) \<and> NewStringUTF E t"
      by simp
    from 3(1) [OF False this, of "tr @ [Ceph_lstat p, Ceph_readlink p (int (length cur) + 1)]"]
    show ?thesis using False 3(2)
      by (simp add: readlink_step advance_def Let_def)
  qed
qed

lemma readlink_spec_in: "readlink_spec cur fut \<in> set (cur # fut)"
  by (induction cur fut rule: readlink_spec.induct) auto

text \<open>
  C7. For every symbolic link, whatever changes other clients make to its target while it
  is read (any finite sequence of later targets), \<open>readlink\<close> returns: after the two
  queries on the handle, each round sizes its buffer from the size \<open>lstat\<close> has just
  recorded (plus one), a round whose read returns more bytes than that size is thrown away
  and followed by a new \<open>lstat\<close>, and the text returned is the whole of one of the
  link's targets, the first one read that fitted. (The runtime grants every buffer and
  string; targets hold no NUL.)
\<close>

theorem C7_readlink_retries_until_fit:
  assumes "\<forall>t \<in> set (cur # fut).
             CHR 0x00 \<notin> set t \<and> new_chars E (int (length t) + 1) \<and> NewStringUTF E t"
    and "pin_string E p"
  shows "(\<exists>w'. native_ceph_readlink E link_lib \<lparr> lw = (cur, fut), trace = [] \<rparr> (JRef p) =
            Some ((None, Some (readlink_spec cur fut)),
                  \<lparr> lw = w',
                    trace = Ceph_get_mount_context # Ceph_is_mounted
                              # readlink_calls p cur fut \<rparr>))
         \<and> readlink_spec cur fut \<in> set (cur # fut)"
proof
  have "\<And>m. mounted link_lib m"
    by (simp add: mounted_def link_lib_def)
  moreover have "GetStringUTFChars E (JRef p) = Some p"
    using assms(2) by (simp add: GetStringUTFChars_def)
  ultimately have
    "native_ceph_readlink E link_lib \<lparr> lw = (cur, fut), trace = [] \<rparr> (JRef p)
       = readlink_loop E link_lib p
           \<lparr> lw = (cur, fut), trace = [Ceph_get_mount_context, Ceph_is_mounted] \<rparr>"
    by (simp add: native_ceph_readlink_def enter_defs)
  with readlink_loop_spec [OF assms(1), of p "[Ceph_get_mount_context, Ceph_is_mounted]"]
  show "\<exists>w'. native_ceph_readlink E link_lib \<lparr> lw = (cur, fut), trace = [] \<rparr> (JRef p) =
            Some ((None, Some (readlink_spec cur fut)),
                  \<lparr> lw = w',
                    trace = Ceph_get_mount_context # Ceph_is_mounted
                              # readlink_calls p cur fut \<rparr>)"
    by simp
  show "readlink_spec cur fut \<in> set (cur # fut)"
    by (rule readlink_spec_in)
qed

theorem C7_readlink_witness:
  "\<exists>w'. native_ceph_readlink env_ok link_lib
          \<lparr> lw = (''ab'', [''abcd'', ''abcdef'', ''xyz'']), trace = [] \<rparr> (JRef ''l'') =
        Some ((None, Some ''xyz''),
              \<lparr> lw = w',
                trace = [Ceph_get_mount_context, Ceph_is_mounted,
                         Ceph_lstat ''l'', Ceph_readlink ''l'' 3,
                         Ceph_lstat ''l'', Ceph_readlink ''l'' 7] \<rparr>)"
  using C7_readlink_retries_until_fit
    [of "''ab''" "[''abcd'', ''abcdef'', ''xyz'']" env_ok "''l''"]
  by (simp add: env_ok_def)


lemma readdir_spec:
  assumes "wf_cursor children c" and "0 < page"
  shows "\<exists>c'. readdir page children c =
           (if pos c < length (entries children) then Some (entries children ! pos c) else None, c')
         \<and> wf_cursor children c'
         \<and> pos c' = (if pos c < length (entries children) then pos c + 1 else pos c)"
proof -
  consider "pos c = 0" | "pos c = 1" | "pos c \<ge> 2" by linarith
  then show ?thesis
  proof cases
    case 1
    with assms show ?thesis by (simp add: readdir_def entries_def wf_cursor_def)
  next
    case 2
    with assms show ?thesis by (auto simp add: readdir_def entries_def wf_cursor_def intro: exI[of _ 0])
  next
    case 3
    then obtain j where j: "pos c = j + 2" by (metis add.commute le_Suc_ex)
    from assms j obtain k where k: "readahead c = take k (drop j children)"
      by (auto simp: wf_cursor_def)
    show ?thesis
    proof (cases "readahead c")
      case Nil
      show ?thesis
      proof (cases "drop j children")
        case Nil': Nil
        with Nil j assms show ?thesis
          by (auto simp: readdir_def listEntries_def entries_def wf_cursor_def)
      next
        case (Cons e es)
        then have "j < length children" by (metis drop_eq_Nil linorder_not_less list.distinct(1))
        moreover have "children ! j = e" using Cons by (metis nth_via_drop)
        moreover have "drop (Suc j) children = es" using Cons by (metis drop_Suc list.sel(3) tl_drop)
        ultimately show ?thesis using Nil j assms Cons
          apply (cases page)
          apply (auto simp: readdir_def listEntries_def entries_def wf_cursor_def)
          done
      qed
    next
      case (Cons e es)
      with k have "drop j children \<noteq> []" by auto
      then obtain e' es' where d: "drop j children = e' # es'" by (cases "drop j children") auto
      then have "j < length children" by (metis drop_eq_Nil linorder_not_less list.distinct(1))
      moreover have "children ! j = e'" using d by (metis nth_via_drop)
      moreover have ds: "drop (Suc j) children = es'" using d by (metis drop_Suc list.sel(3) tl_drop)
      moreover from k Cons d have "e = e'" "es = take (k - 1) es'" by (cases k; simp)+
      ultimately show ?thesis using Cons j
        by (auto simp: readdir_def entries_def wf_cursor_def)
    qed
  qed
qed


lemma drop_entries_Cons:
  "i < length xs \<Longrightarrow> drop i xs = xs ! i # drop (Suc i) xs"
  by (simp add: Cons_nth_drop_Suc)

lemma pack_names_spec:
  assumes "wf_cursor children c" and "0 < page"
  shows "\<exists>c'. pack_names page children c space =
           (fit space (drop (pos c) (entries children)), c')
         \<and> wf_cursor children c'
         \<and> pos c' = pos c + length (fit space (drop (pos c) (entries children)))"
  using assms
proof (induction page children c space rule: pack_names.induct)
  case (1 page children c space)
  from readdir_spec [OF "1.prems"] obtain c1 where
    r: "readdir page children c =
          (if pos c < length (entries children) then Some (entries children ! pos c) else None, c1)"
    and w1: "wf_cursor children c1"
    and p1: "pos c1 = (if pos c < length (entries children) then pos c + 1 else pos c)"
    by blast
  show ?case
  proof (cases "pos c < length (entries children)")
    case False
    with r "1.prems" show ?thesis
      by (subst pack_names.simps) simp
  next
    case True
    let ?e = "entries children ! pos c"
    from True have d: "drop (pos c) (entries children) = ?e # drop (Suc (pos c)) (entries children)"
      by (rule drop_entries_Cons)
    show ?thesis
    proof (cases "length ?e + 1 \<le> space")
      case False
      with True r d "1.prems" show ?thesis
        by (subst pack_names.simps) simp
    next
      case fits: True
      from True r have r': "readdir page children c = (Some ?e, c1)" by simp
      from "1.IH" [OF r' [symmetric] refl fits w1 "1.prems"(2)] obtain c2 where
        ih: "pack_names page children c1 (space - (length ?e + 1)) =
               (fit (space - (length ?e + 1)) (drop (pos c1) (entries children)), c2)"
        and w2: "wf_cursor children c2"
        and p2: "pos c2 = pos c1 + length (fit (space - (length ?e + 1)) (drop (pos c1) (entries children)))"
        by blast
      from True p1 have p1': "pos c1 = Suc (pos c)" by simp
      show ?thesis
        using r' fits ih w2 p2 p1' d
        by (subst pack_names.simps) simp
    qed
  qed
qed


lemma fit_prefix: "fit space xs = take (length (fit space xs)) xs"
  by (induction space xs rule: fit.induct) auto

lemma fit_first: "length e + 1 \<le> space \<Longrightarrow> fit space (e # es) \<noteq> []"
  by simp

lemma names_bytes_append: "names_bytes (xs @ ys) = names_bytes xs @ names_bytes ys"
  by (simp add: names_bytes_def)

lemma names_bytes_Nil_iff: "names_bytes xs = [] \<longleftrightarrow> xs = []"
  by (cases xs) (simp_all add: names_bytes_def)

lemma getdnames_spec:
  assumes "wf_cursor children c" and "0 < page"
  shows "\<exists>c'. getdnames page children c buflen =
           (if drop (pos c) (entries children) = [] then (0, [])
            else if fit buflen (drop (pos c) (entries children)) = [] then (- ERANGE, [])
            else (int (length (names_bytes (fit buflen (drop (pos c) (entries children))))),
                  names_bytes (fit buflen (drop (pos c) (entries children)))),
            c')
         \<and> wf_cursor children c'
         \<and> pos c' = pos c + length (fit buflen (drop (pos c) (entries children)))
         \<and> (fit buflen (drop (pos c) (entries children)) = [] \<longrightarrow> c' = c)"
proof -
  from pack_names_spec [OF assms, of buflen] obtain c1 where
    pk: "pack_names page children c buflen = (fit buflen (drop (pos c) (entries children)), c1)"
    and w1: "wf_cursor children c1"
    and p1: "pos c1 = pos c + length (fit buflen (drop (pos c) (entries children)))"
    by blast
  from readdir_spec [OF assms] obtain c2 where
    r: "readdir page children c =
          (if pos c < length (entries children) then Some (entries children ! pos c) else None, c2)"
    by blast
  show ?thesis
  proof (cases "fit buflen (drop (pos c) (entries children))")
    case Nil
    with pk r assms(1) show ?thesis
      by (auto simp: getdnames_def)
  next
    case (Cons n ns)
    with pk w1 p1 show ?thesis
      by (auto simp: getdnames_def)
  qed
qed

lemma readdir_all_spec:
  assumes "wf_cursor children c" and "0 < page"
    and "length (entries children) - pos c < fuel"
  shows "readdir_all fuel page children c = Some (drop (pos c) (entries children))"
  using assms
proof (induction fuel arbitrary: c)
  case 0
  then show ?case by simp
next
  case (Suc fuel)
  from readdir_spec [OF Suc.prems(1,2)] obtain c1 where
    r: "readdir page children c =
          (if pos c < length (entries children) then Some (entries children ! pos c) else None, c1)"
    and w1: "wf_cursor children c1"
    and p1: "pos c1 = (if pos c < length (entries children) then pos c + 1 else pos c)"
    by blast
  show ?case
  proof (cases "pos c < length (entries children)")
    case False
    with r show ?thesis by simp
  next
    case True
    with p1 Suc.prems(3) have "length (entries children) - pos c1 < fuel" by simp
    from Suc.IH [OF w1 Suc.prems(2) this] True r p1 show ?thesis
      by (simp add: drop_entries_Cons)
  qed
qed

lemma getdnames_all_spec:
  assumes "wf_cursor children c" and "0 < page"
    and "\<forall>e \<in> set (entries children). length e + 1 \<le> buflen"
    and "length (entries children) - pos c < fuel"
  shows "getdnames_all fuel page children c buflen
           = Some (names_bytes (drop (pos c) (entries children)))"
  using assms
proof (induction fuel arbitrary: c)
  case 0
  then show ?case by simp
next
  case (Suc fuel)
  let ?rest = "drop (pos c) (entries children)"
  from getdnames_spec [OF Suc.prems(1,2), of buflen] obtain c1 where
    g: "getdnames page children c buflen =
           (if ?rest = [] then (0, [])
            else if fit buflen ?rest = [] then (- ERANGE, [])
            else (int (length (names_bytes (fit buflen ?rest))), names_bytes (fit buflen ?rest)),
            c1)"
    and w1: "wf_cursor children c1"
    and p1: "pos c1 = pos c + length (fit buflen ?rest)"
    by blast
  show ?case
  proof (cases ?rest)
    case Nil
    with g show ?thesis by (simp add: names_bytes_def)
  next
    case (Cons e es)
    then have "e \<in> set (entries children)" by (metis in_set_dropD list.set_intros(1))
    with Suc.prems(3) have fits: "length e + 1 \<le> buflen" by blast
    with Cons have ne: "fit buflen ?rest \<noteq> []" by simp
    then have k: "0 < length (fit buflen ?rest)" by simp
    have "pos c < length (entries children)" using Cons by (metis drop_eq_Nil linorder_not_less list.distinct(1))
    with p1 k Suc.prems(4) have "length (entries children) - pos c1 < fuel" by linarith
    from Suc.IH [OF w1 Suc.prems(2,3) this]
    have ih: "getdnames_all fuel page children c1 buflen
                = Some (names_bytes (drop (pos c1) (entries children)))" .
    have split: "?rest = fit buflen ?rest @ drop (pos c1) (entries children)"
    proof -
      have "?rest = take (length (fit buflen ?rest)) ?rest @ drop (length (fit buflen ?rest)) ?rest"
        by (simp only: append_take_drop_id)
      also have "take (length (fit buflen ?rest)) ?rest = fit buflen ?rest"
        by (rule fit_prefix [symmetric])
      also have "drop (length (fit buflen ?rest)) ?rest = drop (pos c1) (entries children)"
        by (simp add: p1 add.commute)
      finally show ?thesis .
    qed
    have "names_bytes ?rest = names_bytes (fit buflen ?rest) @ names_bytes (drop (pos c1) (entries children))"
      by (subst split) (simp only: names_bytes_append)
    with g ne ih Cons show ?thesis
      by (simp add: names_bytes_Nil_iff)
  qed
qed


lemma wf_cursor_opendir: "wf_cursor children opendir"
  by (simp add: wf_cursor_def opendir_def)

lemma wf_cursor_seekdir: "wf_cursor children (seekdir c token)"
  by (auto simp: wf_cursor_def seekdir_def intro: exI [of _ 0])

lemma wf_cursor_rewinddir: "wf_cursor children (rewinddir c)"
  by (simp add: rewinddir_def wf_cursor_seekdir)

lemma length_names_bytes_fit: "length (names_bytes (fit space xs)) \<le> space"
  by (induction space xs rule: fit.induct) (auto simp: names_bytes_def)

lemma length_fit_le: "length (fit space xs) \<le> length xs"
  by (induction space xs rule: fit.induct) auto

lemma first_two:
  assumes "pos c = 0" and "readahead c = []"
  shows "fst (readdir page children c) = Some ''.''"
    and "fst (readdir page children (snd (readdir page children c))) = Some ''..''"
  using assms by (simp_all add: readdir_def)

text \<open>
  C3. On every directory, whatever its children and however the metadata service pages
  them, the first two entries \<open>readdir\<close> delivers after \<open>opendir\<close>, and after
  \<open>rewinddir\<close> from any cursor state, are \<open>.\<close> and then \<open>..\<close>; the whole enumeration
  of such a cycle is \<open>.\<close>, \<open>..\<close> and then the children, so each of the two is delivered
  once.
\<close>

theorem C3_dot_entries_first:
  assumes "0 < page"
  shows "fst (readdir page children opendir) = Some ''.''
       \<and> fst (readdir page children (snd (readdir page children opendir))) = Some ''..''
       \<and> fst (readdir page children (rewinddir c)) = Some ''.''
       \<and> fst (readdir page children (snd (readdir page children (rewinddir c)))) = Some ''..''
       \<and> readdir_all (length children + 3) page children opendir
           = Some (''.'' # ''..'' # children)
       \<and> readdir_all (length children + 3) page children (rewinddir c)
           = Some (''.'' # ''..'' # children)"
proof -
  have a: "readdir_all (length children + 3) page children opendir = Some (''.'' # ''..'' # children)"
    using readdir_all_spec [OF wf_cursor_opendir assms, of children "length children + 3"]
    by (simp add: entries_def opendir_def)
  have b: "readdir_all (length children + 3) page children (rewinddir c)
             = Some (''.'' # ''..'' # children)"
    using readdir_all_spec [OF wf_cursor_rewinddir assms, of children c "length children + 3"]
    by (simp add: entries_def rewinddir_def seekdir_def)
  show ?thesis
    using a b
    by (simp add: first_two opendir_def rewinddir_def seekdir_def)
qed

theorem C3_witness:
  "fst (readdir 1 [''a'', ''b''] opendir) = Some ''.''
   \<and> fst (readdir 1 [''a'', ''b''] (snd (readdir 1 [''a'', ''b''] opendir))) = Some ''..''
   \<and> readdir_all 5 1 [''a'', ''b''] (rewinddir \<lparr> pos = 4, readahead = [] \<rparr>)
       = Some [''.'', ''..'', ''a'', ''b'']"
  using C3_dot_entries_first [of 1 "[''a'', ''b'']" "\<lparr> pos = 4, readahead = [] \<rparr>"]
  by simp

text \<open>
  C4. For every cursor and every buffer length: when the next entry does not fit, the bulk
  read fails with \<open>ERANGE\<close> and returns the cursor as it was, and a call with a buffer
  that holds that entry then delivers it first; when it fits, the read packs a non-empty
  run of whole entries, no longer than the buffer, and the cursor moves past exactly
  those; at the end it returns 0; and with a buffer that holds each entry, the bytes of
  repeated bulk reads from \<open>opendir\<close>, put end to end, are the entries of one
  entry-by-entry enumeration.
\<close>

theorem C4_bulk_read_resumable:
  assumes "wf_cursor children c" and "0 < page"
  shows "(pos c < length (entries children) \<and> buflen < length (entries children ! pos c) + 1 \<longrightarrow>
            getdnames page children c buflen = ((- ERANGE, []), c)
            \<and> (\<forall>big. length (entries children ! pos c) + 1 \<le> big \<longrightarrow>
                 (\<exists>k c'. 0 < k
                   \<and> getdnames page children c big =
                       ((int (length (names_bytes (take k (drop (pos c) (entries children))))),
                         names_bytes (take k (drop (pos c) (entries children)))), c'))))
       \<and> (pos c < length (entries children) \<and> length (entries children ! pos c) + 1 \<le> buflen \<longrightarrow>
            (\<exists>k c'. 0 < k \<and> k \<le> length (entries children) - pos c
               \<and> getdnames page children c buflen =
                   ((int (length (names_bytes (take k (drop (pos c) (entries children))))),
                     names_bytes (take k (drop (pos c) (entries children)))), c')
               \<and> length (names_bytes (take k (drop (pos c) (entries children)))) \<le> buflen
               \<and> pos c' = pos c + k \<and> wf_cursor children c'))
       \<and> (length (entries children) \<le> pos c \<longrightarrow>
            getdnames page children c buflen = ((0, []), c))
       \<and> ((\<forall>e \<in> set (entries children). length e + 1 \<le> buflen) \<longrightarrow>
            getdnames_all (length (entries children) + 1) page children opendir buflen
              = Some (names_bytes (entries children))
            \<and> readdir_all (length (entries children) + 1) page children opendir
              = Some (entries children))"
proof -
  let ?ents = "entries children"
  let ?rest = "drop (pos c) ?ents"
  have packed: "\<exists>k c'. 0 < k \<and> k \<le> length ?ents - pos c
               \<and> getdnames page children c n =
                   ((int (length (names_bytes (take k ?rest))), names_bytes (take k ?rest)), c')
               \<and> length (names_bytes (take k ?rest)) \<le> n
               \<and> pos c' = pos c + k \<and> wf_cursor children c'"
    if lt: "pos c < length ?ents" and fits: "length (?ents ! pos c) + 1 \<le> n" for n
  proof -
    from lt have d: "?rest = ?ents ! pos c # drop (Suc (pos c)) ?ents"
      by (rule drop_entries_Cons)
    with fits have ne: "fit n ?rest \<noteq> []" by simp
    from getdnames_spec [OF assms, of n] obtain c' where
      g: "getdnames page children c n =
            ((int (length (names_bytes (fit n ?rest))), names_bytes (fit n ?rest)), c')"
      and w: "wf_cursor children c'" and p: "pos c' = pos c + length (fit n ?rest)"
      using ne d by auto
    let ?k = "length (fit n ?rest)"
    have tk: "take ?k ?rest = fit n ?rest" by (rule fit_prefix [symmetric])
    have "?k \<le> length ?rest" by (rule length_fit_le)
    then have "?k \<le> length ?ents - pos c" by simp
    moreover have "0 < ?k" using ne by simp
    moreover have "length (names_bytes (take ?k ?rest)) \<le> n"
      unfolding tk by (rule length_names_bytes_fit)
    ultimately show ?thesis using g w p tk by metis
  qed
  have small: "getdnames page children c buflen = ((- ERANGE, []), c)"
    if lt: "pos c < length ?ents" and big: "buflen < length (?ents ! pos c) + 1"
  proof -
    from lt have d: "?rest = ?ents ! pos c # drop (Suc (pos c)) ?ents"
      by (rule drop_entries_Cons)
    with big have "fit buflen ?rest = []" by simp
    with getdnames_spec [OF assms, of buflen] d show ?thesis by auto
  qed
  have at_end: "getdnames page children c buflen = ((0, []), c)" if "length ?ents \<le> pos c"
    using getdnames_spec [OF assms, of buflen] that by auto
  have all: "getdnames_all (length ?ents + 1) page children opendir buflen = Some (names_bytes ?ents)
            \<and> readdir_all (length ?ents + 1) page children opendir = Some ?ents"
    if "\<forall>e \<in> set ?ents. length e + 1 \<le> buflen"
    using getdnames_all_spec [OF wf_cursor_opendir assms(2) that, of "length ?ents + 1"]
      readdir_all_spec [OF wf_cursor_opendir assms(2), of children "length ?ents + 1"]
    by (simp add: opendir_def)
  show ?thesis
    using packed small at_end all by blast
qed


theorem C4_bulk_read_witness:
  "getdnames 1 [''foo''] opendir 1 = ((- ERANGE, []), opendir)
   \<and> getdnames_all (length (entries [''foo'']) + 1) 1 [''foo''] opendir 6
       = Some (names_bytes (entries [''foo'']))
   \<and> readdir_all (length (entries [''foo'']) + 1) 1 [''foo''] opendir
       = Some (entries [''foo''])"
proof -
  have w: "wf_cursor [''foo''] opendir" by (rule wf_cursor_opendir)
  have p: "0 < (1::nat)" by simp
  have small: "pos opendir < length (entries [''foo''])
               \<and> 1 < length (entries [''foo''] ! pos opendir) + 1"
    by (simp add: entries_def opendir_def)
  have fits: "\<forall>e \<in> set (entries [''foo'']). length e + 1 \<le> 6"
    by (simp add: entries_def)
  from C4_bulk_read_resumable [OF w p, of 1] small
  have "getdnames 1 [''foo''] opendir 1 = ((- ERANGE, []), opendir)" by blast
  moreover from C4_bulk_read_resumable [OF w p, of 6] fits
  have "getdnames_all (length (entries [''foo'']) + 1) 1 [''foo''] opendir 6
          = Some (names_bytes (entries [''foo'']))
        \<and> readdir_all (length (entries [''foo'']) + 1) 1 [''foo''] opendir
          = Some (entries [''foo''])" by blast
  ultimately show ?thesis by blast
qed

text \<open>The calls of the test ReaddirRCB, on the model: an empty directory, then one file.\<close>

lemma ReaddirRCB_replay:
  "fst (fst (getdnames 1 [] opendir 100)) = 5"
  "fst (fst (getdnames 1 [''foo''] opendir 100)) = 9"
  "fst (fst (getdnames 1 [''foo''] opendir 1)) = - ERANGE"
  "fst (fst (getdnames 1 [''foo''] opendir 6)) = 5"
  "fst (fst (getdnames 1 [''foo''] (snd (getdnames 1 [''foo''] opendir 6)) 6)) = 4"
  by (simp_all add: getdnames_def pack_names.simps readdir_def opendir_def listEntries_def
      names_bytes_def)


lemma c_str_name: "CHR 0x00 \<notin> set n \<Longrightarrow> c_str (n @ CHR 0x00 # rest) = n"
  by (auto simp: c_str_def takeWhile_append)

lemma names_bytes_Cons: "names_bytes (n # ns) = n @ CHR 0x00 # names_bytes ns"
  by (simp add: names_bytes_def)

lemma split_names_bytes:
  assumes "\<forall>n \<in> set names. CHR 0x00 \<notin> set n \<and> new_string E n"
  shows "split_names E keep (pre @ names_bytes names)
           (int (length (pre @ names_bytes names))) (int (length pre)) contents
         = Some (contents @ filter keep names)"
  using assms
proof (induction names arbitrary: pre contents)
  case Nil
  then show ?case by (simp add: names_bytes_def split_names.simps)
next
  case (Cons n ns)
  have ent: "c_str (drop (nat (int (length pre))) (pre @ names_bytes (n # ns))) = n"
    using Cons.prems by (simp add: names_bytes_Cons c_str_name)
  have lt: "int (length pre) < int (length (pre @ names_bytes (n # ns)))"
    by (simp add: names_bytes_Cons)
  have re: "pre @ names_bytes (n # ns) = (pre @ n @ [CHR 0x00]) @ names_bytes ns"
    by (simp add: names_bytes_Cons)
  have pos: "int (length pre) + int (length n) + 1 = int (length (pre @ n @ [CHR 0x00]))"
    by simp
  from Cons.prems have ok: "new_string E n" by simp
  from Cons.prems have rest: "\<forall>n \<in> set ns. CHR 0x00 \<notin> set n \<and> new_string E n" by simp
  show ?case
    apply (subst split_names.simps)
    apply (simp only: lt if_True Let_def ent ok not_True_eq_False if_False)
    apply (simp only: re pos)
    apply (subst Cons.IH [OF rest])
    apply simp
    done
qed


lemma trace_ceph: "ceph L c m = (r, m1) \<Longrightarrow> trace m1 = trace m @ [c]"
  by (auto simp: ceph_def split: prod.splits)

lemma split_names_keeps:
  "split_names E keep buf rc bufpos contents = Some cs \<Longrightarrow>
   \<forall>x \<in> set cs. x \<in> set contents \<or> keep x"
proof (induction E keep buf rc bufpos contents rule: split_names.induct)
  case (1 E keep buf rc bufpos contents)
  show ?case
  proof (cases "bufpos < rc")
    case False
    with "1.prems" show ?thesis by (subst (asm) split_names.simps) simp
  next
    case True
    let ?ent = "c_str (drop (nat bufpos) buf)"
    from True "1.prems" have ok: "new_string E ?ent"
      by (subst (asm) split_names.simps) (auto simp: Let_def split: if_splits)
    from True "1.prems" ok have
      "split_names E keep buf rc (bufpos + int (length ?ent) + 1)
         (if keep ?ent then contents @ [?ent] else contents) = Some cs"
      by (subst (asm) split_names.simps) (simp add: Let_def)
    from "1.IH" [OF True refl _ this] ok
    have "\<forall>x \<in> set cs. x \<in> set (if keep ?ent then contents @ [?ent] else contents) \<or> keep x"
      by simp
    then show ?thesis by (auto split: if_splits)
  qed
qed

lemma listdir_loop_any:
  assumes "listdir_loop E L dirp buflen contents m = Some (res, m')"
  shows "\<exists>calls. trace m' = trace m @ calls \<and> getdnames_on dirp calls
           \<and> (\<forall>rc cs. res = Inr (rc, cs) \<longrightarrow> (\<forall>x \<in> set cs. x \<in> set contents \<or> not_dot x))"
proof -
  have "\<forall>res m'. y = (res, m') \<longrightarrow>
          (\<exists>calls. trace m' = trace m @ calls \<and> getdnames_on dirp calls
           \<and> (\<forall>rc cs. res = Inr (rc, cs) \<longrightarrow> (\<forall>x \<in> set cs. x \<in> set contents \<or> not_dot x)))"
    if "listdir_loop E L dirp buflen contents m = Some y" for y
    using that
  proof (induction E L dirp buflen contents m y rule: listdir_loop.raw_induct [rotated 1, consumes 1])
    case (1 loop E L dirp buflen contents m y)
    obtain r m1 where c: "ceph L (Ceph_getdnames dirp buflen) m = (r, m1)"
      by (cases "ceph L (Ceph_getdnames dirp buflen) m")
    then have t1: "trace m1 = trace m @ [Ceph_getdnames dirp buflen]" by (rule trace_ceph)
    show ?case
    proof (intro allI impI)
      fix res m' assume y: "y = (res, m')"
      consider (range_oom) "ret r = - ERANGE" "\<not> new_nothrow E (doubled buflen)"
        | (range) "ret r = - ERANGE" "new_nothrow E (doubled buflen)"
        | (stop) "ret r \<noteq> - ERANGE" "ret r \<le> 0"
        | (oom) "ret r \<noteq> - ERANGE" "\<not> ret r \<le> 0"
                "split_names E not_dot (out_buf r) (ret r) 0 contents = None"
        | (more) cs where "ret r \<noteq> - ERANGE" "\<not> ret r \<le> 0"
                "split_names E not_dot (out_buf r) (ret r) 0 contents = Some cs"
        by (cases "split_names E not_dot (out_buf r) (ret r) 0 contents") auto
      then show "\<exists>calls. trace m' = trace m @ calls \<and> getdnames_on dirp calls
           \<and> (\<forall>rc cs. res = Inr (rc, cs) \<longrightarrow> (\<forall>x \<in> set cs. x \<in> set contents \<or> not_dot x))"
      proof cases
        case range_oom
        with "1"(2) c y t1 show ?thesis by (auto simp: getdnames_on_def)
      next
        case range
        with "1"(2) c y have "loop E L dirp (doubled buflen) contents m1 = Some (res, m')" by simp
        from "1"(1) [OF this] obtain calls where
          "trace m' = trace m1 @ calls" "getdnames_on dirp calls"
          "\<forall>rc cs. res = Inr (rc, cs) \<longrightarrow> (\<forall>x \<in> set cs. x \<in> set contents \<or> not_dot x)"
          by blast
        with t1 show ?thesis
          by (intro exI [of _ "Ceph_getdnames dirp buflen # calls"]) (auto simp: getdnames_on_def)
      next
        case stop
        with "1"(2) c y t1 show ?thesis by (auto simp: getdnames_on_def)
      next
        case oom
        with "1"(2) c y t1 show ?thesis by (auto simp: getdnames_on_def)
      next
        case (more cs)
        with "1"(2) c y have "loop E L dirp buflen cs m1 = Some (res, m')" by simp
        from "1"(1) [OF this] obtain calls where
          a: "trace m' = trace m1 @ calls" "getdnames_on dirp calls"
          "\<forall>rc cs'. res = Inr (rc, cs') \<longrightarrow> (\<forall>x \<in> set cs'. x \<in> set cs \<or> not_dot x)"
          by blast
        from split_names_keeps [OF more(3)]
        have "\<forall>x \<in> set cs. x \<in> set contents \<or> not_dot x" .
        with a(3) have k: "\<forall>rc cs'. res = Inr (rc, cs') \<longrightarrow>
            (\<forall>x \<in> set cs'. x \<in> set contents \<or> not_dot x)"
          by blast
        from a(1,2) t1 have "trace m' = trace m @ Ceph_getdnames dirp buflen # calls"
          "getdnames_on dirp (Ceph_getdnames dirp buflen # calls)"
          by (auto simp: getdnames_on_def)
        with k show ?thesis by blast
      qed
    qed
  qed
  from this [OF assms] show ?thesis by simp
qed


lemma new_string_array_not_dot:
  "\<forall>x \<in> set cs. not_dot x \<Longrightarrow> new_string_array E cs = (ex, Some a) \<Longrightarrow>
   ''.'' \<notin> set a \<and> ''..'' \<notin> set a"
  by (auto simp: new_string_array_def not_dot_def split: if_splits)

lemma listdir_body_any:
  assumes "listdir_body E L dirp m = Some ((ex, arr), m')"
  shows "(\<forall>a. arr = Some a \<longrightarrow> ''.'' \<notin> set a \<and> ''..'' \<notin> set a)
       \<and> (\<exists>calls. trace m' = trace m @ calls \<and> getdnames_on dirp calls)"
proof (cases "new_nothrow E 256")
  case False
  with assms show ?thesis by (auto simp: listdir_body_def getdnames_on_def)
next
  case True
  with assms obtain res where
    l: "listdir_loop E L dirp 256 [] m = Some (res, m')"
    by (auto simp: listdir_body_def split: option.splits sum.splits prod.splits if_splits)
  from listdir_loop_any [OF l] obtain calls where
    t: "trace m' = trace m @ calls" "getdnames_on dirp calls"
    and k: "\<forall>rc cs. res = Inr (rc, cs) \<longrightarrow> (\<forall>x \<in> set cs. not_dot x)"
    by auto
  have "''.'' \<notin> set a \<and> ''..'' \<notin> set a" if "arr = Some a" for a
  proof -
    from assms True l that obtain rc cs where
      "res = Inr (rc, cs)" "new_string_array E cs = (ex, Some a)"
      by (auto simp: listdir_body_def split: sum.splits if_splits)
    with k show ?thesis by (auto dest: new_string_array_not_dot [rotated])
  qed
  with t show ?thesis by blast
qed


lemma listdir_any:
  assumes "native_ceph_listdir E L m j_path = Some ((ex, arr), m')"
  shows "(\<forall>a. arr = Some a \<longrightarrow> ''.'' \<notin> set a \<and> ''..'' \<notin> set a)
       \<and> (case j_path of
            JNull \<Rightarrow> trace m' = trace m @ [Ceph_get_mount_context] \<and> arr = None
          | JRef p \<Rightarrow>
              if \<not> mounted L m \<or> \<not> pin_string E p
              then trace m' = trace m @ [Ceph_get_mount_context, Ceph_is_mounted] \<and> arr = None
              else if ret (opendir_reply L m p) \<noteq> 0
              then trace m' = trace m @ [Ceph_get_mount_context, Ceph_is_mounted, Ceph_opendir p]
                   \<and> arr = None
              else \<exists>calls.
                     trace m' = trace m @ [Ceph_get_mount_context, Ceph_is_mounted, Ceph_opendir p]
                                  @ calls @ [Ceph_closedir (out_dirp (opendir_reply L m p))]
                     \<and> getdnames_on (out_dirp (opendir_reply L m p)) calls)"
proof (cases j_path)
  case JNull
  with assms show ?thesis
    by (auto simp: native_ceph_listdir_def enter_defs)
next
  case (JRef p)
  let ?m0 = "m \<lparr> trace := trace m @ [Ceph_get_mount_context, Ceph_is_mounted] \<rparr>"
  show ?thesis
  proof (cases "\<not> mounted L m \<or> \<not> pin_string E p")
    case True
    with assms JRef show ?thesis
      by (auto simp: native_ceph_listdir_def enter_defs mounted_def GetStringUTFChars_def
          split: if_splits)
  next
    case False
    then have mt: "mounted L m" and pin: "GetStringUTFChars E j_path = Some p"
      using JRef by (simp_all add: GetStringUTFChars_def)
    obtain r m1 where c: "ceph L (Ceph_opendir p) ?m0 = (r, m1)"
      by (cases "ceph L (Ceph_opendir p) ?m0")
    then have t1: "trace m1 = trace m @ [Ceph_get_mount_context, Ceph_is_mounted, Ceph_opendir p]"
      by (auto dest: trace_ceph)
    from c have r: "r = opendir_reply L m p"
      by (auto simp: ceph_def opendir_reply_def split: prod.splits)
    from assms JRef mt pin c have run:
      "(if ret r \<noteq> 0 then Some ((handle_error E (ret r), None), m1)
        else case listdir_body E L (out_dirp r) m1 of
               None \<Rightarrow> None
             | Some (res, m2) \<Rightarrow> Some (res, snd (ceph L (Ceph_closedir (out_dirp r)) m2)))
       = Some ((ex, arr), m')"
      by (simp add: native_ceph_listdir_def enter_defs mounted_def)
    show ?thesis
    proof (cases "ret r = 0")
      case nz: False
      with run t1 r JRef False show ?thesis by auto
    next
      case z: True
      with run obtain m2 where
        b: "listdir_body E L (out_dirp r) m1 = Some ((ex, arr), m2)"
        and m': "m' = snd (ceph L (Ceph_closedir (out_dirp r)) m2)"
        by (auto split: option.splits)
      from listdir_body_any [OF b] obtain calls where
        nd: "\<forall>a. arr = Some a \<longrightarrow> ''.'' \<notin> set a \<and> ''..'' \<notin> set a"
        and t2: "trace m2 = trace m1 @ calls" and g: "getdnames_on (out_dirp r) calls"
        by blast
      have "trace m' = trace m2 @ [Ceph_closedir (out_dirp r)]"
        unfolding m'
        by (rule trace_ceph [of L _ m2 "fst (ceph L (Ceph_closedir (out_dirp r)) m2)"]) simp
      with t1 t2 have "trace m' = trace m @ [Ceph_get_mount_context, Ceph_is_mounted, Ceph_opendir p]
                                     @ calls @ [Ceph_closedir (out_dirp r)]"
        by simp
      with nd g z r JRef False show ?thesis by auto
    qed
  qed
qed


lemma ceph_dir_lib_getdnames:
  "getdnames page children c (nat buflen) = ((rc, buf), c') \<Longrightarrow>
   ceph dir_lib (Ceph_getdnames d buflen)
     \<lparr> lw = \<lparr> dw_children = children, dw_page = page, dw_cursors = cs (d \<mapsto> c),
              dw_next = k \<rparr>, trace = tr \<rparr>
   = ((reply rc) \<lparr> out_buf := buf \<rparr>,
      \<lparr> lw = \<lparr> dw_children = children, dw_page = page, dw_cursors = cs (d \<mapsto> c'),
               dw_next = k \<rparr>,
        trace = tr @ [Ceph_getdnames d buflen] \<rparr>)"
  by (simp add: ceph_def dir_lib_def)

lemma to_int32_id: "- 2147483648 \<le> x \<Longrightarrow> x < 2147483648 \<Longrightarrow> to_int32 x = x"
  by (simp add: to_int32_def)

lemma entry_le_names_bytes: "e \<in> set xs \<Longrightarrow> length e + 1 \<le> length (names_bytes xs)"
  by (induction xs) (auto simp: names_bytes_def)

lemma set_fit: "set (fit space xs) \<subseteq> set xs"
  by (metis fit_prefix set_take_subset)

lemma listdir_loop_dir_lib:
  assumes "wf_cursor children c" and "0 < page" and "0 < buflen"
    and "\<forall>n. new_chars E n"
    and "\<forall>e \<in> set (entries children).
           CHR 0x00 \<notin> set e \<and> new_string E e \<and> length e < 1073741824"
  shows "\<exists>c' calls.
           listdir_loop E dir_lib d buflen contents
             \<lparr> lw = \<lparr> dw_children = children, dw_page = page,
                    dw_cursors = cs (d \<mapsto> c), dw_next = k \<rparr>, trace = tr \<rparr>
           = Some (Inr (0, contents @ filter not_dot (drop (pos c) (entries children))),
                   \<lparr> lw = \<lparr> dw_children = children, dw_page = page,
                    dw_cursors = cs (d \<mapsto> c'), dw_next = k \<rparr>,
                     trace = tr @ calls \<rparr>)
           \<and> getdnames_on d calls"
  using assms(1,3)
proof (induction "length (entries children) - pos c
                    + (length (names_bytes (entries children)) - nat buflen)"
       arbitrary: c buflen contents tr rule: less_induct)
  case less
  let ?W = "\<lambda>x. \<lparr> dw_children = children, dw_page = page, dw_cursors = cs (d \<mapsto> x),
                     dw_next = k \<rparr>"
  let ?ents = "entries children"
  let ?rest = "drop (pos c) ?ents"
  let ?m = "\<lparr> lw = ?W c, trace = tr \<rparr>"
  from getdnames_spec [OF less.prems(1) assms(2), of "nat buflen"] obtain c1 where
    g: "getdnames page children c (nat buflen) =
           (if ?rest = [] then (0, [])
            else if fit (nat buflen) ?rest = [] then (- ERANGE, [])
            else (int (length (names_bytes (fit (nat buflen) ?rest))),
                  names_bytes (fit (nat buflen) ?rest)),
            c1)"
    and w1: "wf_cursor children c1"
    and p1: "pos c1 = pos c + length (fit (nat buflen) ?rest)"
    and same: "fit (nat buflen) ?rest = [] \<longrightarrow> c1 = c"
    by blast
  consider (at_end) "?rest = []"
    | (small) "?rest \<noteq> []" "fit (nat buflen) ?rest = []"
    | (packed) "?rest \<noteq> []" "fit (nat buflen) ?rest \<noteq> []"
    by blast
  then show ?case
  proof cases
    case at_end
    with g have "getdnames page children c (nat buflen) = ((0, []), c1)" by simp
    from ceph_dir_lib_getdnames [OF this, where d = d and tr = tr and cs = cs and k = k] at_end
    show ?thesis
      by (subst listdir_loop.simps)
         (auto simp: reply_def ERANGE_def getdnames_on_def intro!: exI [of _ "[Ceph_getdnames d buflen]"])
  next
    case small
    with g same have gg: "getdnames page children c (nat buflen) = ((- ERANGE, []), c)" by simp
    from small obtain e es where r: "?rest = e # es" by (cases ?rest) auto
    then have "e \<in> set ?ents" by (metis in_set_dropD list.set_intros(1))
    then have "length e + 1 \<le> length (names_bytes ?ents)" by (rule entry_le_names_bytes)
    moreover from small r have small_buf: "nat buflen < length e + 1"
      by (auto split: if_splits)
    moreover from \<open>e \<in> set ?ents\<close> assms(5) have "length e < 1073741824" by blast
    with small_buf less.prems(2) have dbl: "doubled buflen = buflen * 2"
      by (simp add: doubled_def to_int32_id)
    ultimately have "length (names_bytes ?ents) - nat (buflen * 2)
                       < length (names_bytes ?ents) - nat buflen"
      using less.prems(2) by linarith
    then have "length ?ents - pos c + (length (names_bytes ?ents) - nat (buflen * 2))
                 < length ?ents - pos c + (length (names_bytes ?ents) - nat buflen)"
      by linarith
    from less.hyps [OF this less.prems(1), of contents "tr @ [Ceph_getdnames d buflen]"]
      less.prems(2)
    obtain c' calls where
      ih: "listdir_loop E dir_lib d (buflen * 2) contents
             \<lparr> lw = ?W c,
               trace = tr @ [Ceph_getdnames d buflen] \<rparr>
           = Some (Inr (0, contents @ filter not_dot ?rest),
                   \<lparr> lw = ?W c',
                     trace = (tr @ [Ceph_getdnames d buflen]) @ calls \<rparr>)"
      and gc: "getdnames_on d calls"
      by auto
    have "listdir_loop E dir_lib d buflen contents ?m
            = listdir_loop E dir_lib d (buflen * 2) contents
                \<lparr> lw = ?W c,
                  trace = tr @ [Ceph_getdnames d buflen] \<rparr>"
      using assms(4) less.prems(2)
      by (subst listdir_loop.simps)
         (simp add: ceph_dir_lib_getdnames [OF gg] reply_def dbl new_nothrow_def)
    with ih gc show ?thesis
      by (intro exI [of _ c'] exI [of _ "Ceph_getdnames d buflen # calls"])
         (simp add: getdnames_on_def)
  next
    case packed
    let ?fit = "fit (nat buflen) ?rest"
    from packed g have gg: "getdnames page children c (nat buflen)
        = ((int (length (names_bytes ?fit)), names_bytes ?fit), c1)" by simp
    have pos_rc: "0 < int (length (names_bytes ?fit))"
      using packed(2) by (simp add: names_bytes_Nil_iff)
    have sub: "set ?fit \<subseteq> set ?ents"
      using set_fit [of "nat buflen" ?rest] set_drop_subset [of "pos c" ?ents] by blast
    with assms(5) have ok: "\<forall>n \<in> set ?fit. CHR 0x00 \<notin> set n \<and> new_string E n" by blast
    from split_names_bytes [OF ok, of not_dot "[]" contents]
    have sp: "split_names E not_dot (names_bytes ?fit) (int (length (names_bytes ?fit))) 0 contents
                = Some (contents @ filter not_dot ?fit)"
      by simp
    have k: "0 < length ?fit" using packed(2) by simp
    have "pos c < length ?ents" using packed(1) by simp
    with p1 k have "length ?ents - pos c1 + (length (names_bytes ?ents) - nat buflen)
                 < length ?ents - pos c + (length (names_bytes ?ents) - nat buflen)"
      by linarith
    from less.hyps [OF this w1 less.prems(2),
        of "contents @ filter not_dot ?fit" "tr @ [Ceph_getdnames d buflen]"]
    obtain c' calls where
      ih: "listdir_loop E dir_lib d buflen (contents @ filter not_dot ?fit)
             \<lparr> lw = ?W c1,
               trace = tr @ [Ceph_getdnames d buflen] \<rparr>
           = Some (Inr (0, (contents @ filter not_dot ?fit)
                           @ filter not_dot (drop (pos c1) ?ents)),
                   \<lparr> lw = ?W c',
                     trace = (tr @ [Ceph_getdnames d buflen]) @ calls \<rparr>)"
      and gc: "getdnames_on d calls"
      by auto
    have split: "?rest = ?fit @ drop (pos c1) ?ents"
    proof -
      have "?rest = take (length ?fit) ?rest @ drop (length ?fit) ?rest"
        by (simp only: append_take_drop_id)
      also have "take (length ?fit) ?rest = ?fit" by (rule fit_prefix [symmetric])
      also have "drop (length ?fit) ?rest = drop (pos c1) ?ents"
        by (simp add: p1 add.commute)
      finally show ?thesis .
    qed
    have "filter not_dot ?rest = filter not_dot ?fit @ filter not_dot (drop (pos c1) ?ents)"
      by (subst split) simp
    then have res: "(contents @ filter not_dot ?fit) @ filter not_dot (drop (pos c1) ?ents)
                 = contents @ filter not_dot ?rest" by simp
    have "listdir_loop E dir_lib d buflen contents ?m
            = listdir_loop E dir_lib d buflen (contents @ filter not_dot ?fit)
                \<lparr> lw = ?W c1,
                  trace = tr @ [Ceph_getdnames d buflen] \<rparr>"
      using pos_rc sp
      by (subst listdir_loop.simps)
         (simp add: ceph_dir_lib_getdnames [OF gg] reply_def ERANGE_def)
    with ih gc res show ?thesis
      by (intro exI [of _ c'] exI [of _ "Ceph_getdnames d buflen # calls"])
         (simp add: getdnames_on_def)
  qed
qed


lemma mounted_dir_lib: "mounted dir_lib m"
  by (simp add: mounted_def dir_lib_def)

lemma listdir_dir_lib:
  assumes "0 < page" and "\<forall>n. new_chars E n" and "\<forall>s. new_string E s"
    and "\<forall>e \<in> set children. CHR 0x00 \<notin> set e \<and> length e < 1073741824"
    and "pin_string E p" and "cs k = None"
  shows "\<exists>calls.
           native_ceph_listdir E dir_lib
             \<lparr> lw = \<lparr> dw_children = children, dw_page = page, dw_cursors = cs, dw_next = k \<rparr>,
               trace = [] \<rparr>
             (JRef p)
           = Some (new_string_array E (filter not_dot children),
                   \<lparr> lw = \<lparr> dw_children = children, dw_page = page, dw_cursors = cs,
                            dw_next = Suc k \<rparr>,
                     trace = [Ceph_get_mount_context, Ceph_is_mounted, Ceph_opendir p]
                               @ calls @ [Ceph_closedir k] \<rparr>)
           \<and> getdnames_on k calls"
proof -
  let ?w = "\<lambda>c n. \<lparr> dw_children = children, dw_page = page, dw_cursors = c, dw_next = n \<rparr>"
  let ?t0 = "[Ceph_get_mount_context, Ceph_is_mounted]"
  have ents: "\<forall>e \<in> set (entries children).
                CHR 0x00 \<notin> set e \<and> new_string E e \<and> length e < 1073741824"
    using assms(3,4) by (simp add: entries_def)
  from listdir_loop_dir_lib [OF wf_cursor_opendir assms(1) _ assms(2) ents,
      where buflen = 256 and d = k and cs = cs and k = "Suc k" and contents = "[]"
        and tr = "?t0 @ [Ceph_opendir p]"]
  obtain c' calls where
    l: "listdir_loop E dir_lib k 256 []
          \<lparr> lw = ?w (cs (k \<mapsto> opendir)) (Suc k), trace = ?t0 @ [Ceph_opendir p] \<rparr>
          = Some (Inr (0, filter not_dot (entries children)),
                  \<lparr> lw = ?w (cs (k \<mapsto> c')) (Suc k),
                    trace = (?t0 @ [Ceph_opendir p]) @ calls \<rparr>)"
    and g: "getdnames_on k calls"
    by (auto simp: opendir_def)
  have f: "filter not_dot (entries children) = filter not_dot children"
    by (simp add: entries_def not_dot_def)
  have o: "ceph dir_lib (Ceph_opendir p) \<lparr> lw = ?w cs k, trace = ?t0 \<rparr>
             = ((reply 0) \<lparr> out_dirp := k \<rparr>,
                \<lparr> lw = ?w (cs (k \<mapsto> opendir)) (Suc k), trace = ?t0 @ [Ceph_opendir p] \<rparr>)"
    by (simp add: ceph_def dir_lib_def)
  have c: "snd (ceph dir_lib (Ceph_closedir k)
                  \<lparr> lw = ?w (cs (k \<mapsto> c')) (Suc k),
                    trace = (?t0 @ [Ceph_opendir p]) @ calls \<rparr>)
             = \<lparr> lw = ?w cs (Suc k),
                 trace = ?t0 @ [Ceph_opendir p] @ calls @ [Ceph_closedir k] \<rparr>"
    using assms(6) by (simp add: ceph_def dir_lib_def fun_upd_idem)
  have "native_ceph_listdir E dir_lib \<lparr> lw = ?w cs k, trace = [] \<rparr> (JRef p)
          = Some (new_string_array E (filter not_dot children),
                  \<lparr> lw = ?w cs (Suc k),
                    trace = ?t0 @ [Ceph_opendir p] @ calls @ [Ceph_closedir k] \<rparr>)"
    using assms(2,5) l c
    by (simp add: native_ceph_listdir_def enter_defs mounted_dir_lib GetStringUTFChars_def o
        listdir_body_def reply_def f new_nothrow_def)
  with g show ?thesis by auto
qed


text \<open>
  C9. Whatever libcephfs and the runtime do, if \<open>listdir\<close> returns, the array it returns
  holds neither \<open>.\<close> nor \<open>..\<close>, and the calls it made are, after the query for the
  context: nothing more (a null path); or the query "is mounted" (not mounted, or the path
  cannot be pinned); or then \<open>ceph_opendir\<close> alone, when it failed; or \<open>ceph_opendir\<close>,
  reads of the cursor that \<open>ceph_opendir\<close> gave, and \<open>ceph_closedir\<close> of that very
  cursor as the last call, on the error paths too. And on every directory of the
  enumerator (which delivers \<open>.\<close> and \<open>..\<close> first), whatever handle the library gives
  and whatever other cursors are open, with a runtime that grants the buffers and
  strings and names shorter than \<open>2^30\<close> bytes, \<open>listdir\<close> does return: the names it
  stores are the directory's other names, all of them, in delivery order, and the table
  of open cursors is afterwards what it was before.
\<close>

theorem C9_listdir_filters_and_closes:
  "(native_ceph_listdir E L m j_path = Some ((ex, arr), m') \<longrightarrow>
      (\<forall>a. arr = Some a \<longrightarrow> ''.'' \<notin> set a \<and> ''..'' \<notin> set a)
      \<and> (case j_path of
            JNull \<Rightarrow> trace m' = trace m @ [Ceph_get_mount_context] \<and> arr = None
          | JRef p \<Rightarrow>
              if \<not> mounted L m \<or> \<not> pin_string E p
              then trace m' = trace m @ [Ceph_get_mount_context, Ceph_is_mounted] \<and> arr = None
              else if ret (opendir_reply L m p) \<noteq> 0
              then trace m' = trace m @ [Ceph_get_mount_context, Ceph_is_mounted, Ceph_opendir p]
                   \<and> arr = None
              else \<exists>calls.
                     trace m' = trace m @ [Ceph_get_mount_context, Ceph_is_mounted, Ceph_opendir p]
                                  @ calls @ [Ceph_closedir (out_dirp (opendir_reply L m p))]
                     \<and> getdnames_on (out_dirp (opendir_reply L m p)) calls))
   \<and> (0 < page \<and> (\<forall>n. new_chars E' n) \<and> (\<forall>s. new_string E' s)
        \<and> (\<forall>e \<in> set children. CHR 0x00 \<notin> set e \<and> length e < 1073741824)
        \<and> pin_string E' d \<and> cs k = None \<longrightarrow>
      (\<exists>calls.
         native_ceph_listdir E' dir_lib
           \<lparr> lw = \<lparr> dw_children = children, dw_page = page, dw_cursors = cs, dw_next = k \<rparr>,
             trace = [] \<rparr>
           (JRef d)
         = Some (new_string_array E' (filter not_dot children),
                 \<lparr> lw = \<lparr> dw_children = children, dw_page = page, dw_cursors = cs,
                          dw_next = Suc k \<rparr>,
                   trace = [Ceph_get_mount_context, Ceph_is_mounted, Ceph_opendir d]
                             @ calls @ [Ceph_closedir k] \<rparr>)
         \<and> getdnames_on k calls))"
  using listdir_any [of E L m j_path ex arr m'] listdir_dir_lib [of page E' children d cs k]
  by blast

theorem C9_listdir_witness:
  "\<exists>calls.
     native_ceph_listdir env_ok dir_lib
       \<lparr> lw = \<lparr> dw_children = [''a'', ''b''], dw_page = 1,
                dw_cursors = [3 \<mapsto> \<lparr> pos = 1, readahead = [] \<rparr>], dw_next = 7 \<rparr>,
         trace = [] \<rparr>
       (JRef ''d'')
     = Some ((None, Some [''a'', ''b'']),
             \<lparr> lw = \<lparr> dw_children = [''a'', ''b''], dw_page = 1,
                      dw_cursors = [3 \<mapsto> \<lparr> pos = 1, readahead = [] \<rparr>], dw_next = Suc 7 \<rparr>,
               trace = [Ceph_get_mount_context, Ceph_is_mounted, Ceph_opendir ''d'']
                         @ calls @ [Ceph_closedir 7] \<rparr>)
     \<and> getdnames_on 7 calls"
proof -
  have h: "0 < (1::nat) \<and> (\<forall>n. new_chars env_ok n) \<and> (\<forall>s. new_string env_ok s)
           \<and> (\<forall>e \<in> set [''a'', ''b'']. CHR 0x00 \<notin> set e \<and> length e < 1073741824)
           \<and> pin_string env_ok ''d''
           \<and> [3 \<mapsto> \<lparr> pos = 1, readahead = [] \<rparr>] (7 :: nat) = None"
    by (simp add: env_ok_def)
  have v: "new_string_array env_ok (filter not_dot [''a'', ''b'']) = (None, Some [''a'', ''b''])"
    by (simp add: new_string_array_def not_dot_def env_ok_def loaded_classes_def)
  from C9_listdir_filters_and_closes
    [where E' = env_ok and page = 1 and children = "[''a'', ''b'']" and d = "''d''"
       and cs = "[3 \<mapsto> \<lparr> pos = 1, readahead = [] \<rparr>]" and k = 7,
      THEN conjunct2, rule_format, OF h]
  show ?thesis unfolding v .
qed


lemma long_text_simps: "length (long_text n) = n" "CHR 0x00 \<notin> set (long_text n)"
  by (auto simp: long_text_def)

text \<open>
  The buffer lengths \<open>listdir\<close> offers, on a directory whose one child has a name of 300
  bytes: 256 for \<open>.\<close> and \<open>..\<close>, 256 again, which is too small for the child, then 512
  for the child and 512 for the end of the directory.
\<close>

lemma listdir_replay:
  "native_ceph_listdir env_ok dir_lib
     \<lparr> lw = \<lparr> dw_children = [long_text 300], dw_page = 2, dw_cursors = Map.empty,
              dw_next = 7 \<rparr>, trace = [] \<rparr>
     (JRef ''d'')
   = Some ((None, Some [long_text 300]),
           \<lparr> lw = \<lparr> dw_children = [long_text 300], dw_page = 2, dw_cursors = Map.empty,
                    dw_next = 8 \<rparr>,
             trace = [Ceph_get_mount_context, Ceph_is_mounted, Ceph_opendir ''d'',
                      Ceph_getdnames 7 256, Ceph_getdnames 7 256, Ceph_getdnames 7 512,
                      Ceph_getdnames 7 512, Ceph_closedir 7] \<rparr>)"
proof -
  let ?lt = "long_text 300"
  let ?w = "\<lambda>c n. \<lparr> dw_children = [?lt], dw_page = 2, dw_cursors = c, dw_next = n \<rparr>"
  let ?c2 = "\<lparr> pos = 2, readahead = [] \<rparr>"
  let ?c3 = "\<lparr> pos = 3, readahead = [] \<rparr>"
  let ?dots = "names_bytes [''.'', ''..'']"
  have lt: "length ?lt = 300" "CHR 0x00 \<notin> set ?lt" by (simp_all add: long_text_simps)
  have g1: "getdnames 2 [?lt] opendir (nat 256) = ((5, ?dots), ?c2)"
    by (simp add: getdnames_def pack_names.simps readdir_def opendir_def listEntries_def
        names_bytes_def lt)
  have g2: "getdnames 2 [?lt] ?c2 (nat 256) = ((- ERANGE, []), ?c2)"
    by (simp add: getdnames_def pack_names.simps readdir_def listEntries_def lt)
  have g3: "getdnames 2 [?lt] ?c2 (nat 512) = ((301, names_bytes [?lt]), ?c3)"
    by (simp add: getdnames_def pack_names.simps readdir_def listEntries_def names_bytes_def lt)
  have g4: "getdnames 2 [?lt] ?c3 (nat 512) = ((0, []), ?c3)"
    by (simp add: getdnames_def pack_names.simps readdir_def listEntries_def lt)
  have sp1: "split_names env_ok not_dot ?dots 5 0 [] = Some []"
    using split_names_bytes [of "[''.'', ''..'']" env_ok not_dot "[]" "[]"]
    by (simp add: names_bytes_def env_ok_def not_dot_def)
  have "length ?lt \<noteq> length ''.''" "length ?lt \<noteq> length ''..''"
    by (simp_all add: lt)
  then have nd: "not_dot ?lt"
    unfolding not_dot_def by metis
  have h3: "\<forall>n \<in> set [?lt]. CHR 0x00 \<notin> set n \<and> new_string env_ok n"
    by (simp add: lt env_ok_def)
  have sp3: "split_names env_ok not_dot (names_bytes [?lt]) 301 0 [] = Some [?lt]"
    using split_names_bytes [OF h3, of not_dot "[]" "[]"]
    by (simp add: names_bytes_def nd lt)
  have dbl: "doubled 256 = 512" "new_nothrow env_ok 512" "new_nothrow env_ok 256"
    by (simp_all add: doubled_def to_int32_def new_nothrow_def env_ok_def)
  let ?t3 = "[Ceph_get_mount_context, Ceph_is_mounted, Ceph_opendir ''d'']"
  have l4: "listdir_loop env_ok dir_lib 7 512 [?lt]
              \<lparr> lw = ?w [7 \<mapsto> ?c3] 8,
                trace = ?t3 @ [Ceph_getdnames 7 256, Ceph_getdnames 7 256,
                               Ceph_getdnames 7 512] \<rparr>
            = Some (Inr (0, [?lt]),
                    \<lparr> lw = ?w [7 \<mapsto> ?c3] 8,
                      trace = ?t3 @ [Ceph_getdnames 7 256, Ceph_getdnames 7 256,
                                     Ceph_getdnames 7 512, Ceph_getdnames 7 512] \<rparr>)"
    by (subst listdir_loop.simps)
       (simp add: ceph_dir_lib_getdnames [OF g4, where cs = Map.empty] reply_def ERANGE_def)
  have l3: "listdir_loop env_ok dir_lib 7 512 []
              \<lparr> lw = ?w [7 \<mapsto> ?c2] 8,
                trace = ?t3 @ [Ceph_getdnames 7 256, Ceph_getdnames 7 256] \<rparr>
            = Some (Inr (0, [?lt]),
                    \<lparr> lw = ?w [7 \<mapsto> ?c3] 8,
                      trace = ?t3 @ [Ceph_getdnames 7 256, Ceph_getdnames 7 256,
                                     Ceph_getdnames 7 512, Ceph_getdnames 7 512] \<rparr>)"
    using l4
    by (subst listdir_loop.simps)
       (simp add: ceph_dir_lib_getdnames [OF g3, where cs = Map.empty] reply_def ERANGE_def sp3)
  have l2: "listdir_loop env_ok dir_lib 7 256 []
              \<lparr> lw = ?w [7 \<mapsto> ?c2] 8, trace = ?t3 @ [Ceph_getdnames 7 256] \<rparr>
            = Some (Inr (0, [?lt]),
                    \<lparr> lw = ?w [7 \<mapsto> ?c3] 8,
                      trace = ?t3 @ [Ceph_getdnames 7 256, Ceph_getdnames 7 256,
                                     Ceph_getdnames 7 512, Ceph_getdnames 7 512] \<rparr>)"
    using l3
    by (subst listdir_loop.simps)
       (simp add: ceph_dir_lib_getdnames [OF g2, where cs = Map.empty] reply_def dbl)
  have l1: "listdir_loop env_ok dir_lib 7 256 []
              \<lparr> lw = ?w [7 \<mapsto> opendir] 8, trace = ?t3 \<rparr>
            = Some (Inr (0, [?lt]),
                    \<lparr> lw = ?w [7 \<mapsto> ?c3] 8,
                      trace = ?t3 @ [Ceph_getdnames 7 256, Ceph_getdnames 7 256,
                                     Ceph_getdnames 7 512, Ceph_getdnames 7 512] \<rparr>)"
    using l2
    by (subst listdir_loop.simps)
       (simp add: ceph_dir_lib_getdnames [OF g1, where cs = Map.empty] reply_def ERANGE_def sp1)
  have o: "ceph dir_lib (Ceph_opendir ''d'')
             \<lparr> lw = ?w Map.empty 7, trace = [Ceph_get_mount_context, Ceph_is_mounted] \<rparr>
             = ((reply 0) \<lparr> out_dirp := 7 \<rparr>, \<lparr> lw = ?w [7 \<mapsto> opendir] 8, trace = ?t3 \<rparr>)"
    by (simp add: ceph_def dir_lib_def)
  have c: "snd (ceph dir_lib (Ceph_closedir 7)
                  \<lparr> lw = ?w [7 \<mapsto> ?c3] 8,
                    trace = ?t3 @ [Ceph_getdnames 7 256, Ceph_getdnames 7 256,
                                   Ceph_getdnames 7 512, Ceph_getdnames 7 512] \<rparr>)
             = \<lparr> lw = ?w Map.empty 8,
                 trace = ?t3 @ [Ceph_getdnames 7 256, Ceph_getdnames 7 256,
                                Ceph_getdnames 7 512, Ceph_getdnames 7 512, Ceph_closedir 7] \<rparr>"
    by (simp add: ceph_def dir_lib_def)
  have a: "new_string_array env_ok [?lt] = (None, Some [?lt])"
    by (simp add: new_string_array_def env_ok_def loaded_classes_def)
  show ?thesis
    using l1 c
    by (simp add: native_ceph_listdir_def enter_defs mounted_dir_lib GetStringUTFChars_def o
        listdir_body_def reply_def dbl a env_ok_def [THEN arg_cong, of pin_string])
qed


lemma probe_double_last:
  "probe_double alloc need buflen = (bs, True) \<Longrightarrow> 0 < buflen \<Longrightarrow> bs \<noteq> [] \<and> need \<le> last bs"
proof (induction alloc need buflen arbitrary: bs rule: probe_double.induct)
  case (1 alloc need buflen)
  show ?case
  proof (cases "need \<le> buflen \<or> buflen \<le> 0")
    case True
    with "1.prems" have "bs = [buflen]" by (simp add: probe_double.simps [of alloc need buflen])
    with True "1.prems" show ?thesis by auto
  next
    case False
    with "1.prems" have a: "alloc (buflen * 2)"
      by (simp add: probe_double.simps [of alloc need buflen] split: if_splits)
    obtain bs' ok where r: "probe_double alloc need (buflen * 2) = (bs', ok)"
      by (cases "probe_double alloc need (buflen * 2)")
    with False a "1.prems" have e: "bs = buflen # bs'" "ok"
      by (simp_all add: probe_double.simps [of alloc need buflen])
    from "1.prems"(2) have "0 < buflen * 2" by simp
    from "1.IH" [OF False _ _ this] a r e(2)
    have "bs' \<noteq> [] \<and> need \<le> last bs'" by simp
    with e show ?thesis by simp
  qed
qed

lemma probe_double_nonempty: "probe_double alloc need buflen = (bs, ok) \<Longrightarrow> bs \<noteq> []"
  by (subst (asm) probe_double.simps) (auto split: if_splits prod.splits)

lemma doubled_below:
  "0 < buflen \<Longrightarrow> buflen < 1073741824 \<Longrightarrow> doubled buflen = buflen * 2"
  by (simp add: doubled_def to_int32_id)

lemma ceph_conf_lib:
  "ceph conf_lib (Ceph_conf_get opt len) \<lparr> lw = store, trace = tr \<rparr> =
     ((case store opt of
         None \<Rightarrow> reply (- ENOENT)
       | Some v \<Rightarrow> if len < int (length v) + 1 then reply (- ENAMETOOLONG)
                   else (reply 0) \<lparr> out_buf := v @ [CHR 0x00] \<rparr>),
      \<lparr> lw = store, trace = tr @ [Ceph_conf_get opt len] \<rparr>)"
  by (simp add: ceph_def conf_lib_def split: option.splits)

lemma conf_get_loop_conf_lib:
  assumes "store opt = Some v" and "0 < buflen" and "int (length v) + 1 \<le> 1073741824"
  shows "conf_get_loop E conf_lib opt buflen \<lparr> lw = store, trace = tr \<rparr> =
     (case probe_double (new_chars E) (int (length v) + 1) buflen of
        (bs, ok) \<Rightarrow>
          Some (if ok then Inr ((reply 0) \<lparr> out_buf := v @ [CHR 0x00] \<rparr>, last bs)
                else Inl (cephThrowOutOfMemory E ''head allocation failed''),
                \<lparr> lw = store, trace = tr @ map (Ceph_conf_get opt) bs \<rparr>))"
  using assms(2)
proof (induction "new_chars E" "int (length v) + 1" buflen arbitrary: tr rule: probe_double.induct)
  case (1 buflen)
  show ?case
  proof (cases "int (length v) + 1 \<le> buflen")
    case True
    then show ?thesis
      using assms(1)
      by (subst conf_get_loop.simps)
         (simp add: probe_double.simps [of _ _ buflen] ceph_conf_lib reply_def ENAMETOOLONG_def)
  next
    case False
    with assms(3) have small: "buflen < 1073741824" by simp
    note d = doubled_below [OF "1.prems" small] new_nothrow_def
    show ?thesis
    proof (cases "new_chars E (buflen * 2)")
      case no: False
      with False "1.prems" show ?thesis
        using assms(1)
        by (subst conf_get_loop.simps)
           (simp add: probe_double.simps [of _ _ buflen] ceph_conf_lib reply_def d)
    next
      case yes: True
      from False "1.prems" have c: "\<not> (int (length v) + 1 \<le> buflen \<or> buflen \<le> 0)" by simp
      from "1.prems" have p2: "0 < buflen * 2" by simp
      note ih = "1.hyps" [OF c _ p2, of "tr @ [Ceph_conf_get opt buflen]"]
      show ?thesis
        using False yes "1.prems" assms(1) ih
        by (subst conf_get_loop.simps)
           (auto simp: probe_double.simps [of _ _ buflen] ceph_conf_lib reply_def d
              dest: probe_double_nonempty split: prod.splits)
    qed
  qed
qed

lemma c_str_append: "CHR 0x00 \<notin> set v \<Longrightarrow> c_str (v @ rest) = v @ c_str rest"
  by (induction v) (auto simp: c_str_def)

lemma c_str_terminated: "CHR 0x00 \<notin> set v \<Longrightarrow> c_str (v @ [CHR 0x00]) = v"
  by (simp add: c_str_name)

text \<open>
  What \<open>NewStringUTF\<close> reads from a zeroed buffer into which a text without NUL was
  written: the text when the buffer is longer than the text, and the text followed by
  whatever lies behind the buffer when the text fills the buffer.
\<close>

lemma read_string_filled:
  assumes "CHR 0x00 \<notin> set v" and "int (length v) \<le> buflen"
  shows "read_string E (filled buflen v) =
           (if int (length v) < buflen then v else v @ c_str (beyond E))"
proof -
  have f: "filled buflen v = v @ replicate (nat buflen - length v) (CHR 0x00)"
    using assms(2) by (simp add: filled_def poke_def)
  show ?thesis
  proof (cases "int (length v) < buflen")
    case True
    then obtain k where k: "nat buflen - length v = Suc k"
      by (cases "nat buflen - length v") auto
    show ?thesis
      using True assms(1) by (simp add: read_string_def f k c_str_name)
  next
    case False
    with assms(2) have "nat buflen - length v = 0" by simp
    with False assms(1) show ?thesis by (simp add: read_string_def f c_str_append)
  qed
qed

lemma read_string_terminated:
  assumes "CHR 0x00 \<notin> set v" and "int (length v) + 1 \<le> buflen"
  shows "read_string E (filled buflen (v @ [CHR 0x00])) = v"
proof -
  have "filled buflen (v @ [CHR 0x00])
          = v @ CHR 0x00 # replicate (nat buflen - Suc (length v)) (CHR 0x00)"
    using assms(2) by (simp add: filled_def poke_def)
  then show ?thesis using assms(1) by (simp add: read_string_def c_str_name)
qed

text \<open>
  \<open>conf_get\<close> on a configuration that holds a value (shorter than \<open>2^30\<close> bytes): the
  lengths offered are the doubling sequence from 128, the whole value is returned when the
  last one suffices, and a refused allocation ends in \<open>cephThrowOutOfMemory\<close>.
\<close>

lemma conf_get_conf_lib:
  assumes "store opt = Some v" and "CHR 0x00 \<notin> set v" and "pin_string E opt"
    and "new_chars E 128" and "NewStringUTF E v" and "int (length v) + 1 \<le> 1073741824"
  shows "native_ceph_conf_get E conf_lib \<lparr> lw = store, trace = [] \<rparr> (JRef opt) =
     (case probe_double (new_chars E) (int (length v) + 1) 128 of
        (bs, ok) \<Rightarrow>
          Some (if ok then (None, Some v)
                else (cephThrowOutOfMemory E ''head allocation failed'', None),
                \<lparr> lw = store,
                  trace = Ceph_get_mount_context # map (Ceph_conf_get opt) bs \<rparr>))"
proof -
  obtain bs ok where p: "probe_double (new_chars E) (int (length v) + 1) 128 = (bs, ok)"
    by (cases "probe_double (new_chars E) (int (length v) + 1) 128")
  have l: "conf_get_loop E conf_lib opt 128 \<lparr> lw = store, trace = [Ceph_get_mount_context] \<rparr> =
          Some (if ok then Inr ((reply 0) \<lparr> out_buf := v @ [CHR 0x00] \<rparr>, last bs)
                else Inl (cephThrowOutOfMemory E ''head allocation failed''),
                \<lparr> lw = store, trace = [Ceph_get_mount_context] @ map (Ceph_conf_get opt) bs \<rparr>)"
    using conf_get_loop_conf_lib [where store = store and opt = opt and v = v and buflen = 128
        and E = E and tr = "[Ceph_get_mount_context]"] assms(1,6) p by simp
  show ?thesis
  proof (cases ok)
    case False
    with l p assms(3,4) show ?thesis
      by (simp add: native_ceph_conf_get_def enter_defs GetStringUTFChars_def new_nothrow_def)
  next
    case True
    with p probe_double_last [of "new_chars E" "int (length v) + 1" 128 bs]
    have "int (length v) + 1 \<le> last bs" by simp
    from read_string_terminated [OF assms(2) this]
    have "read_string E (filled (last bs) (v @ [CHR 0x00])) = v" .
    with True l p assms show ?thesis
      by (simp add: native_ceph_conf_get_def enter_defs GetStringUTFChars_def reply_def
          new_nothrow_def)
  qed
qed


lemma ceph_xattr_lib_list:
  "ceph xattr_lib (Ceph_listxattr p len) \<lparr> lw = store, trace = tr \<rparr>
     = (xattr_list store p len, \<lparr> lw = store, trace = tr @ [Ceph_listxattr p len] \<rparr>)"
  "ceph xattr_lib (Ceph_llistxattr p len) \<lparr> lw = store, trace = tr \<rparr>
     = (xattr_list store p len, \<lparr> lw = store, trace = tr @ [Ceph_llistxattr p len] \<rparr>)"
  by (simp_all add: ceph_def xattr_lib_def)

lemma listxattr_loop_xattr_lib:
  assumes "call = Ceph_listxattr \<or> call = Ceph_llistxattr"
    and "store p = Some kvs" and "0 < buflen"
    and "int (length (names_bytes (map fst kvs))) \<le> 1073741824"
  shows "listxattr_loop call E xattr_lib p buflen \<lparr> lw = store, trace = tr \<rparr> =
     (case probe_double (new_chars E) (int (length (names_bytes (map fst kvs)))) buflen of
        (bs, ok) \<Rightarrow>
          Some (if ok then Inr ((reply (int (length (names_bytes (map fst kvs)))))
                                  \<lparr> out_buf := names_bytes (map fst kvs) \<rparr>)
                else Inl (cephThrowOutOfMemory E ''heap allocation failed''),
                \<lparr> lw = store, trace = tr @ map (call p) bs \<rparr>))"
  using assms(3)
proof (induction "new_chars E" "int (length (names_bytes (map fst kvs)))" buflen
       arbitrary: tr rule: probe_double.induct)
  case (1 buflen)
  let ?B = "names_bytes (map fst kvs)"
  have c: "ceph xattr_lib (call p buflen) \<lparr> lw = store, trace = tr \<rparr>
             = (sized_reply ?B buflen, \<lparr> lw = store, trace = tr @ [call p buflen] \<rparr>)"
    using assms(1,2) by (auto simp: ceph_xattr_lib_list xattr_list_def)
  show ?case
  proof (cases "int (length ?B) \<le> buflen")
    case True
    with "1.prems" show ?thesis
      by (subst listxattr_loop.simps)
         (simp add: probe_double.simps [of _ _ buflen] c sized_reply_def reply_def ERANGE_def)
  next
    case False
    with assms(4) have small: "buflen < 1073741824" by simp
    note d = doubled_below [OF "1.prems" small] new_nothrow_def
    show ?thesis
    proof (cases "new_chars E (buflen * 2)")
      case no: False
      with False "1.prems" show ?thesis
        by (subst listxattr_loop.simps)
           (simp add: probe_double.simps [of _ _ buflen] c sized_reply_def reply_def d)
    next
      case yes: True
      from False "1.prems" have g: "\<not> (int (length ?B) \<le> buflen \<or> buflen \<le> 0)" by simp
      from "1.prems" have p2: "0 < buflen * 2" by simp
      note ih = "1.hyps" [OF g _ p2, of "tr @ [call p buflen]"]
      show ?thesis
        using False yes "1.prems" ih
        by (subst listxattr_loop.simps)
           (auto simp: probe_double.simps [of _ _ buflen] c sized_reply_def reply_def d
              dest: probe_double_nonempty split: prod.splits)
    qed
  qed
qed

text \<open>
  \<open>listxattr\<close> and \<open>llistxattr\<close> on a node that has attributes: the lengths offered
  are the doubling sequence from 1024, and all the names are returned when the last one
  suffices.
\<close>

lemma listxattr_body_xattr_lib:
  assumes "call = Ceph_listxattr \<or> call = Ceph_llistxattr"
    and "store p = Some kvs"
    and "\<forall>n \<in> set (map fst kvs). CHR 0x00 \<notin> set n \<and> new_string E n"
    and "pin_string E p" and "new_chars E 1024"
    and "int (length (names_bytes (map fst kvs))) \<le> 1073741824"
  shows "listxattr_body call E xattr_lib \<lparr> lw = store, trace = [] \<rparr> (JRef p) =
     (case probe_double (new_chars E) (int (length (names_bytes (map fst kvs)))) 1024 of
        (bs, ok) \<Rightarrow>
          Some (if ok then new_string_array E (map fst kvs)
                else (cephThrowOutOfMemory E ''heap allocation failed'', None),
                \<lparr> lw = store,
                  trace = Ceph_get_mount_context # Ceph_is_mounted # map (call p) bs \<rparr>))"
proof -
  let ?B = "names_bytes (map fst kvs)"
  let ?t0 = "[Ceph_get_mount_context, Ceph_is_mounted]"
  obtain bs ok where pd: "probe_double (new_chars E) (int (length ?B)) 1024 = (bs, ok)"
    by (cases "probe_double (new_chars E) (int (length ?B)) 1024")
  have l: "listxattr_loop call E xattr_lib p 1024 \<lparr> lw = store, trace = ?t0 \<rparr> =
          Some (if ok then Inr ((reply (int (length ?B))) \<lparr> out_buf := ?B \<rparr>)
                else Inl (cephThrowOutOfMemory E ''heap allocation failed''),
                \<lparr> lw = store, trace = ?t0 @ map (call p) bs \<rparr>)"
    using listxattr_loop_xattr_lib [where call = call and store = store and p = p
        and kvs = kvs and buflen = 1024 and E = E and tr = ?t0] assms(1,2,6) pd by simp
  from split_names_bytes [OF assms(3), of "\<lambda>_. True" "[]" "[]"]
  have sp: "split_names E (\<lambda>_. True) ?B (int (length ?B)) 0 [] = Some (map fst kvs)"
    by simp
  show ?thesis
    using l pd sp assms(4,5)
    by (simp add: listxattr_body_def enter_defs mounted_xattr_lib GetStringUTFChars_def
        reply_def new_nothrow_def)
qed

lemma ceph_pool_lib:
  "ceph pool_lib (Ceph_get_file_pool_name fd len) \<lparr> lw = name, trace = tr \<rparr>
     = (sized_reply name len, \<lparr> lw = name, trace = tr @ [Ceph_get_file_pool_name fd len] \<rparr>)"
  by (simp add: ceph_def pool_lib_def)

text \<open>
  \<open>get_file_pool_name\<close> on a file whose pool has a name: a name shorter than 128 bytes
  is returned after one call; a longer one after the query for its length and a third call
  into a buffer of exactly that length. A name of 128 bytes or more fills its buffer, which
  has no room for the terminating NUL, and \<open>NewStringUTF\<close> reads on behind the buffer.
\<close>

lemma pool_name_pool_lib:
  assumes "CHR 0x00 \<notin> set name" and "new_chars E 128" and "\<forall>s. NewStringUTF E s"
  shows "native_ceph_get_file_pool_name E pool_lib \<lparr> lw = name, trace = [] \<rparr> fd =
     Some (if length name < 128
           then ((None, Some name),
                 \<lparr> lw = name,
                   trace = [Ceph_get_mount_context, Ceph_is_mounted,
                            Ceph_get_file_pool_name fd 128] \<rparr>)
           else if length name = 128
           then ((None, Some (name @ c_str (beyond E))),
                 \<lparr> lw = name,
                   trace = [Ceph_get_mount_context, Ceph_is_mounted,
                            Ceph_get_file_pool_name fd 128] \<rparr>)
           else if new_chars E (int (length name))
           then ((None, Some (name @ c_str (beyond E))),
                 \<lparr> lw = name,
                   trace = [Ceph_get_mount_context, Ceph_is_mounted,
                            Ceph_get_file_pool_name fd 128, Ceph_get_file_pool_name fd 0,
                            Ceph_get_file_pool_name fd (int (length name))] \<rparr>)
           else ((cephThrowOutOfMemory E ''head allocation failed'', None),
                 \<lparr> lw = name,
                   trace = [Ceph_get_mount_context, Ceph_is_mounted,
                            Ceph_get_file_pool_name fd 128, Ceph_get_file_pool_name fd 0] \<rparr>))"
proof (cases "length name \<le> 128")
  case True
  let ?t0 = "[Ceph_get_mount_context, Ceph_is_mounted]"
  from True have "pool_name_loop E pool_lib fd 128 \<lparr> lw = name, trace = ?t0 \<rparr>
      = Some (Inr ((reply (int (length name))) \<lparr> out_buf := name \<rparr>, 128),
              \<lparr> lw = name, trace = ?t0 @ [Ceph_get_file_pool_name fd 128] \<rparr>)"
    by (subst pool_name_loop.simps)
       (simp add: ceph_pool_lib sized_reply_def reply_def ERANGE_def)
  moreover from True have "read_string E (filled 128 name) =
      (if int (length name) < 128 then name else name @ c_str (beyond E))"
    by (intro read_string_filled assms(1)) simp
  ultimately show ?thesis
    using True assms
    by (auto simp: native_ceph_get_file_pool_name_def enter_defs mounted_def pool_lib_def
        reply_def new_nothrow_def)
next
  case False
  then have ne: "name \<noteq> []" by auto
  let ?n = "int (length name)"
  let ?t0 = "[Ceph_get_mount_context, Ceph_is_mounted]"
  have s3: "pool_name_loop E pool_lib fd ?n
              \<lparr> lw = name,
                trace = ?t0 @ [Ceph_get_file_pool_name fd 128, Ceph_get_file_pool_name fd 0] \<rparr>
      = Some (Inr ((reply ?n) \<lparr> out_buf := name \<rparr>, ?n),
              \<lparr> lw = name,
                trace = ?t0 @ [Ceph_get_file_pool_name fd 128, Ceph_get_file_pool_name fd 0,
                               Ceph_get_file_pool_name fd ?n] \<rparr>)"
    using False ne
    by (subst pool_name_loop.simps)
       (simp add: ceph_pool_lib sized_reply_def reply_def ERANGE_def)
  have s2: "pool_name_loop E pool_lib fd 0
              \<lparr> lw = name, trace = ?t0 @ [Ceph_get_file_pool_name fd 128] \<rparr>
      = (if new_chars E ?n
         then pool_name_loop E pool_lib fd ?n
                \<lparr> lw = name,
                  trace = ?t0 @ [Ceph_get_file_pool_name fd 128, Ceph_get_file_pool_name fd 0] \<rparr>
         else Some (Inl (cephThrowOutOfMemory E ''head allocation failed''),
                    \<lparr> lw = name,
                      trace = ?t0 @ [Ceph_get_file_pool_name fd 128,
                                     Ceph_get_file_pool_name fd 0] \<rparr>))"
    using False ne
    by (subst pool_name_loop.simps)
       (simp add: ceph_pool_lib sized_reply_def reply_def ERANGE_def new_nothrow_def)
  have s1: "pool_name_loop E pool_lib fd 128 \<lparr> lw = name, trace = ?t0 \<rparr>
      = pool_name_loop E pool_lib fd 0
          \<lparr> lw = name, trace = ?t0 @ [Ceph_get_file_pool_name fd 128] \<rparr>"
    using False ne
    by (subst pool_name_loop.simps)
       (simp add: ceph_pool_lib sized_reply_def reply_def)
  have rd: "read_string E (filled ?n name) = name @ c_str (beyond E)"
    using read_string_filled [OF assms(1), of ?n E] by simp
  show ?thesis
    using False assms s1 s2 s3 rd
    by (simp add: native_ceph_get_file_pool_name_def enter_defs mounted_def pool_lib_def
        reply_def new_nothrow_def)
qed


text \<open>
  C6. The claim: every operation with a result of unknown length follows the
  probe-then-fetch protocol and returns the complete result, or fails with the
  out-of-memory condition when an allocation fails. \<open>conf_get\<close>, \<open>listxattr\<close>,
  \<open>llistxattr\<close> and \<open>listdir\<close> do return the complete result (lemmas
  \<open>conf_get_conf_lib\<close>, \<open>listxattr_body_xattr_lib\<close>, \<open>listdir_dir_lib\<close>), and so does
  \<open>get_file_pool_name\<close> for a name shorter than 128 bytes. For a longer name it asks
  for the exact length and allocates exactly that, without a byte for the terminating NUL
  that \<open>NewStringUTF\<close> needs (\<open>readlink\<close> allocates \<open>st_size + 1\<close> and sets the NUL
  itself): with \<open>XYZ\<close> behind the buffer, a name of 128 or of 130 bytes comes back with
  \<open>XYZ\<close> appended. And when an allocation fails, \<open>cephThrowOutOfMemory\<close> names the class
  \<open>java/lang/OutOfMemoryException\<close>, which the JDK does not have, so what is pending is
  the runtime's own error for the missing class, not an out-of-memory exception.
\<close>

theorem C6_pool_name_read_past_buffer:
  "native_ceph_get_file_pool_name (env_behind ''XYZ'') pool_lib
       \<lparr> lw = long_text 128, trace = [] \<rparr> 3
     = Some ((None, Some (long_text 128 @ ''XYZ'')),
             \<lparr> lw = long_text 128,
               trace = [Ceph_get_mount_context, Ceph_is_mounted,
                        Ceph_get_file_pool_name 3 128] \<rparr>)
   \<and> native_ceph_get_file_pool_name (env_behind ''XYZ'') pool_lib
       \<lparr> lw = long_text 130, trace = [] \<rparr> 3
     = Some ((None, Some (long_text 130 @ ''XYZ'')),
             \<lparr> lw = long_text 130,
               trace = [Ceph_get_mount_context, Ceph_is_mounted,
                        Ceph_get_file_pool_name 3 128, Ceph_get_file_pool_name 3 0,
                        Ceph_get_file_pool_name 3 130] \<rparr>)
   \<and> long_text 128 @ ''XYZ'' \<noteq> long_text 128
   \<and> native_ceph_conf_get (env_upto 128) conf_lib
        \<lparr> lw = [''k'' \<mapsto> long_text 200], trace = [] \<rparr> (JRef ''k'')
     = Some ((Some ThrownByJVM, None),
             \<lparr> lw = [''k'' \<mapsto> long_text 200],
               trace = [Ceph_get_mount_context, Ceph_conf_get ''k'' 128] \<rparr>)"
proof (intro conjI)
  let ?E = "env_behind ''XYZ''"
  have h: "new_chars ?E 128" "\<forall>s. NewStringUTF ?E s" "\<And>n. new_chars ?E n"
    "c_str (beyond ?E) = ''XYZ''"
    by (simp_all add: env_behind_def env_ok_def c_str_def)
  from pool_name_pool_lib [OF long_text_simps(2) h(1,2), of 128 3]
  show "native_ceph_get_file_pool_name ?E pool_lib \<lparr> lw = long_text 128, trace = [] \<rparr> 3
     = Some ((None, Some (long_text 128 @ ''XYZ'')),
             \<lparr> lw = long_text 128,
               trace = [Ceph_get_mount_context, Ceph_is_mounted,
                        Ceph_get_file_pool_name 3 128] \<rparr>)"
    by (simp add: long_text_simps h(4))
  from pool_name_pool_lib [OF long_text_simps(2) h(1,2), of 130 3]
  show "native_ceph_get_file_pool_name ?E pool_lib \<lparr> lw = long_text 130, trace = [] \<rparr> 3
     = Some ((None, Some (long_text 130 @ ''XYZ'')),
             \<lparr> lw = long_text 130,
               trace = [Ceph_get_mount_context, Ceph_is_mounted,
                        Ceph_get_file_pool_name 3 128, Ceph_get_file_pool_name 3 0,
                        Ceph_get_file_pool_name 3 130] \<rparr>)"
    by (simp add: long_text_simps h(3,4))
  show "long_text 128 @ ''XYZ'' \<noteq> long_text 128" by simp
  have h1: "[''k'' \<mapsto> long_text 200] ''k'' = Some (long_text 200)"
    "pin_string (env_upto 128) ''k''" "new_chars (env_upto 128) 128"
    "NewStringUTF (env_upto 128) (long_text 200)"
    "int (length (long_text 200)) + 1 \<le> 1073741824"
    by (simp_all add: long_text_simps env_ok_def env_upto_def)
  have p1: "probe_double (new_chars (env_upto 128)) (int (length (long_text 200)) + 1) 128
              = ([128], False)"
    by (simp add: probe_double.simps long_text_simps env_ok_def env_upto_def)
  have oom: "cephThrowOutOfMemory (env_upto 128) ''head allocation failed'' = Some ThrownByJVM"
    by (simp add: cephThrowOutOfMemory_def THROW_def env_upto_def env_ok_def loaded_classes_def)
  from conf_get_conf_lib [where store = "[''k'' \<mapsto> long_text 200]" and opt = "''k''"
      and v = "long_text 200" and E = "env_upto 128", OF h1(1) long_text_simps(2) h1(2-5)]
  show "native_ceph_conf_get (env_upto 128) conf_lib
        \<lparr> lw = [''k'' \<mapsto> long_text 200], trace = [] \<rparr> (JRef ''k'')
     = Some ((Some ThrownByJVM, None),
             \<lparr> lw = [''k'' \<mapsto> long_text 200],
               trace = [Ceph_get_mount_context, Ceph_conf_get ''k'' 128] \<rparr>)"
    by (simp add: p1 oom)
qed

text \<open>
  Where the protocol does what the claim says, with the same bytes behind the buffers: a
  configuration value of 200 bytes after the lengths 128 and 256, the attribute names of a
  node from the first buffer of 1024 bytes, a pool name of 100 bytes.
\<close>

lemma probe_then_fetch_replay:
  "native_ceph_conf_get (env_behind ''XYZ'') conf_lib
       \<lparr> lw = [''k'' \<mapsto> long_text 200], trace = [] \<rparr> (JRef ''k'')
     = Some ((None, Some (long_text 200)),
             \<lparr> lw = [''k'' \<mapsto> long_text 200],
               trace = [Ceph_get_mount_context, Ceph_conf_get ''k'' 128,
                        Ceph_conf_get ''k'' 256] \<rparr>)"
  "native_ceph_listxattr (env_behind ''XYZ'') xattr_lib
        \<lparr> lw = [''f'' \<mapsto> [(''user.a'', ''1'')]], trace = [] \<rparr> (JRef ''f'')
     = Some ((None, Some [''user.a'']),
             \<lparr> lw = [''f'' \<mapsto> [(''user.a'', ''1'')]],
               trace = [Ceph_get_mount_context, Ceph_is_mounted,
                        Ceph_listxattr ''f'' 1024] \<rparr>)"
  "native_ceph_get_file_pool_name (env_behind ''XYZ'') pool_lib
       \<lparr> lw = long_text 100, trace = [] \<rparr> 3
     = Some ((None, Some (long_text 100)),
             \<lparr> lw = long_text 100,
               trace = [Ceph_get_mount_context, Ceph_is_mounted,
                        Ceph_get_file_pool_name 3 128] \<rparr>)"
proof -
  let ?E = "env_behind ''XYZ''"
  have h1: "[''k'' \<mapsto> long_text 200] ''k'' = Some (long_text 200)"
    "pin_string ?E ''k''" "new_chars ?E 128" "NewStringUTF ?E (long_text 200)"
    "int (length (long_text 200)) + 1 \<le> 1073741824"
    by (simp_all add: long_text_simps env_behind_def env_ok_def)
  have p1: "probe_double (new_chars ?E) (int (length (long_text 200)) + 1) 128
              = ([128, 256], True)"
    by (simp add: probe_double.simps long_text_simps env_behind_def env_ok_def)
  from conf_get_conf_lib [where store = "[''k'' \<mapsto> long_text 200]" and opt = "''k''"
      and v = "long_text 200" and E = ?E, OF h1(1) long_text_simps(2) h1(2-5)]
  show "native_ceph_conf_get ?E conf_lib
       \<lparr> lw = [''k'' \<mapsto> long_text 200], trace = [] \<rparr> (JRef ''k'')
     = Some ((None, Some (long_text 200)),
             \<lparr> lw = [''k'' \<mapsto> long_text 200],
               trace = [Ceph_get_mount_context, Ceph_conf_get ''k'' 128,
                        Ceph_conf_get ''k'' 256] \<rparr>)"
    by (simp add: p1)
  have h2: "[''f'' \<mapsto> [(''user.a'', ''1'')]] ''f'' = Some [(''user.a'', ''1'')]"
    "\<forall>n \<in> set (map fst [(''user.a'', ''1'')]). CHR 0x00 \<notin> set n \<and> new_string ?E n"
    "pin_string ?E ''f''" "new_chars ?E 1024"
    "int (length (names_bytes (map fst [(''user.a'', ''1'')]))) \<le> 1073741824"
    by (simp_all add: env_behind_def env_ok_def names_bytes_def)
  have p2: "probe_double (new_chars ?E) (int (length (names_bytes [''user.a'']))) 1024
              = ([1024], True)"
    by (simp add: probe_double.simps names_bytes_def)
  have a2: "new_string_array ?E [''user.a''] = (None, Some [''user.a''])"
    by (simp add: new_string_array_def env_behind_def env_ok_def loaded_classes_def)
  from listxattr_body_xattr_lib [where call = Ceph_listxattr
      and store = "[''f'' \<mapsto> [(''user.a'', ''1'')]]" and p = "''f''"
      and kvs = "[(''user.a'', ''1'')]" and E = ?E, OF disjI1 [OF refl] h2]
  show "native_ceph_listxattr ?E xattr_lib
        \<lparr> lw = [''f'' \<mapsto> [(''user.a'', ''1'')]], trace = [] \<rparr> (JRef ''f'')
     = Some ((None, Some [''user.a'']),
             \<lparr> lw = [''f'' \<mapsto> [(''user.a'', ''1'')]],
               trace = [Ceph_get_mount_context, Ceph_is_mounted,
                        Ceph_listxattr ''f'' 1024] \<rparr>)"
    by (simp add: native_ceph_listxattr_def p2 a2)
  have h3: "new_chars ?E 128" "\<forall>s. NewStringUTF ?E s"
    by (simp_all add: env_behind_def env_ok_def)
  from pool_name_pool_lib [OF long_text_simps(2) h3, of 100 3]
  show "native_ceph_get_file_pool_name ?E pool_lib \<lparr> lw = long_text 100, trace = [] \<rparr> 3
     = Some ((None, Some (long_text 100)),
             \<lparr> lw = long_text 100,
               trace = [Ceph_get_mount_context, Ceph_is_mounted,
                        Ceph_get_file_pool_name 3 128] \<rparr>)"
    by (simp add: long_text_simps)
qed


lemmas native_defs =
  native_ceph_statfs_def native_ceph_getcwd_def native_ceph_chdir_def native_ceph_listdir_def
  native_ceph_link_def native_ceph_unlink_def native_ceph_rename_def native_ceph_mkdir_def
  native_ceph_mkdirs_def native_ceph_rmdir_def native_ceph_readlink_def native_ceph_symlink_def
  native_ceph_lstat_def native_ceph_stat_def native_ceph_setattr_def native_ceph_chmod_def
  native_ceph_fchmod_def native_ceph_truncate_def native_ceph_open_def
  native_ceph_open_layout_def native_ceph_close_def native_ceph_lseek_def native_ceph_read_def
  native_ceph_write_def native_ceph_ftruncate_def native_ceph_fstat_def
  native_ceph_getxattr_def native_ceph_lgetxattr_def getxattr_body_def
  native_ceph_listxattr_def native_ceph_llistxattr_def listxattr_body_def
  native_ceph_removexattr_def native_ceph_lremovexattr_def native_ceph_setxattr_def
  native_ceph_lsetxattr_def setxattr_body_def native_ceph_get_file_stripe_unit_def
  native_ceph_get_file_replication_def native_ceph_get_file_pool_name_def
  path_op_def path2_op_def fd_op_def

lemmas as_defs = as_int_def as_stat_def as_statvfs_def as_bytes_def as_string_def as_strings_def

lemma unmounted_given:
  assumes "\<not> mounted L m" and "\<not> is_fsync c" and "args_given c"
  shows "invoke E L m c =
           Some ((not_mounted E, early_result c),
                 m \<lparr> trace := trace m @ [Ceph_get_mount_context, Ceph_is_mounted] \<rparr>)"
  using assms
  by (cases c) (simp_all add: native_defs as_defs enter_defs split: jref.splits)

lemma argument_errorI:
  "argument_error E (cephThrowNullArg E msg)" "argument_error E (cephThrowIndexBounds E msg)"
  by (auto simp: argument_error_def)

lemma not_given:
  assumes "\<not> args_given c"
  shows "\<exists>e. argument_error E e
             \<and> invoke E L m c =
                 Some ((e, early_result c), m \<lparr> trace := trace m @ [Ceph_get_mount_context] \<rparr>)"
  using assms
  by (cases c)
     (auto simp: native_defs as_defs enter_defs argument_errorI split: jref.splits)


text \<open>
  C1. The claim: every listed operation, invoked while the handle is not mounted, fails with
  the not-mounted error. It does not when a reference argument is null: the binding checks
  its arguments first, so \<open>statfs\<close> with a null path on an unmounted handle throws the
  null-argument exception, having asked libcephfs for nothing but the context of the
  handle.
\<close>

theorem C1_null_argument_counterexample:
  "invoke env_ok unmounted_lib (fresh_mount 0) (Statfs JNull (JRef new_cephstatvfs))
     = Some ((Some (NullPointerException ''@path is null''),
              RStatVFS (- 1) (JRef new_cephstatvfs)),
             \<lparr> lw = 0, trace = [Ceph_get_mount_context] \<rparr>)"
  by (simp add: native_ceph_statfs_def as_statvfs_def enter_defs fresh_mount_def
      cephThrowNullArg_def THROW_def env_ok_def loaded_classes_def)

text \<open>
  C1, as amended. For every listed operation other than \<open>fsync\<close>, invoked while the
  handle is not mounted: the call returns early (\<open>-1\<close> or null) with the objects passed
  in untouched and the library behind the handle exactly as before; the only calls it made
  are the two read-only queries, \<open>ceph_get_mount_context\<close> and, when the arguments are
  in order, \<open>ceph_is_mounted\<close>. When the required references are non-null and the size
  is not negative it throws the not-mounted exception (pending whenever the runtime finds
  the class and the throw succeeds); otherwise it throws the null-argument or
  index-bounds exception of the argument check, which precedes the mounted check.
\<close>

theorem C1_unmounted_fails_before_libcephfs:
  assumes "\<not> mounted L m" and "\<not> is_fsync c"
  shows "(args_given c \<longrightarrow>
            invoke E L m c =
              Some ((not_mounted E, early_result c),
                    m \<lparr> trace := trace m @ [Ceph_get_mount_context, Ceph_is_mounted] \<rparr>))
       \<and> (\<not> args_given c \<longrightarrow>
            (\<exists>e. argument_error E e
                 \<and> invoke E L m c =
                     Some ((e, early_result c),
                           m \<lparr> trace := trace m @ [Ceph_get_mount_context] \<rparr>)))
       \<and> (FindClass E CEPH_NOTMOUNTED_CP \<and> ThrowNew E CephNotMountedException \<longrightarrow>
            not_mounted E = Some CephNotMountedException)"
  using unmounted_given [OF assms, of E] not_given [of c E L m]
  by (simp add: not_mounted_def THROW_def)

theorem C1_unmounted_witness:
  "invoke env_ok unmounted_lib (fresh_mount 0) (Chdir (JRef ''/''))
     = Some ((Some CephNotMountedException, RInt (- 1)),
             \<lparr> lw = 0, trace = [Ceph_get_mount_context, Ceph_is_mounted] \<rparr>)
   \<and> (\<exists>e. argument_error env_ok e
          \<and> invoke env_ok unmounted_lib (fresh_mount 0) (Read 3 JNull 0 0)
              = Some ((e, RBytes (- 1) JNull), \<lparr> lw = 0, trace = [Ceph_get_mount_context] \<rparr>))"
proof -
  have u: "\<not> mounted unmounted_lib (fresh_mount 0)"
    by (simp add: mounted_def unmounted_lib_def)
  have f: "\<not> is_fsync (Chdir (JRef ''/''))" "\<not> is_fsync (Read 3 JNull 0 0)" by simp_all
  have g: "args_given (Chdir (JRef ''/''))" "\<not> args_given (Read 3 JNull 0 0)" by simp_all
  have c: "FindClass env_ok CEPH_NOTMOUNTED_CP \<and> ThrowNew env_ok CephNotMountedException"
    by (simp add: env_ok_def loaded_classes_def CEPH_NOTMOUNTED_CP_def)
  from C1_unmounted_fails_before_libcephfs [OF u f(1), of env_ok] g(1) c
    C1_unmounted_fails_before_libcephfs [OF u f(2), of env_ok] g(2)
  show ?thesis by (simp add: fresh_mount_def)
qed

text \<open>
  \<open>fsync\<close> on the same unmounted handle: the call reaches libcephfs, and the error is
  the library's, not the not-mounted exception.
\<close>

lemma fsync_unmounted_reaches_libcephfs:
  "invoke env_ok unmounted_lib (fresh_mount 0) (Fsync 3 False)
     = Some ((Some (IOException 107), RInt (- 107)),
             \<lparr> lw = 1, trace = [Ceph_get_mount_context, Ceph_fsync 3 0] \<rparr>)"
  by (simp add: native_ceph_fsync_def as_int_def returning_def nonzero_def ceph_def enter_defs
      unmounted_lib_def fresh_mount_def reply_def throw_defs errno_defs ENOTCONN_def
      env_ok_def loaded_classes_def)


subsection \<open>The handle table\<close>

lemma descriptor_unknown:
  assumes "s_state s = MOUNTED" and "fd < 0 \<or> fd \<notin> fst ` set (s_handles s)"
  shows "descriptor_op s fd req = (Inl BadDescriptor, s)"
proof -
  from assms(2) have "lookup_handle s fd = None"
    by (auto simp: lookup_handle_def map_of_eq_None_iff)
  with assms(1) show ?thesis by (simp add: descriptor_op_def)
qed

lemma errno_of_bad_descriptor:
  "errno_of e = errno_of BadDescriptor \<longleftrightarrow> e = BadDescriptor"
  by (cases e) (simp_all add: errno_defs ENOTCONN_def EIO_def ENOMEM_def EACCES_def ENOSPC_def
      EISCONN_def)

text \<open>
  C2. In a mounted session, every operation that takes a descriptor (seek, read, write,
  truncate, fsync, stat, chmod, chown, the layout queries, close), given a descriptor that
  is negative or not currently open, fails with the bad-descriptor error and leaves the
  session exactly as it was; that error is reported as \<open>-EBADF\<close>, the number of no other
  failure kind.
\<close>

theorem C2_bad_descriptor:
  assumes "s_state s = MOUNTED" and "fd < 0 \<or> fd \<notin> fst ` set (s_handles s)"
  shows "descriptor_op s fd req = (Inl BadDescriptor, s)
         \<and> errno_of BadDescriptor = - EBADF
         \<and> (\<forall>e. e \<noteq> BadDescriptor \<longrightarrow> errno_of e \<noteq> errno_of BadDescriptor)"
  using descriptor_unknown [OF assms] errno_of_bad_descriptor by simp

theorem C2_witness:
  "s_state loopsyms_session = MOUNTED
   \<and> ((-1 :: int) < 0 \<or> (-1) \<notin> fst ` set (s_handles loopsyms_session))
   \<and> descriptor_op loopsyms_session (-1) (Req_chmod 429)
       = (Inl BadDescriptor, loopsyms_session)
   \<and> errno_of BadDescriptor = - 9
   \<and> IoFailure \<noteq> BadDescriptor
   \<and> errno_of IoFailure \<noteq> errno_of BadDescriptor"
  using C2_bad_descriptor [of loopsyms_session "-1" "Req_chmod 429"]
  by (simp add: loopsyms_session_def EBADF_def EIO_def)

text \<open>
  A descriptor is bad once it is closed; an open one is served. The Java binding hands
  the descriptor to libcephfs as it is and throws \<open>IOException\<close> for \<open>-EBADF\<close> and for
  \<open>-ELOOP\<close>.
\<close>

lemma closed_descriptor_is_bad:
  assumes "descriptor_op s fd Req_close = (Inr Done, s')"
  shows "descriptor_op s' fd req = (Inl BadDescriptor, s')"
proof -
  from assms have m: "s_state s = MOUNTED"
    by (auto simp: descriptor_op_def split: if_splits)
  with assms obtain h where "lookup_handle s fd = Some h"
    by (auto simp: descriptor_op_def split: option.splits)
  with assms m have s': "s' = s\<lparr>s_handles := filter (\<lambda>e. fst e \<noteq> fd) (s_handles s)\<rparr>"
    by (simp add: descriptor_op_def)
  have "s_state s' = MOUNTED" using m s' by simp
  moreover have "fd \<notin> fst ` set (s_handles s')" using s' by auto
  ultimately show ?thesis by (rule descriptor_unknown [OF _ disjI2])
qed

lemma open_descriptor_works:
  "descriptor_op loopsyms_session 0 (Req_read 3 (Some 2)) = (Inr (Data ''cde''), loopsyms_session)"
  "fst (descriptor_op loopsyms_session 0 (Req_seek 0 SEEK_END)) = Inr (Position 6)"
  "fst (descriptor_op loopsyms_session 0 Req_stripe_unit) = Inr (Number 4194304)"
  "fst (descriptor_op loopsyms_session 0 Req_replication) = Inr (Number 2)"
  by (simp_all add: descriptor_op_def lookup_handle_def loopsyms_session_def loopsyms_nodes_def
      on_file_def handle_layout_def SEEK_SET_def SEEK_CUR_def SEEK_END_def set_handle_def)

lemma binding_reports_EBADF_and_ELOOP:
  "handle_error env_ok (- EBADF) = Some (IOException EBADF)"
  "handle_error env_ok (- ELOOP) = Some (IOException ELOOP)"
  by (simp_all add: throw_defs errno_defs env_ok_def loaded_classes_def)

subsection \<open>The path resolver\<close>

lemma walk_through:
  "walk_plain ns cur dpath = Some d \<Longrightarrow>
   walk ns depth cur (dpath @ rest) follow = walk ns depth d rest follow"
proof (induction dpath arbitrary: cur)
  case Nil
  then show ?case by (simp split: option.splits node.splits)
next
  case (Cons c cs)
  from Cons.prems obtain parent names nxt p' names' where
    a: "map_of ns cur = Some (Directory parent names)" "c \<noteq> ''.''" "c \<noteq> ''..''"
       "map_of names c = Some nxt" "map_of ns nxt = Some (Directory p' names')"
       "walk_plain ns nxt cs = Some d"
    by (auto split: option.splits node.splits if_splits)
  from Cons.IH [OF a(6)] a(1-5) show ?case
    by (simp add: walk.simps)
qed

lemma walk_closed_links:
  assumes "closed_links ns links" and "x \<in> set links" and "follow \<or> rest \<noteq> []"
  shows "walk ns depth (fst x) (snd x # rest) follow = Inl SymlinkLoop"
  using assms(2)
proof (induction "MAXSYMLINKS - depth" arbitrary: depth x)
  case 0
  from assms(1) "0.prems" obtain y where y: "link_step ns x = Some y"
    by (auto simp: closed_links_def list_all_iff split: option.splits)
  obtain d n where x: "x = (d, n)" by (cases x)
  from y x obtain parent names l target where
    a: "map_of ns d = Some (Directory parent names)" "n \<noteq> ''.''" "n \<noteq> ''..''"
       "map_of names n = Some l" "map_of ns l = Some (SymbolicLink target)"
    by (auto simp: link_step_def split: option.splits node.splits if_splits)
  from 0 have "MAXSYMLINKS \<le> depth" by simp
  with a x assms(3) show ?case by (auto simp: walk.simps)
next
  case (Suc k)
  from assms(1) Suc.prems obtain y where y: "link_step ns x = Some y" and yin: "y \<in> set links"
    by (auto simp: closed_links_def list_all_iff split: option.splits)
  obtain d n where x: "x = (d, n)" by (cases x)
  from y x obtain parent names l target where
    a: "map_of ns d = Some (Directory parent names)" "n \<noteq> ''.''" "n \<noteq> ''..''"
       "map_of names n = Some l" "map_of ns l = Some (SymbolicLink target)"
       "split_path target \<noteq> []"
       "walk_plain ns (if is_absolute target then root_node else d) (butlast (split_path target))
          = Some (fst y)"
       "snd y = last (split_path target)"
    by (auto simp: link_step_def split: option.splits node.splits if_splits)
  from Suc.hyps(2) have lt: "\<not> MAXSYMLINKS \<le> depth" and k: "k = MAXSYMLINKS - Suc depth"
    by simp_all
  have sp: "split_path target @ rest = butlast (split_path target) @ (snd y # rest)"
    using a(6,8) by simp
  have "walk ns depth d (n # rest) follow
          = walk ns (Suc depth) (if is_absolute target then root_node else d)
              (split_path target @ rest) follow"
    using a(1-5) lt assms(3) by (auto simp: walk.simps(2) [of ns depth d n rest])
  also have "\<dots> = walk ns (Suc depth) (fst y) (snd y # rest) follow"
    unfolding sp by (rule walk_through [OF a(7)])
  also have "\<dots> = Inl SymlinkLoop"
    by (rule Suc.hyps(1) [OF k yin])
  finally show ?case using x by simp
qed

lemma loopsyms_self:
  "closed_links (s_nodes loopsyms_session) [(2, ''symdir'')]"
  "split_path ''/dir1/loop_dir/symdir/test_loopsym_file''
     = [''dir1'', ''loop_dir''] @ ''symdir'' # [''test_loopsym_file'']"
  "walk_plain (s_nodes loopsyms_session)
     (start_node loopsyms_session ''/dir1/loop_dir/symdir/test_loopsym_file'')
     [''dir1'', ''loop_dir''] = Some 2"
  by code_simp+

lemma loopsyms_cycle:
  "closed_links (s_nodes loopsyms_session) [(1, ''a''), (1, ''c''), (1, ''b'')]"
  "split_path ''/dir1/a'' = [''dir1''] @ ''a'' # []"
  "walk_plain (s_nodes loopsyms_session) (start_node loopsyms_session ''/dir1/a'') [''dir1'']
     = Some 1"
  by code_simp+

text \<open>
  C5. Path resolution is a total function, bounded by its depth counter. In a mounted
  session, \<open>open\<close> of a path that leads, through plain directories, to a link of a cycle
  of symbolic links (a closed list of links: one link to itself, three links in a ring,
  or any other) fails with the symlink-loop error, reported as \<open>-ELOOP\<close>, whatever follows
  the link in the path and whatever the flags, and leaves the session as it was.
\<close>

theorem C5_symlink_cycle_fails_open:
  assumes "s_state s = MOUNTED"
    and "closed_links (s_nodes s) links"
    and "(d, n) \<in> set links"
    and "split_path path = dpath @ n # rest"
    and "walk_plain (s_nodes s) (start_node s path) dpath = Some d"
  shows "session_open s path flags perm = (Inl SymlinkLoop, s)
         \<and> errno_of SymlinkLoop = - ELOOP"
proof -
  have "resolve s path True = walk (s_nodes s) 0 d (n # rest) True"
    unfolding resolve_def assms(4) by (rule walk_through [OF assms(5)])
  also have "\<dots> = Inl SymlinkLoop"
    using walk_closed_links [OF assms(2,3), of True rest 0] by simp
  finally show ?thesis using assms(1) by (simp add: session_open_def)
qed

theorem C5_witness:
  "s_state loopsyms_session = MOUNTED
   \<and> closed_links (s_nodes loopsyms_session) [(2, ''symdir'')]
   \<and> (2, ''symdir'') \<in> set [(2 :: nat, ''symdir'')]
   \<and> split_path ''/dir1/loop_dir/symdir/test_loopsym_file''
        = [''dir1'', ''loop_dir''] @ ''symdir'' # [''test_loopsym_file'']
   \<and> walk_plain (s_nodes loopsyms_session)
        (start_node loopsyms_session ''/dir1/loop_dir/symdir/test_loopsym_file'')
        [''dir1'', ''loop_dir''] = Some 2
   \<and> session_open loopsyms_session ''/dir1/loop_dir/symdir/test_loopsym_file''
        (O_CREAT OR O_RDWR) 384 = (Inl SymlinkLoop, loopsyms_session)
   \<and> closed_links (s_nodes loopsyms_session) [(1, ''a''), (1, ''c''), (1, ''b'')]
   \<and> session_open loopsyms_session ''/dir1/a'' O_RDWR 0 = (Inl SymlinkLoop, loopsyms_session)
   \<and> errno_of SymlinkLoop = - 40"
proof -
  have m: "s_state loopsyms_session = MOUNTED" by (simp add: loopsyms_session_def)
  have i1: "(2, ''symdir'') \<in> set [(2 :: nat, ''symdir'')]" by simp
  have i2: "(1, ''a'') \<in> set [(1 :: nat, ''a''), (1, ''c''), (1, ''b'')]" by simp
  note a = C5_symlink_cycle_fails_open [OF m loopsyms_self(1) i1 loopsyms_self(2,3),
      of "O_CREAT OR O_RDWR" 384]
  note b = C5_symlink_cycle_fails_open [OF m loopsyms_cycle(1) i2 loopsyms_cycle(2,3),
      of O_RDWR 0]
  from a b m i1 loopsyms_self loopsyms_cycle show ?thesis by (simp add: ELOOP_def)
qed

text \<open>Without a cycle, \<open>open\<close> on the same file system succeeds or fails otherwise.\<close>

lemma open_without_cycle:
  "fst (session_open loopsyms_session ''/file'' O_RDWR 0) = Inr 1"
  "fst (session_open loopsyms_session ''dir1/loop_dir/new'' (O_CREAT OR O_RDWR) 384) = Inr 1"
  "fst (session_open loopsyms_session ''/dir1/missing'' O_RDWR 0) = Inl NotFound"
  "fst (session_open loopsyms_session ''/file/x'' O_RDWR 0) = Inl NotADirectory"
  "fst (session_open loopsyms_session ''/file'' (O_CREAT OR O_EXCL) 384) = Inl AlreadyExists"
  by code_simp+


end
